theory Spec2Isabelle
  imports Main
begin

section \<open>JavaScript values used by the SDK\<close>

text \<open>
  The repository holds two generations of the class \<open>SoulWallet\<close> of the SDK.
  The later one returns \<open>Result\<close> values from its public methods
  (\<open>getOnChainConfig\<close>, \<open>preFund\<close>, \<open>estimateUserOperationGas\<close> with its optional
  guard hook input, \<open>sendUserOperation\<close>, \<open>walletDeployed\<close>, \<open>fromTransaction\<close>);
  its definitions carry the source's names. The earlier one
  (packages/soulwallet-sdk/src/soulWallet.ts) throws instead of returning \<open>Err\<close>;
  its definitions carry the suffix \<open>_v1\<close>.

  The methods are asynchronous: each one either resolves with a value or rejects
  with a thrown value. Both layers are kept apart, since the source distinguishes
  a returned \<open>Err\<close> from a \<open>throw\<close>.
\<close>

datatype UserOpErrorCodes = UnknownError | BundlerErrorCode int

datatype error = Error string | UserOpErrors UserOpErrorCodes string

datatype 'a result = Ok 'a | Err error

text \<open>
  A thrown value is an instance of \<open>Error\<close> (with its message) or anything else
  (\<open>error instanceof Error\<close> is false for it).
\<close>

datatype thrown = ThrownError string | ThrownValue

datatype 'a completion = Return 'a | Throw thrown

text \<open>
  A \<open>BigNumberish\<close> field holds a JavaScript number or bigint (only integral values
  are modelled) or a string.
\<close>

datatype BigNumberish = JSNumber int | JSString string

subsection \<open>Strings\<close>

definition toLowerChar :: "char \<Rightarrow> char" where
  "toLowerChar c =
     (case map_of (zip ''ABCDEFGHIJKLMNOPQRSTUVWXYZ'' ''abcdefghijklmnopqrstuvwxyz'') c of
        Some l \<Rightarrow> l
      | None \<Rightarrow> c)"

text \<open>\<open>String.prototype.toLowerCase\<close> on ASCII text (addresses and hashes are hex).\<close>

definition toLowerCase :: "string \<Rightarrow> string" where
  "toLowerCase s = map toLowerChar s"

text \<open>\<open>Array.prototype.join()\<close> with the default separator, a comma.\<close>

fun join :: "string list \<Rightarrow> string" where
  "join [] = []"
| "join [x] = x"
| "join (x # y # ys) = x @ '','' @ join (y # ys)"

fun isPrefix :: "string \<Rightarrow> string \<Rightarrow> bool" where
  "isPrefix [] ys = True"
| "isPrefix (x # xs) [] = False"
| "isPrefix (x # xs) (y # ys) = (x = y \<and> isPrefix xs ys)"

text \<open>
  \<open>hay.indexOf(needle)\<close>: the first position at which \<open>needle\<close> occurs in \<open>hay\<close>,
  or \<open>-1\<close>. \<open>indexOfFrom i\<close> searches the rest of the text, which starts at position
  \<open>i\<close>.
\<close>

fun indexOfFrom :: "int \<Rightarrow> string \<Rightarrow> string \<Rightarrow> int" where
  "indexOfFrom i [] needle = (if needle = [] then i else - 1)"
| "indexOfFrom i (h # hs) needle =
     (if isPrefix needle (h # hs) then i else indexOfFrom (i + 1) hs needle)"

definition indexOf :: "string \<Rightarrow> string \<Rightarrow> int" where
  "indexOf hay needle = indexOfFrom 0 hay needle"

subsection \<open>Numbers and bigints\<close>

text \<open>
  \<open>Number.isSafeInteger(Number(b))\<close> for a bigint \<open>b\<close>: the conversion is exact
  when \<open>|b| \<le> 2^53 - 1\<close>; a larger magnitude rounds to a double of magnitude at
  least \<open>2^53\<close>, which is not a safe integer.
\<close>

definition isSafeInteger :: "int \<Rightarrow> bool" where
  "isSafeInteger b = (- (2 ^ 53 - 1) \<le> b \<and> b \<le> 2 ^ 53 - 1)"

definition digitChar :: "int \<Rightarrow> char" where
  "digitChar d = ''0123456789abcdef'' ! nat d"

text \<open>The digits of a non-negative integer, most significant first.\<close>

function digits10 :: "int \<Rightarrow> string" where
  "digits10 n = (if n < 10 then [digitChar n] else digits10 (n div 10) @ [digitChar (n mod 10)])"
  by pat_completeness auto
termination
  by (relation "measure nat") auto

function digits16 :: "int \<Rightarrow> string" where
  "digits16 n = (if n < 16 then [digitChar n] else digits16 (n div 16) @ [digitChar (n mod 16)])"
  by pat_completeness auto
termination
  by (relation "measure nat") auto

declare digits10.simps [simp del] digits16.simps [simp del]

text \<open>The decimal text of a safe integer, as a template literal renders it.\<close>

definition numberToString :: "int \<Rightarrow> string" where
  "numberToString i =
     (if i < 0 then CHR ''-'' # digits10 (- i) else digits10 i)"

text \<open>\<open>BigInt.prototype.toString(16)\<close>.\<close>

definition toString16 :: "int \<Rightarrow> string" where
  "toString16 i =
     (if i < 0 then CHR ''-'' # digits16 (- i) else digits16 i)"

text \<open>The source's \<open>'0x' + v.toString(16)\<close>.\<close>

definition hexString :: "int \<Rightarrow> string" where
  "hexString v = ''0x'' @ toString16 v"

text \<open>
  The bigint remainder \<open>a % b\<close> truncates towards zero: its sign is the sign of
  \<open>a\<close>.
\<close>

definition bigintRem :: "int \<Rightarrow> int \<Rightarrow> int" where
  "bigintRem a b = sgn a * (\<bar>a\<bar> mod \<bar>b\<bar>)"

subsection \<open>The \<open>BigInt\<close> constructor\<close>

definition digitValue :: "char \<Rightarrow> int option" where
  "digitValue c =
     map_of (zip ''0123456789abcdef'' [0, 1, 2, 3, 4, 5, 6, 7, 8, 9, 10, 11, 12, 13, 14, 15])
       (toLowerChar c)"

fun parseDigits :: "int \<Rightarrow> string \<Rightarrow> int \<Rightarrow> int option" where
  "parseDigits b [] acc = Some acc"
| "parseDigits b (c # cs) acc =
     (case digitValue c of
        None \<Rightarrow> None
      | Some d \<Rightarrow> if d < b then parseDigits b cs (acc * b + d) else None)"

definition parseNonEmpty :: "int \<Rightarrow> string \<Rightarrow> int option" where
  "parseNonEmpty b cs = (if cs = [] then None else parseDigits b cs 0)"

definition isWhiteSpace :: "char \<Rightarrow> bool" where
  "isWhiteSpace c = (c \<in> set [CHR 0x09, CHR 0x0A, CHR 0x0B, CHR 0x0C, CHR 0x0D, CHR 0x20])"

definition trim :: "string \<Rightarrow> string" where
  "trim s = rev (dropWhile isWhiteSpace (rev (dropWhile isWhiteSpace s)))"

text \<open>
  \<open>StringToBigInt\<close>: optional white space around an optional integer literal, which
  is a signed decimal or an unsigned literal with prefix \<open>0x\<close>, \<open>0o\<close> or \<open>0b\<close>; the
  empty literal is zero; \<open>None\<close> is the \<open>SyntaxError\<close>.
\<close>

definition stringToBigInt :: "string \<Rightarrow> int option" where
  "stringToBigInt s =
     (case trim s of
        [] \<Rightarrow> Some 0
      | c # cs \<Rightarrow>
          (if c = CHR ''0'' \<and> cs \<noteq> [] \<and> toLowerChar (hd cs) = CHR ''x''
             then parseNonEmpty 16 (tl cs)
           else if c = CHR ''0'' \<and> cs \<noteq> [] \<and> toLowerChar (hd cs) = CHR ''o''
             then parseNonEmpty 8 (tl cs)
           else if c = CHR ''0'' \<and> cs \<noteq> [] \<and> toLowerChar (hd cs) = CHR ''b''
             then parseNonEmpty 2 (tl cs)
           else if c = CHR ''-'' then map_option uminus (parseNonEmpty 10 cs)
           else if c = CHR ''+'' then parseNonEmpty 10 cs
           else parseNonEmpty 10 (c # cs)))"

text \<open>\<open>BigInt(v)\<close>: the value, or the thrown \<open>SyntaxError\<close>.\<close>

definition BigInt :: "BigNumberish \<Rightarrow> thrown + int" where
  "BigInt v =
     (case v of
        JSNumber i \<Rightarrow> Inr i
      | JSString s \<Rightarrow>
          (case stringToBigInt s of
             None \<Rightarrow> Inl (ThrownError (''Cannot convert '' @ s @ '' to a BigInt''))
           | Some i \<Rightarrow> Inr i))"

section \<open>Data model\<close>

record onChainConfig =
  chainId :: int
  entryPoint :: string
  soulWalletLogic :: string

record UserOperation =
  sender :: string
  nonce :: BigNumberish
  initCode :: string
  callData :: string
  callGasLimit :: BigNumberish
  verificationGasLimit :: BigNumberish
  preVerificationGas :: BigNumberish
  maxFeePerGas :: BigNumberish
  maxPriorityFeePerGas :: BigNumberish
  paymasterAndData :: string
  signature :: string

record GuardHookInputData =
  hookSender :: string
  hookInputData :: string

record HookInputData =
  guardHooks :: "string list"
  inputData :: string

text \<open>A transaction of \<open>fromTransaction\<close>; \<open>None\<close> is an omitted (undefined) field.\<close>

record Transaction =
  txTo :: string
  txValue :: "BigNumberish option"
  txData :: "string option"
  txGasLimit :: "BigNumberish option"

text \<open>The bundler's answer to \<open>eth_estimateUserOperationGas\<close>.\<close>

record UserOpGas =
  gasPreVerificationGas :: BigNumberish
  gasVerificationGasLimit :: BigNumberish
  gasCallGasLimit :: BigNumberish

text \<open>The value \<open>preFund\<close> returns.\<close>

record PreFund =
  deposit :: string
  prefund :: string
  missfund :: string

text \<open>The three wallet calls whose ABI encoding \<open>fromTransaction\<close> asks for.\<close>

datatype WalletCall =
    Execute string string string
  | ExecuteBatchNoValue "string list" "string list"
  | ExecuteBatchWithValue "string list" "string list" "string list"

section \<open>Collaborators and state\<close>

text \<open>Every request sent to the node provider, a contract or the bundler.\<close>

datatype rpc =
    ProviderGetNetwork
  | FactoryWalletImpl
  | WalletEntryPoint string
  | BundlerGetNetwork
  | BundlerSupportedEntryPoints
  | BundlerEstimateUserOperationGas
  | BundlerSendUserOperation
  | EntryPointBalanceOf string
  | EntryPointGetNonce string string
  | ProviderGetCode string
  | WalletListPlugin string

text \<open>
  The collaborators of one call: the chain and the bundler as they answer during the
  call (a request answers with a value or rejects), the constructor's factory address,
  and the helpers of the SDK that live in other modules (\<open>TypeGuard\<close>, \<open>Signature\<close>,
  \<open>GasOverhead\<close>, \<open>getUserOpHash\<close>, the ABI encoder), taken as parameters.
  \<open>onlyAddress\<close> and \<open>onlyBytes\<close> are true when the guard answers \<open>Ok\<close>;
  \<open>calcGasOverhead\<close> mutates the operation and may throw. The bundler facade of
  the earlier generation answers \<open>{succ, result, errors}\<close>, read here as \<open>Ok result\<close>
  or \<open>Err errors\<close>. \<open>semiValidSignature_v1\<close> is \<open>Signature.semiValidSignature()\<close> of the
  earlier generation, and \<open>thrownText\<close> is the text its handlers derive from a
  caught value that has no message.
\<close>

record env =
  soulWalletFactoryAddress :: string
  providerGetNetwork :: "thrown + int"
  bundlerGetNetwork :: "thrown + int"
  factoryWalletImpl :: "thrown + string"
  walletEntryPoint :: "string \<Rightarrow> thrown + string"
  eth_supportedEntryPoints :: "thrown + string list result"
  eth_estimateUserOperationGas :: "string \<Rightarrow> UserOperation \<Rightarrow> thrown + UserOpGas result"
  eth_sendUserOperation :: "string \<Rightarrow> UserOperation \<Rightarrow> thrown + string result"
  entryPointBalanceOf :: "string \<Rightarrow> string \<Rightarrow> thrown + int"
  entryPointGetNonce :: "string \<Rightarrow> string \<Rightarrow> string \<Rightarrow> thrown + int"
  providerGetCode :: "string \<Rightarrow> thrown + string"
  walletListPlugin :: "string \<Rightarrow> thrown + string list"
  getUserOpHash :: "UserOperation \<Rightarrow> string \<Rightarrow> int \<Rightarrow> string"
  packSignature :: "string \<Rightarrow> string \<Rightarrow> HookInputData option \<Rightarrow> string"
  calcGasOverhead :: "UserOperation \<Rightarrow> UserOperation \<times> thrown option"
  onlyAddress :: "string \<Rightarrow> bool"
  onlyBytes :: "string \<Rightarrow> bool"
  maxToUint192 :: "string \<Rightarrow> string + int"
  encodeFunctionData :: "WalletCall \<Rightarrow> string"
  semiValidSignature_v1 :: string
  thrownText :: "thrown \<Rightarrow> string"

text \<open>
  Modelled from the spec: \<open>StorageCache\<close> (tools/storageCache.js) is not among the
  sources. It is the process-wide store behind \<open>StorageCache.getInstance()\<close>, with
  \<open>get(key, default)\<close> answering the stored value or the default and \<open>set(key, value)\<close>
  storing it; entries live until the process ends. The SDK keeps two families of keys
  in it, read at two types: \<open>onChainConfig_<factory>_<chainId>\<close> holding a config and
  \<open><wallet>-<chainId>\<close> holding a boolean. Each family is a map of its own here;
  the keys of one are never keys of the other (lemma \<open>keys_disjoint\<close>).
\<close>

record StorageCache =
  configEntries :: "string \<rightharpoonup> onChainConfig"
  deployedEntries :: "string \<rightharpoonup> bool"

text \<open>
  The mutable state a call can see and change: the store, the private fields
  \<open>_onChainConfig\<close> and \<open>_entryPointContract\<close> of the instance (the contract object is
  represented by its address), and the requests sent so far.
\<close>

record sdk =
  storageCache :: StorageCache
  this_onChainConfig :: "onChainConfig option"
  this_entryPointContract :: "string option"
  requests :: "rpc list"

definition sendRequest :: "rpc \<Rightarrow> sdk \<Rightarrow> sdk" where
  "sendRequest r s = s\<lparr>requests := requests s @ [r]\<rparr>"

definition setConfigEntry :: "string \<Rightarrow> onChainConfig \<Rightarrow> sdk \<Rightarrow> sdk" where
  "setConfigEntry key c s =
     s\<lparr>storageCache := (storageCache s)\<lparr>configEntries := (configEntries (storageCache s))(key \<mapsto> c)\<rparr>\<rparr>"

definition setDeployedEntry :: "string \<Rightarrow> bool \<Rightarrow> sdk \<Rightarrow> sdk" where
  "setDeployedEntry key b s =
     s\<lparr>storageCache := (storageCache s)\<lparr>deployedEntries := (deployedEntries (storageCache s))(key \<mapsto> b)\<rparr>\<rparr>"

text \<open>\<open>StorageCache.getInstance().get<boolean>(key, false)\<close>.\<close>

definition getDeployedEntry :: "sdk \<Rightarrow> string \<Rightarrow> bool" where
  "getDeployedEntry s key = (case deployedEntries (storageCache s) key of None \<Rightarrow> False | Some b \<Rightarrow> b)"

section \<open>The on-chain config\<close>

text \<open>The key \<open>`onChainConfig_${this.soulWalletFactoryAddress}_${_chainId}`\<close>.\<close>

definition onChainConfigKey :: "string \<Rightarrow> int \<Rightarrow> string" where
  "onChainConfigKey factory cid = ''onChainConfig_'' @ factory @ ''_'' @ numberToString cid"

text \<open>The bundler check of \<open>getOnChainConfig\<close>, after the entry has been stored.\<close>

definition checkBundler :: "env \<Rightarrow> onChainConfig \<Rightarrow> sdk \<Rightarrow> onChainConfig result completion \<times> sdk" where
  "checkBundler e c s =
     (let s1 = sendRequest BundlerSupportedEntryPoints s in
      case eth_supportedEntryPoints e of
        Inl t \<Rightarrow> (Throw t, s1)
      | Inr (Err er) \<Rightarrow> (Return (Err er), s1)
      | Inr (Ok eps) \<Rightarrow>
          if indexOf (toLowerCase (join eps)) (toLowerCase (entryPoint c)) = - 1
          then (Return (Err (Error (''Bundler network doesn't support entryPoint '' @ entryPoint c))), s1)
          else (Return (Ok c), s1\<lparr>this_onChainConfig := Some c\<rparr>))"

text \<open>The cache miss of \<open>getOnChainConfig\<close>: the body of \<open>if (!_onChainConfig)\<close>.\<close>

definition resolveOnChainConfig ::
  "env \<Rightarrow> string \<Rightarrow> int \<Rightarrow> sdk \<Rightarrow> onChainConfig result completion \<times> sdk" where
  "resolveOnChainConfig e key cid s =
     (let s1 = sendRequest FactoryWalletImpl s in
      case factoryWalletImpl e of
        Inl t \<Rightarrow> (Throw t, s1)
      | Inr logic \<Rightarrow>
          (let s2 = sendRequest (WalletEntryPoint logic) s1 in
           case walletEntryPoint e logic of
             Inl t \<Rightarrow> (Throw t, s2)
           | Inr ep \<Rightarrow>
               (let s3 = sendRequest BundlerGetNetwork s2 in
                case bundlerGetNetwork e of
                  Inl t \<Rightarrow> (Throw t, s3)
                | Inr bcid \<Rightarrow>
                    if \<not> isSafeInteger bcid
                    then (Return (Err (Error ''bundler chainId is not a safe integer'')), s3)
                    else if bcid = 0
                    then (Return (Err (Error ''Invalid bundler chainId'')), s3)
                    else if cid \<noteq> bcid
                    then (Return (Err (Error ''chainId !== bundler chainId'')), s3)
                    else
                      (let c = \<lparr>chainId = cid, entryPoint = ep, soulWalletLogic = logic\<rparr>
                       in checkBundler e c (setConfigEntry key c s3)))))"

definition getOnChainConfig :: "env \<Rightarrow> sdk \<Rightarrow> onChainConfig result completion \<times> sdk" where
  "getOnChainConfig e s =
     (case this_onChainConfig s of
        Some c \<Rightarrow> (Return (Ok c), s)
      | None \<Rightarrow>
          (let s1 = sendRequest ProviderGetNetwork s in
           case providerGetNetwork e of
             Inl t \<Rightarrow> (Throw t, s1)
           | Inr cid \<Rightarrow>
               if \<not> isSafeInteger cid
               then (Return (Err (Error ''chainId is not a safe integer'')), s1)
               else if cid = 0
               then (Return (Err (Error ''Invalid chainId'')), s1)
               else
                 (let key = onChainConfigKey (soulWalletFactoryAddress e) cid in
                  case configEntries (storageCache s1) key of
                    Some c \<Rightarrow> (Return (Ok c), s1\<lparr>this_onChainConfig := Some c\<rparr>)
                  | None \<Rightarrow> resolveOnChainConfig e key cid s1)))"

text \<open>The \<open>message\<close> of an error object.\<close>

fun errorMessage :: "error \<Rightarrow> string" where
  "errorMessage (Error m) = m"
| "errorMessage (UserOpErrors c m) = m"

text \<open>
  The handler \<open>catch (error) { if (error instanceof Error) return new Err(error);
  else return new Err(new Error("unknown error")); }\<close>.
\<close>

fun caughtError :: "thrown \<Rightarrow> error" where
  "caughtError (ThrownError m) = Error m"
| "caughtError ThrownValue = Error ''unknown error''"

definition getEntryPointContract :: "env \<Rightarrow> sdk \<Rightarrow> string result completion \<times> sdk" where
  "getEntryPointContract e s =
     (case this_entryPointContract s of
        Some ep \<Rightarrow> (Return (Ok ep), s)
      | None \<Rightarrow>
          (case getOnChainConfig e s of
             (Throw t, s1) \<Rightarrow> (Throw t, s1)
           | (Return (Err er), s1) \<Rightarrow> (Return (Err er), s1)
           | (Return (Ok c), s1) \<Rightarrow>
               (Return (Ok (entryPoint c)), s1\<lparr>this_entryPointContract := Some (entryPoint c)\<rparr>)))"

section \<open>Prefund\<close>

text \<open>
  The \<open>try\<close> block of \<open>preFund\<close>. The thrown \<open>new Err(...)\<close> is an object of the
  result library, not an \<open>Error\<close>.
\<close>

definition preFundTry :: "env \<Rightarrow> sdk \<Rightarrow> UserOperation \<Rightarrow> PreFund result completion \<times> sdk" where
  "preFundTry e s userOp =
     (case BigInt (maxFeePerGas userOp) of
        Inl t \<Rightarrow> (Throw t, s)
      | Inr maxFee \<Rightarrow>
     (case BigInt (preVerificationGas userOp) of
        Inl t \<Rightarrow> (Throw t, s)
      | Inr preGas \<Rightarrow>
     (case BigInt (verificationGasLimit userOp) of
        Inl t \<Rightarrow> (Throw t, s)
      | Inr verGas \<Rightarrow>
     (case BigInt (callGasLimit userOp) of
        Inl t \<Rightarrow> (Throw t, s)
      | Inr callGas \<Rightarrow>
          if maxFee = 0 \<or> preGas = 0 \<or> verGas = 0
          then (Throw (ThrownError ''maxFeePerGas, preVerificationGas, verificationGasLimit must > 0''), s)
          else
            (let mul = (if paymasterAndData userOp \<noteq> ''0x'' then 3 else 1);
                 requiredGas = callGas + verGas * mul + preGas;
                 requiredPrefund = requiredGas * maxFee
             in case getOnChainConfig e s of
                  (Throw t, s1) \<Rightarrow> (Throw t, s1)
                | (Return (Err er), s1) \<Rightarrow> (Throw ThrownValue, s1)
                | (Return (Ok c), s1) \<Rightarrow>
                    (case getEntryPointContract e s1 of
                       (Throw t, s2) \<Rightarrow> (Throw t, s2)
                     | (Return (Err er), s2) \<Rightarrow> (Return (Err er), s2)
                     | (Return (Ok ep), s2) \<Rightarrow>
                         (let s3 = sendRequest (EntryPointBalanceOf (sender userOp)) s2 in
                          case entryPointBalanceOf e ep (sender userOp) of
                            Inl t \<Rightarrow> (Throw t, s3)
                          | Inr dep \<Rightarrow>
                              (let miss = (if dep < requiredPrefund then requiredPrefund - dep else 0)
                               in (Return (Ok \<lparr>deposit = hexString dep,
                                               prefund = hexString requiredPrefund,
                                               missfund = hexString miss\<rparr>), s3)))))))))"

definition preFund :: "env \<Rightarrow> sdk \<Rightarrow> UserOperation \<Rightarrow> PreFund result completion \<times> sdk" where
  "preFund e s userOp =
     (case preFundTry e s userOp of
        (Throw t, s1) \<Rightarrow> (Return (Err (caughtError t)), s1)
      | (Return r, s1) \<Rightarrow> (Return r, s1))"

section \<open>Hash and signature\<close>

definition userOpHash :: "env \<Rightarrow> sdk \<Rightarrow> UserOperation \<Rightarrow> string result completion \<times> sdk" where
  "userOpHash e s userOp =
     (case getOnChainConfig e s of
        (Throw t, s1) \<Rightarrow> (Throw t, s1)
      | (Return (Err er), s1) \<Rightarrow> (Return (Err er), s1)
      | (Return (Ok c), s1) \<Rightarrow> (Return (Ok (getUserOpHash e userOp (entryPoint c) (chainId c))), s1))"

definition guardHookList :: "env \<Rightarrow> sdk \<Rightarrow> string \<Rightarrow> string list result \<times> sdk" where
  "guardHookList e s walletAddress =
     (let s1 = sendRequest (WalletListPlugin walletAddress) s in
      case walletListPlugin e walletAddress of
        Inl t \<Rightarrow> (Err (caughtError t), s1)
      | Inr hooks \<Rightarrow> (Ok hooks, s1))"

definition packUserOpSignature ::
  "env \<Rightarrow> sdk \<Rightarrow> string \<Rightarrow> string \<Rightarrow> GuardHookInputData option \<Rightarrow> string result completion \<times> sdk" where
  "packUserOpSignature e s sig validationData guardHookInputData =
     (case guardHookInputData of
        None \<Rightarrow> (Return (Ok (packSignature e sig validationData None)), s)
      | Some g \<Rightarrow>
          if \<not> onlyAddress e (hookSender g)
          then (Throw (ThrownError (''invalid sender: '' @ hookSender g)), s)
          else
            (case guardHookList e s (hookSender g) of
               (Err er, s1) \<Rightarrow> (Return (Err er), s1)
             | (Ok hooks, s1) \<Rightarrow>
                 (Return (Ok (packSignature e sig validationData
                    (Some \<lparr>guardHooks = hooks, inputData = hookInputData g\<rparr>))), s1)))"

section \<open>Gas estimation\<close>

definition semiValidSignatureBytes :: string where
  "semiValidSignatureBytes = ''0x'' @ replicate 130 (CHR ''f'')"

definition semiValidValidationData :: int where
  "semiValidValidationData = 68719476735 * 2 ^ 160 + 1599999999 * 2 ^ (160 + 48)"

text \<open>
  The assignments after a successful estimate: both verification fields take the
  bundler's values; the call gas limit is replaced only when it is even, by the
  bundler's value made even.
\<close>

definition applyEstimate :: "UserOperation \<Rightarrow> UserOpGas \<Rightarrow> thrown + UserOperation" where
  "applyEstimate userOp gas =
     (let op1 = userOp\<lparr>preVerificationGas := gasPreVerificationGas gas,
                       verificationGasLimit := gasVerificationGasLimit gas\<rparr>
      in case BigInt (callGasLimit op1) of
           Inl t \<Rightarrow> Inl t
         | Inr callGas \<Rightarrow>
             if bigintRem callGas 2 = 0
             then (case BigInt (gasCallGasLimit gas) of
                     Inl t \<Rightarrow> Inl t
                   | Inr newCallGas \<Rightarrow>
                       Inr (op1\<lparr>callGasLimit :=
                         JSString (hexString (if bigintRem newCallGas 2 = 1 then newCallGas + 1 else newCallGas))\<rparr>))
             else Inr op1)"

text \<open>
  The first step of the \<open>try\<close> block: with an empty signature on entry, the packed
  placeholder is installed; \<open>Inl\<close> is the completion that leaves the block when the
  packing fails.
\<close>

definition installPlaceholder ::
  "env \<Rightarrow> sdk \<Rightarrow> UserOperation \<Rightarrow> GuardHookInputData option \<Rightarrow> bool \<Rightarrow>
     (bool result completion + UserOperation) \<times> sdk" where
  "installPlaceholder e s userOp hook semiValidSignature =
     (if semiValidSignature
      then (case packUserOpSignature e s semiValidSignatureBytes
                   (hexString semiValidValidationData) hook of
              (Throw t, s1) \<Rightarrow> (Inl (Throw t), s1)
            | (Return (Err er), s1) \<Rightarrow>
                (Inl (Return (Err (UserOpErrors UnknownError (errorMessage er)))), s1)
            | (Return (Ok sig), s1) \<Rightarrow> (Inr (userOp\<lparr>signature := sig\<rparr>), s1))
      else (Inr userOp, s))"

text \<open>
  The \<open>try\<close> block of \<open>estimateUserOperationGas\<close>. The operation is a mutable
  object: the block answers its completion together with the operation as it
  stands when the block is left. A \<open>BigInt\<close> that throws leaves the two
  verification fields already assigned.
\<close>

definition estimateTry ::
  "env \<Rightarrow> sdk \<Rightarrow> UserOperation \<Rightarrow> GuardHookInputData option \<Rightarrow> onChainConfig \<Rightarrow> bool \<Rightarrow>
     bool result completion \<times> UserOperation \<times> sdk" where
  "estimateTry e s userOp hook c semiValidSignature =
     (case installPlaceholder e s userOp hook semiValidSignature of
        (Inl stop, s1) \<Rightarrow> (stop, userOp, s1)
      | (Inr op1, s1) \<Rightarrow>
          (let s2 = sendRequest BundlerEstimateUserOperationGas s1 in
           case eth_estimateUserOperationGas e (entryPoint c) op1 of
             Inl t \<Rightarrow> (Throw t, op1, s2)
           | Inr (Err er) \<Rightarrow> (Return (Err er), op1, s2)
           | Inr (Ok gas) \<Rightarrow>
               (case applyEstimate op1 gas of
                  Inl t \<Rightarrow>
                    (Throw t, op1\<lparr>preVerificationGas := gasPreVerificationGas gas,
                                    verificationGasLimit := gasVerificationGasLimit gas\<rparr>, s2)
                | Inr op2 \<Rightarrow>
                    (case calcGasOverhead e op2 of
                       (op3, Some t) \<Rightarrow> (Throw t, op3, s2)
                     | (op3, None) \<Rightarrow> (Return (Ok True), op3, s2)))))"

text \<open>The two checks on \<open>semiValidGuardHookInputData\<close> when it is given.\<close>

definition checkGuardHookInput :: "UserOperation \<Rightarrow> GuardHookInputData option \<Rightarrow> error option" where
  "checkGuardHookInput userOp hook =
     (case hook of
        None \<Rightarrow> None
      | Some g \<Rightarrow>
          if toLowerCase (hookSender g) \<noteq> toLowerCase (sender userOp)
          then Some (UserOpErrors UnknownError (''invalid sender: '' @ hookSender g))
          else if initCode userOp = ''0x''
          then Some (UserOpErrors UnknownError
                 ''cannot set semiValidGuardHookInputData when the contract wallet is not deployed'')
          else None)"

definition estimateUserOperationGas ::
  "env \<Rightarrow> sdk \<Rightarrow> UserOperation \<Rightarrow> GuardHookInputData option \<Rightarrow>
     bool result completion \<times> UserOperation \<times> sdk" where
  "estimateUserOperationGas e s userOp hook =
     (case checkGuardHookInput userOp hook of
        Some er \<Rightarrow> (Return (Err er), userOp, s)
      | None \<Rightarrow>
        (let semiValidSignature = (signature userOp = ''0x'') in
         case getOnChainConfig e s of
           (Throw t, s1) \<Rightarrow> (Throw t, userOp, s1)
         | (Return (Err er), s1) \<Rightarrow>
             (Return (Err (UserOpErrors UnknownError (errorMessage er))), userOp, s1)
         | (Return (Ok c), s1) \<Rightarrow>
             (case estimateTry e s1 userOp hook c semiValidSignature of
                (r, op1, s2) \<Rightarrow>
                  (r, (if semiValidSignature then op1\<lparr>signature := ''0x''\<rparr> else op1), s2))))"

section \<open>Submission\<close>

definition sendUserOperation :: "env \<Rightarrow> sdk \<Rightarrow> UserOperation \<Rightarrow> bool result completion \<times> sdk" where
  "sendUserOperation e s userOp =
     (case getOnChainConfig e s of
        (Throw t, s1) \<Rightarrow> (Throw t, s1)
      | (Return (Err er), s1) \<Rightarrow> (Return (Err (UserOpErrors UnknownError (errorMessage er))), s1)
      | (Return (Ok c), s1) \<Rightarrow>
          (let s2 = sendRequest BundlerSendUserOperation s1 in
           case eth_sendUserOperation e (entryPoint c) userOp of
             Inl t \<Rightarrow> (Throw t, s2)
           | Inr (Err er) \<Rightarrow> (Return (Err er), s2)
           | Inr (Ok bundlerHash) \<Rightarrow>
               (case userOpHash e s2 userOp of
                  (Throw t, s3) \<Rightarrow> (Throw t, s3)
                | (Return (Err er), s3) \<Rightarrow>
                    (Return (Err (UserOpErrors UnknownError (errorMessage er))), s3)
                | (Return (Ok localHash), s3) \<Rightarrow>
                    if toLowerCase bundlerHash \<noteq> toLowerCase localHash
                    then (Throw (ThrownError ''userOpHash !== userOPHashLocal''), s3)
                    else (Return (Ok True), s3))))"

section \<open>Building an execute operation\<close>

definition getNonce :: "env \<Rightarrow> sdk \<Rightarrow> string \<Rightarrow> string option \<Rightarrow> string result completion \<times> sdk" where
  "getNonce e s walletAddr key =
     (case (case key of
              None \<Rightarrow> Inr ''0x0''
            | Some k \<Rightarrow> (case maxToUint192 e k of Inl msg \<Rightarrow> Inl msg | Inr v \<Rightarrow> Inr (hexString v))) of
        Inl msg \<Rightarrow> (Return (Err (Error msg)), s)
      | Inr key' \<Rightarrow>
          (case getEntryPointContract e s of
             (Throw t, s1) \<Rightarrow> (Throw t, s1)
           | (Return (Err er), s1) \<Rightarrow> (Return (Err er), s1)
           | (Return (Ok ep), s1) \<Rightarrow>
               (let s2 = sendRequest (EntryPointGetNonce walletAddr key') s1 in
                case entryPointGetNonce e ep walletAddr key' of
                  Inl t \<Rightarrow> (Return (Err (caughtError t)), s2)
                | Inr n \<Rightarrow> (Return (Ok (hexString n)), s2))))"

text \<open>The key \<open>`${walletAddress}-${_onChainConfig.OK.chainId}`\<close>.\<close>

definition walletDeployedKey :: "string \<Rightarrow> int \<Rightarrow> string" where
  "walletDeployedKey walletAddress cid = walletAddress @ ''-'' @ numberToString cid"

definition walletDeployed :: "env \<Rightarrow> sdk \<Rightarrow> string \<Rightarrow> bool result completion \<times> sdk" where
  "walletDeployed e s walletAddress =
     (case getOnChainConfig e s of
        (Throw t, s1) \<Rightarrow> (Throw t, s1)
      | (Return (Err er), s1) \<Rightarrow> (Return (Err er), s1)
      | (Return (Ok c), s1) \<Rightarrow>
          (let key = walletDeployedKey walletAddress (chainId c) in
           if getDeployedEntry s1 key then (Return (Ok True), s1)
           else
             (let s2 = sendRequest (ProviderGetCode walletAddress) s1 in
              case providerGetCode e walletAddress of
                Inl t \<Rightarrow> (Return (Err (caughtError t)), s2)
              | Inr code \<Rightarrow>
                  (let deployed = (code \<noteq> ''0x'') in
                   (Return (Ok deployed), (if deployed then setDeployedEntry key True s2 else s2))))))"

text \<open>
  The first loop of \<open>fromTransaction\<close>: the sum of the gas limits, or zero from the
  first transaction without one (the \<open>break\<close>).
\<close>

fun sumGasLimits :: "Transaction list \<Rightarrow> int \<Rightarrow> thrown + int" where
  "sumGasLimits [] acc = Inr acc"
| "sumGasLimits (tx # txs) acc =
     (case txGasLimit tx of
        None \<Rightarrow> Inr 0
      | Some g \<Rightarrow> (case BigInt g of Inl t \<Rightarrow> Inl t | Inr v \<Rightarrow> sumGasLimits txs (acc + v)))"

text \<open>
  A transaction's value and data as the second loop renders them: \<open>'0x0'\<close> for an
  omitted value, else \<open>'0x' + BigInt(value).toString(16)\<close>; \<open>'0x'\<close> for omitted data.
\<close>

definition callValue :: "Transaction \<Rightarrow> thrown + string" where
  "callValue tx =
     (case txValue tx of
        None \<Rightarrow> Inr ''0x0''
      | Some v \<Rightarrow> (case BigInt v of Inl t \<Rightarrow> Inl t | Inr n \<Rightarrow> Inr (hexString n)))"

definition callBytes :: "Transaction \<Rightarrow> string" where
  "callBytes tx = (case txData tx of None \<Rightarrow> ''0x'' | Some d \<Rightarrow> d)"

text \<open>
  The second loop: the arrays \<open>to\<close>, \<open>value\<close>, \<open>data\<close> and the flag \<open>hasValue\<close>, given
  as they stand before the transaction is read. The message of an invalid
  destination interpolates the array \<open>to\<close>, which renders as its \<open>join\<close>.
\<close>

fun collectCalls ::
  "env \<Rightarrow> Transaction list \<Rightarrow> string list \<Rightarrow> string list \<Rightarrow> string list \<Rightarrow> bool \<Rightarrow>
     (string list \<times> string list \<times> string list \<times> bool) result completion" where
  "collectCalls e [] to val dat hasValue = Return (Ok (to, val, dat, hasValue))"
| "collectCalls e (tx # txs) to val dat hasValue =
     (if \<not> onlyAddress e (txTo tx) then Return (Err (Error (''invalid to: '' @ join to)))
      else
        (case callValue tx of
           Inl t \<Rightarrow> Throw t
         | Inr value' \<Rightarrow>
             if \<not> onlyBytes e (callBytes tx)
             then Return (Err (Error (''invalid data: '' @ callBytes tx)))
             else collectCalls e txs (to @ [txTo tx]) (val @ [value']) (dat @ [callBytes tx])
                    (hasValue \<or> value' \<noteq> ''0x0'')))"

text \<open>The choice of the encoded call, from the length of \<open>txs\<close> and \<open>hasValue\<close>.\<close>

definition chooseCall ::
  "nat \<Rightarrow> string list \<Rightarrow> string list \<Rightarrow> string list \<Rightarrow> bool \<Rightarrow> WalletCall" where
  "chooseCall n to val dat hasValue =
     (if n > 1
      then (if hasValue then ExecuteBatchWithValue to val dat else ExecuteBatchNoValue to dat)
      else Execute (to ! 0) (val ! 0) (dat ! 0))"

definition fromTransaction ::
  "env \<Rightarrow> sdk \<Rightarrow> string \<Rightarrow> string \<Rightarrow> string \<Rightarrow> Transaction list \<Rightarrow> string option \<Rightarrow>
     UserOperation result completion \<times> sdk" where
  "fromTransaction e s maxFee maxPriorityFee from txs nonceKey =
     (if length txs = 0 then (Return (Err (Error ''txs.length === 0'')), s)
      else if \<not> onlyAddress e from then (Return (Err (Error (''invalid from: '' @ from))), s)
      else
        (case walletDeployed e s from of
           (Throw t, s1) \<Rightarrow> (Throw t, s1)
         | (Return (Err er), s1) \<Rightarrow> (Return (Err er), s1)
         | (Return (Ok wd), s1) \<Rightarrow>
             (case sumGasLimits txs 0 of
                Inl t \<Rightarrow> (Throw t, s1)
              | Inr gasSum \<Rightarrow>
                  (let callGas = (if bigintRem gasSum 2 = 1 then gasSum + 1 else gasSum) in
                   case getNonce e s1 from nonceKey of
                     (Throw t, s2) \<Rightarrow> (Throw t, s2)
                   | (Return (Err er), s2) \<Rightarrow> (Return (Err er), s2)
                   | (Return (Ok nonce'), s2) \<Rightarrow>
                       (case collectCalls e txs [] [] [] False of
                          Throw t \<Rightarrow> (Throw t, s2)
                        | Return (Err er) \<Rightarrow> (Return (Err er), s2)
                        | Return (Ok (to, val, dat, hasValue)) \<Rightarrow>
                            (let callData' = encodeFunctionData e (chooseCall (length txs) to val dat hasValue) in
                             case BigInt (JSString maxFee) of
                               Inl t \<Rightarrow> (Throw t, s2)
                             | Inr fee \<Rightarrow>
                                 (case BigInt (JSString maxPriorityFee) of
                                    Inl t \<Rightarrow> (Throw t, s2)
                                  | Inr priorityFee \<Rightarrow>
                                      (Return (Ok \<lparr>sender = from,
                                                    nonce = JSString nonce',
                                                    initCode = ''0x'',
                                                    callData = callData',
                                                    callGasLimit = JSString (hexString callGas),
                                                    verificationGasLimit = JSNumber 0,
                                                    preVerificationGas = JSNumber 0,
                                                    maxFeePerGas = JSString (hexString fee),
                                                    maxPriorityFeePerGas = JSString (hexString priorityFee),
                                                    paymasterAndData = ''0x'',
                                                    signature = ''0x''\<rparr>), s2))))))))"

section \<open>The earlier generation\<close>

text \<open>
  The class of packages/soulwallet-sdk/src/soulWallet.ts. It has no fields of its
  own: only the store and the requests of the state are used. A failure is thrown
  by \<open>getOnChainConfig\<close>, \<open>userOpHash\<close> and \<open>preFund\<close>, and is caught and returned
  as a \<open>UserOpErrors\<close> by \<open>estimateUserOperationGas\<close> and \<open>sendUserOperation\<close>, which
  answer \<open>undefined\<close> (here \<open>None\<close>) on success.
\<close>

text \<open>The key \<open>`onChainConfig_${this.soulWalletFactoryAddress}`\<close>.\<close>

definition onChainConfigKey_v1 :: "string \<Rightarrow> string" where
  "onChainConfigKey_v1 factory = ''onChainConfig_'' @ factory"

text \<open>The bundler check, after the entry has been stored.\<close>

definition checkBundler_v1 :: "env \<Rightarrow> onChainConfig \<Rightarrow> sdk \<Rightarrow> onChainConfig completion \<times> sdk" where
  "checkBundler_v1 e c s =
     (let s1 = sendRequest BundlerSupportedEntryPoints s in
      case eth_supportedEntryPoints e of
        Inl t \<Rightarrow> (Throw t, s1)
      | Inr (Err er) \<Rightarrow> (Throw (ThrownError ''Bundler RPC error''), s1)
      | Inr (Ok eps) \<Rightarrow>
          if indexOf (toLowerCase (join eps)) (toLowerCase (entryPoint c)) = - 1
          then (Throw (ThrownError (''Bundler network doesn't support entryPoint '' @ entryPoint c)), s1)
          else (Return c, s1))"

text \<open>The two chain ids, read after the two contract calls.\<close>

definition readChainIds_v1 :: "env \<Rightarrow> sdk \<Rightarrow> int completion \<times> sdk" where
  "readChainIds_v1 e s =
     (let s1 = sendRequest ProviderGetNetwork s in
      case providerGetNetwork e of
        Inl t \<Rightarrow> (Throw t, s1)
      | Inr cid \<Rightarrow>
          if \<not> isSafeInteger cid then (Throw (ThrownError ''chainId is not a safe integer''), s1)
          else if cid = 0 then (Throw (ThrownError ''Invalid chainId''), s1)
          else
            (let s2 = sendRequest BundlerGetNetwork s1 in
             case bundlerGetNetwork e of
               Inl t \<Rightarrow> (Throw t, s2)
             | Inr bcid \<Rightarrow>
                 if \<not> isSafeInteger bcid then (Throw (ThrownError ''chainId is not a safe integer''), s2)
                 else if bcid = 0 then (Throw (ThrownError ''Invalid chainId''), s2)
                 else if cid \<noteq> bcid then (Throw (ThrownError ''chainId mismatch''), s2)
                 else (Return cid, s2)))"

text \<open>The cache miss: the body of \<open>if (!_onChainConfig)\<close>.\<close>

definition resolveOnChainConfig_v1 :: "env \<Rightarrow> string \<Rightarrow> sdk \<Rightarrow> onChainConfig completion \<times> sdk" where
  "resolveOnChainConfig_v1 e key s =
     (let s1 = sendRequest FactoryWalletImpl s in
      case factoryWalletImpl e of
        Inl t \<Rightarrow> (Throw t, s1)
      | Inr logic \<Rightarrow>
          (let s2 = sendRequest (WalletEntryPoint logic) s1 in
           case walletEntryPoint e logic of
             Inl t \<Rightarrow> (Throw t, s2)
           | Inr ep \<Rightarrow>
               (case readChainIds_v1 e s2 of
                  (Throw t, s3) \<Rightarrow> (Throw t, s3)
                | (Return cid, s3) \<Rightarrow>
                    (let c = \<lparr>chainId = cid, entryPoint = ep, soulWalletLogic = logic\<rparr>
                     in checkBundler_v1 e c (setConfigEntry key c s3)))))"

definition getOnChainConfig_v1 :: "env \<Rightarrow> sdk \<Rightarrow> onChainConfig completion \<times> sdk" where
  "getOnChainConfig_v1 e s =
     (let key = onChainConfigKey_v1 (soulWalletFactoryAddress e) in
      case configEntries (storageCache s) key of
        Some c \<Rightarrow> (Return c, s)
      | None \<Rightarrow> resolveOnChainConfig_v1 e key s)"

definition userOpHash_v1 :: "env \<Rightarrow> sdk \<Rightarrow> UserOperation \<Rightarrow> string completion \<times> sdk" where
  "userOpHash_v1 e s userOp =
     (case getOnChainConfig_v1 e s of
        (Throw t, s1) \<Rightarrow> (Throw t, s1)
      | (Return c, s1) \<Rightarrow> (Return (getUserOpHash e userOp (entryPoint c) (chainId c)), s1))"

definition preFund_v1 :: "env \<Rightarrow> sdk \<Rightarrow> UserOperation \<Rightarrow> PreFund completion \<times> sdk" where
  "preFund_v1 e s userOp =
     (case BigInt (maxFeePerGas userOp) of
        Inl t \<Rightarrow> (Throw t, s)
      | Inr maxFee \<Rightarrow>
     (case BigInt (preVerificationGas userOp) of
        Inl t \<Rightarrow> (Throw t, s)
      | Inr preGas \<Rightarrow>
     (case BigInt (verificationGasLimit userOp) of
        Inl t \<Rightarrow> (Throw t, s)
      | Inr verGas \<Rightarrow>
     (case BigInt (callGasLimit userOp) of
        Inl t \<Rightarrow> (Throw t, s)
      | Inr callGas \<Rightarrow>
          if maxFee = 0 \<or> preGas = 0 \<or> verGas = 0
          then (Throw (ThrownError ''maxFeePerGas, preVerificationGas, verificationGasLimit must > 0''), s)
          else
            (let mul = (if paymasterAndData userOp \<noteq> ''0x'' then 3 else 1);
                 requiredGas = callGas + verGas * mul + preGas;
                 requiredPrefund = requiredGas * maxFee
             in case getOnChainConfig_v1 e s of
                  (Throw t, s1) \<Rightarrow> (Throw t, s1)
                | (Return c, s1) \<Rightarrow>
                    (let s2 = sendRequest (EntryPointBalanceOf (sender userOp)) s1 in
                     case entryPointBalanceOf e (entryPoint c) (sender userOp) of
                       Inl t \<Rightarrow> (Throw t, s2)
                     | Inr dep \<Rightarrow>
                         (let miss = (if dep < requiredPrefund then requiredPrefund - dep else 0)
                          in (Return \<lparr>deposit = hexString dep,
                                      prefund = hexString requiredPrefund,
                                      missfund = hexString miss\<rparr>, s2))))))))"

text \<open>
  The handlers \<open>catch (error: any)\<close> of the earlier generation build a
  \<open>UserOpErrors\<close> from \<open>error.message\<close> when it is not empty.
\<close>

definition caught_v1 :: "env \<Rightarrow> thrown \<Rightarrow> error" where
  "caught_v1 e t =
     UserOpErrors UnknownError
       (case t of
          ThrownError m \<Rightarrow> if m \<noteq> [] then m else thrownText e t
        | ThrownValue \<Rightarrow> thrownText e t)"

text \<open>
  The \<open>try\<close> block of the earlier \<open>estimateUserOperationGas\<close>, with the operation
  as it stands when the block is left. All three gas fields take the bundler's
  values.
\<close>

definition estimateTry_v1 ::
  "env \<Rightarrow> sdk \<Rightarrow> UserOperation \<Rightarrow> bool \<Rightarrow> error option completion \<times> UserOperation \<times> sdk" where
  "estimateTry_v1 e s userOp semiValid =
     (case getOnChainConfig_v1 e s of
        (Throw t, s1) \<Rightarrow> (Throw t, userOp, s1)
      | (Return c, s1) \<Rightarrow>
          if semiValid \<and> initCode userOp = ''0x''
          then (Throw (ThrownError ''not implement now!''), userOp, s1)
          else
            (let op1 = (if semiValid then userOp\<lparr>signature := semiValidSignature_v1 e\<rparr> else userOp);
                 s2 = sendRequest BundlerEstimateUserOperationGas s1
             in case eth_estimateUserOperationGas e (entryPoint c) op1 of
                  Inl t \<Rightarrow> (Throw t, op1, s2)
                | Inr (Err er) \<Rightarrow> (Return (Some er), op1, s2)
                | Inr (Ok gas) \<Rightarrow>
                    (case calcGasOverhead e
                            (op1\<lparr>preVerificationGas := gasPreVerificationGas gas,
                                  verificationGasLimit := gasVerificationGasLimit gas,
                                  callGasLimit := gasCallGasLimit gas\<rparr>) of
                       (op3, Some t) \<Rightarrow> (Throw t, op3, s2)
                     | (op3, None) \<Rightarrow> (Return None, op3, s2))))"

definition estimateUserOperationGas_v1 ::
  "env \<Rightarrow> sdk \<Rightarrow> UserOperation \<Rightarrow> error option \<times> UserOperation \<times> sdk" where
  "estimateUserOperationGas_v1 e s userOp =
     (let semiValid = (signature userOp = ''0x'') in
      case estimateTry_v1 e s userOp semiValid of
        (r, op1, s1) \<Rightarrow>
          ((case r of Throw t \<Rightarrow> Some (caught_v1 e t) | Return x \<Rightarrow> x),
           (if semiValid then op1\<lparr>signature := ''0x''\<rparr> else op1), s1))"

definition sendTry_v1 :: "env \<Rightarrow> sdk \<Rightarrow> UserOperation \<Rightarrow> error option completion \<times> sdk" where
  "sendTry_v1 e s userOp =
     (case getOnChainConfig_v1 e s of
        (Throw t, s1) \<Rightarrow> (Throw t, s1)
      | (Return c, s1) \<Rightarrow>
          (let s2 = sendRequest BundlerSendUserOperation s1 in
           case eth_sendUserOperation e (entryPoint c) userOp of
             Inl t \<Rightarrow> (Throw t, s2)
           | Inr (Err er) \<Rightarrow> (Return (Some er), s2)
           | Inr (Ok bundlerHash) \<Rightarrow>
               (case userOpHash_v1 e s2 userOp of
                  (Throw t, s3) \<Rightarrow> (Throw t, s3)
                | (Return localHash, s3) \<Rightarrow>
                    if toLowerCase bundlerHash \<noteq> toLowerCase localHash
                    then (Throw (ThrownError ''userOpHash !== userOPHashLocal''), s3)
                    else (Return None, s3))))"

definition sendUserOperation_v1 :: "env \<Rightarrow> sdk \<Rightarrow> UserOperation \<Rightarrow> error option \<times> sdk" where
  "sendUserOperation_v1 e s userOp =
     (case sendTry_v1 e s userOp of
        (Throw t, s1) \<Rightarrow> (Some (caught_v1 e t), s1)
      | (Return x, s1) \<Rightarrow> (x, s1))"

section \<open>Concrete collaborators\<close>

text \<open>
  A small world to run the SDK in: chain 5, a factory whose wallet logic names the
  entry point \<open>0xE1\<close>, a bundler on the same chain that supports it, and an
  undeployed wallet.
\<close>

definition demoEnv :: env where
  "demoEnv =
     \<lparr>soulWalletFactoryAddress = ''0xF1'',
      providerGetNetwork = Inr 5,
      bundlerGetNetwork = Inr 5,
      factoryWalletImpl = Inr ''0xA1'',
      walletEntryPoint = (\<lambda>logic. Inr ''0xE1''),
      eth_supportedEntryPoints = Inr (Ok [''0xd1'', ''0xe1'']),
      eth_estimateUserOperationGas = (\<lambda>ep userOp. Inr (Ok
        \<lparr>gasPreVerificationGas = JSString ''0x64'',
         gasVerificationGasLimit = JSString ''0xc8'',
         gasCallGasLimit = JSString ''0x12d''\<rparr>)),
      eth_sendUserOperation = (\<lambda>ep userOp. Inr (Ok ''0xAB'')),
      entryPointBalanceOf = (\<lambda>ep who. Inr 20),
      entryPointGetNonce = (\<lambda>ep who key. Inr 7),
      providerGetCode = (\<lambda>who. Inr ''0x''),
      walletListPlugin = (\<lambda>who. Inr []),
      getUserOpHash = (\<lambda>userOp ep cid. ''0xab''),
      packSignature = (\<lambda>sig validationData hook. validationData @ sig),
      calcGasOverhead = (\<lambda>userOp. (userOp, None)),
      onlyAddress = (\<lambda>a. True),
      onlyBytes = (\<lambda>b. True),
      maxToUint192 = (\<lambda>k. Inr 0),
      encodeFunctionData = (\<lambda>call. case call of
          Execute t v d \<Rightarrow> ''execute''
        | ExecuteBatchNoValue ts ds \<Rightarrow> ''executeBatch2''
        | ExecuteBatchWithValue ts vs ds \<Rightarrow> ''executeBatch3''),
      semiValidSignature_v1 = ''0xff'',
      thrownText = (\<lambda>t. ''unknown error'')\<rparr>"

text \<open>The same world with a bundler that does not support the entry point.\<close>

definition unsupportedEnv :: env where
  "unsupportedEnv = demoEnv\<lparr>eth_supportedEntryPoints := Inr (Ok [''0xd1'', ''0xd2''])\<rparr>"

text \<open>The same world after the wallet \<open>0xB1\<close> has been deployed.\<close>

definition deployedEnv :: env where
  "deployedEnv = demoEnv\<lparr>providerGetCode := (\<lambda>who. Inr ''0x6080'')\<rparr>"

text \<open>The same world with the wallet \<open>0xB1\<close> deployed and every other wallet not.\<close>

definition partlyDeployedEnv :: env where
  "partlyDeployedEnv =
     demoEnv\<lparr>providerGetCode := (\<lambda>who. if who = ''0xB1'' then Inr ''0x6080'' else Inr ''0x'')\<rparr>"

text \<open>A fresh process and a fresh instance.\<close>

definition freshSdk :: sdk where
  "freshSdk =
     \<lparr>storageCache = \<lparr>configEntries = Map.empty, deployedEntries = Map.empty\<rparr>,
      this_onChainConfig = None,
      this_entryPointContract = None,
      requests = []\<rparr>"

definition demoConfig :: onChainConfig where
  "demoConfig = \<lparr>chainId = 5, entryPoint = ''0xE1'', soulWalletLogic = ''0xA1''\<rparr>"

definition demoOp :: UserOperation where
  "demoOp =
     \<lparr>sender = ''0xB1'',
      nonce = JSNumber 0,
      initCode = ''0x'',
      callData = ''0x'',
      callGasLimit = JSString ''0xa'',
      verificationGasLimit = JSString ''0x5'',
      preVerificationGas = JSString ''0x2'',
      maxFeePerGas = JSString ''0x3'',
      maxPriorityFeePerGas = JSString ''0x1'',
      paymasterAndData = ''0x'',
      signature = ''0x''\<rparr>"

definition demoTx :: "int \<Rightarrow> int option \<Rightarrow> Transaction" where
  "demoTx v g =
     \<lparr>txTo = ''0xC1'',
      txValue = Some (JSNumber v),
      txData = None,
      txGasLimit = map_option JSNumber g\<rparr>"

text \<open>The same world with a bundler that answers another hash on submission.\<close>

definition mismatchEnv :: env where
  "mismatchEnv = demoEnv\<lparr>eth_sendUserOperation := (\<lambda>ep userOp. Inr (Ok ''0xAC''))\<rparr>"

text \<open>
  Two operations for the prefund: the first has a zero fee, the second only a zero
  call gas limit.
\<close>

definition zeroFeeOp :: UserOperation where
  "zeroFeeOp =
     demoOp\<lparr>maxFeePerGas := JSString ''0x0'', preVerificationGas := JSString ''0x1'',
       verificationGasLimit := JSString ''0x1'', callGasLimit := JSString ''0x0''\<rparr>"

definition zeroCallGasOp :: UserOperation where
  "zeroCallGasOp = demoOp\<lparr>callGasLimit := JSString ''0x0''\<rparr>"

text \<open>The same world with provider and bundler on chain 6.\<close>

definition chain6Env :: env where
  "chain6Env = demoEnv\<lparr>providerGetNetwork := Inr 6, bundlerGetNetwork := Inr 6\<rparr>"

text \<open>An operation that deploys its wallet and pins an odd call gas limit.\<close>

definition pinnedDeployOp :: UserOperation where
  "pinnedDeployOp = demoOp\<lparr>initCode := ''0xF1c0de'', callGasLimit := JSNumber 7\<rparr>"

section \<open>Digits and keys\<close>


lemma digitValue_digitChar: "0 \<le> d \<Longrightarrow> d < 16 \<Longrightarrow> digitValue (digitChar d) = Some d"
proof -
  assume "0 \<le> d" "d < 16"
  then have "d = 0 \<or> d = 1 \<or> d = 2 \<or> d = 3 \<or> d = 4 \<or> d = 5 \<or> d = 6 \<or> d = 7 \<or> d = 8 \<or>
      d = 9 \<or> d = 10 \<or> d = 11 \<or> d = 12 \<or> d = 13 \<or> d = 14 \<or> d = 15"
    by arith
  then show ?thesis
    by (elim disjE) (simp_all add: digitValue_def digitChar_def toLowerChar_def)
qed

lemma digitChar_not_special:
  "0 \<le> d \<Longrightarrow> d < 16 \<Longrightarrow> digitChar d \<noteq> CHR ''-'' \<and> digitChar d \<noteq> CHR ''_'' \<and> \<not> isWhiteSpace (digitChar d)"
proof -
  assume "0 \<le> d" "d < 16"
  then have "d = 0 \<or> d = 1 \<or> d = 2 \<or> d = 3 \<or> d = 4 \<or> d = 5 \<or> d = 6 \<or> d = 7 \<or> d = 8 \<or>
      d = 9 \<or> d = 10 \<or> d = 11 \<or> d = 12 \<or> d = 13 \<or> d = 14 \<or> d = 15"
    by arith
  then show ?thesis
    by (elim disjE) (simp_all add: digitChar_def isWhiteSpace_def)
qed

lemma parseDigits_append:
  "parseDigits b (xs @ ys) acc =
     (case parseDigits b xs acc of None \<Rightarrow> None | Some a \<Rightarrow> parseDigits b ys a)"
  by (induction xs arbitrary: acc) (auto split: option.splits)

lemma parseDigits_digits16: "0 \<le> n \<Longrightarrow> parseDigits 16 (digits16 n) 0 = Some n"
proof (induction n rule: digits16.induct)
  case (1 n)
  show ?case
  proof (cases "n < 16")
    case True
    with "1.prems" show ?thesis
      by (subst digits16.simps) (simp add: digitValue_digitChar)
  next
    case False
    with "1.prems" have ih: "parseDigits 16 (digits16 (n div 16)) 0 = Some (n div 16)"
      using "1.IH" by simp
    have d: "digitValue (digitChar (n mod 16)) = Some (n mod 16)"
      by (rule digitValue_digitChar) simp_all
    from False show ?thesis
      by (subst digits16.simps) (simp add: parseDigits_append ih d)
  qed
qed

lemma parseDigits_digits10: "0 \<le> n \<Longrightarrow> parseDigits 10 (digits10 n) 0 = Some n"
proof (induction n rule: digits10.induct)
  case (1 n)
  show ?case
  proof (cases "n < 10")
    case True
    with "1.prems" show ?thesis
      by (subst digits10.simps) (simp add: digitValue_digitChar)
  next
    case False
    with "1.prems" have ih: "parseDigits 10 (digits10 (n div 10)) 0 = Some (n div 10)"
      using "1.IH" by simp
    have d: "digitValue (digitChar (n mod 10)) = Some (n mod 10)"
      by (rule digitValue_digitChar) simp_all
    from False show ?thesis
      by (subst digits10.simps) (simp add: parseDigits_append ih d)
  qed
qed


lemma digits10_inj: "0 \<le> n \<Longrightarrow> 0 \<le> m \<Longrightarrow> digits10 n = digits10 m \<Longrightarrow> n = m"
  using parseDigits_digits10 by (metis option.inject)

lemma digits16_inj: "0 \<le> n \<Longrightarrow> 0 \<le> m \<Longrightarrow> digits16 n = digits16 m \<Longrightarrow> n = m"
  using parseDigits_digits16 by (metis option.inject)

lemma digits10_hd: "0 \<le> n \<Longrightarrow> digits10 n \<noteq> [] \<and> hd (digits10 n) \<noteq> CHR ''-''"
proof (induction n rule: digits10.induct)
  case (1 n)
  show ?case
  proof (cases "n < 10")
    case True
    with "1.prems" show ?thesis
      by (subst (1 2) digits10.simps) (simp add: digitChar_not_special)
  next
    case False
    with "1.prems" have "digits10 (n div 10) \<noteq> [] \<and> hd (digits10 (n div 10)) \<noteq> CHR ''-''"
      using "1.IH" by simp
    with False show ?thesis
      by (subst (1 2) digits10.simps) simp
  qed
qed

lemma digits16_hd: "0 \<le> n \<Longrightarrow> digits16 n \<noteq> [] \<and> hd (digits16 n) \<noteq> CHR ''-''"
proof (induction n rule: digits16.induct)
  case (1 n)
  show ?case
  proof (cases "n < 16")
    case True
    with "1.prems" show ?thesis
      by (subst (1 2) digits16.simps) (simp add: digitChar_not_special)
  next
    case False
    with "1.prems" have "digits16 (n div 16) \<noteq> [] \<and> hd (digits16 (n div 16)) \<noteq> CHR ''-''"
      using "1.IH" by simp
    with False show ?thesis
      by (subst (1 2) digits16.simps) simp
  qed
qed

lemma numberToString_inj: "numberToString i = numberToString j \<Longrightarrow> i = j"
proof -
  assume eq: "numberToString i = numberToString j"
  have neg: "\<And>a b. a < 0 \<Longrightarrow> 0 \<le> b \<Longrightarrow> numberToString a \<noteq> numberToString b"
  proof -
    fix a b :: int assume "a < 0" "0 \<le> b"
    then show "numberToString a \<noteq> numberToString b"
      using digits10_hd [of b] by (cases "digits10 b") (auto simp: numberToString_def)
  qed
  show ?thesis
  proof (cases "i < 0"; cases "j < 0")
    assume "i < 0" "j < 0"
    with eq have "digits10 (- i) = digits10 (- j)" by (simp add: numberToString_def)
    with \<open>i < 0\<close> \<open>j < 0\<close> have "- i = - j" by (intro digits10_inj) simp_all
    then show ?thesis by simp
  next
    assume "i < 0" "\<not> j < 0"
    with neg [of i j] eq show ?thesis by simp
  next
    assume "\<not> i < 0" "j < 0"
    with neg [of j i] eq show ?thesis by simp
  next
    assume "\<not> i < 0" "\<not> j < 0"
    with eq show ?thesis by (intro digits10_inj) (simp_all add: numberToString_def)
  qed
qed

lemma toString16_inj: "toString16 i = toString16 j \<Longrightarrow> i = j"
proof -
  assume eq: "toString16 i = toString16 j"
  have neg: "\<And>a b. a < 0 \<Longrightarrow> 0 \<le> b \<Longrightarrow> toString16 a \<noteq> toString16 b"
  proof -
    fix a b :: int assume "a < 0" "0 \<le> b"
    then show "toString16 a \<noteq> toString16 b"
      using digits16_hd [of b] by (cases "digits16 b") (auto simp: toString16_def)
  qed
  show ?thesis
  proof (cases "i < 0"; cases "j < 0")
    assume "i < 0" "j < 0"
    with eq have "digits16 (- i) = digits16 (- j)" by (simp add: toString16_def)
    with \<open>i < 0\<close> \<open>j < 0\<close> have "- i = - j" by (intro digits16_inj) simp_all
    then show ?thesis by simp
  next
    assume "i < 0" "\<not> j < 0"
    with neg [of i j] eq show ?thesis by simp
  next
    assume "\<not> i < 0" "j < 0"
    with neg [of j i] eq show ?thesis by simp
  next
    assume "\<not> i < 0" "\<not> j < 0"
    with eq show ?thesis by (intro digits16_inj) (simp_all add: toString16_def)
  qed
qed

lemma hexString_zero: "hexString n = ''0x0'' \<longleftrightarrow> n = 0"
proof
  assume "hexString n = ''0x0''"
  moreover have "hexString 0 = ''0x0''" by code_simp
  ultimately have "toString16 n = toString16 0" by (simp add: hexString_def)
  then show "n = 0" by (rule toString16_inj)
next
  have "hexString 0 = ''0x0''" by code_simp
  moreover assume "n = 0"
  ultimately show "hexString n = ''0x0''" by simp
qed



lemma getOnChainConfig_hit:
  "this_onChainConfig s = Some c \<Longrightarrow> getOnChainConfig e s = (Return (Ok c), s)"
  by (simp add: getOnChainConfig_def)

lemma checkBundler_Ok:
  "checkBundler e c s = (Return (Ok c'), s') \<Longrightarrow> c' = c \<and> this_onChainConfig s' = Some c"
  by (auto simp: checkBundler_def Let_def split: sum.splits result.splits if_splits)

lemma resolveOnChainConfig_Ok:
  "resolveOnChainConfig e key cid s = (Return (Ok c), s') \<Longrightarrow>
     this_onChainConfig s' = Some c \<and> configEntries (storageCache s') key = Some c"
  by (auto simp: resolveOnChainConfig_def checkBundler_def Let_def sendRequest_def setConfigEntry_def
      split: sum.splits result.splits if_splits)

lemma getOnChainConfig_Ok:
  "getOnChainConfig e s = (Return (Ok c), s') \<Longrightarrow> this_onChainConfig s' = Some c"
  by (auto simp: getOnChainConfig_def Let_def sendRequest_def
      split: option.splits sum.splits if_splits dest: resolveOnChainConfig_Ok)

lemma getOnChainConfig_stored:
  "getOnChainConfig e s = (Return (Ok c), s') \<Longrightarrow> this_onChainConfig s = None \<Longrightarrow>
     \<exists>cid. providerGetNetwork e = Inr cid \<and>
       configEntries (storageCache s') (onChainConfigKey (soulWalletFactoryAddress e) cid) = Some c"
  by (auto simp: getOnChainConfig_def Let_def sendRequest_def
      split: option.splits sum.splits if_splits dest: resolveOnChainConfig_Ok)

lemma checkBundler_frame:
  "checkBundler e c s = (r, s') \<Longrightarrow>
     this_entryPointContract s' = this_entryPointContract s \<and>
     deployedEntries (storageCache s') = deployedEntries (storageCache s) \<and>
     configEntries (storageCache s') = configEntries (storageCache s) \<and>
     requests s' = requests s @ [BundlerSupportedEntryPoints]"
  by (auto simp: checkBundler_def Let_def sendRequest_def split: sum.splits result.splits if_splits)

lemma resolveOnChainConfig_frame:
  "resolveOnChainConfig e key cid s = (r, s') \<Longrightarrow>
     this_entryPointContract s' = this_entryPointContract s \<and>
     deployedEntries (storageCache s') = deployedEntries (storageCache s) \<and>
     (\<exists>rs. requests s' = requests s @ rs)"
  by (auto simp: resolveOnChainConfig_def Let_def sendRequest_def setConfigEntry_def
      split: sum.splits result.splits if_splits dest!: checkBundler_frame)

lemma getOnChainConfig_frame:
  "getOnChainConfig e s = (r, s') \<Longrightarrow>
     this_entryPointContract s' = this_entryPointContract s \<and>
     deployedEntries (storageCache s') = deployedEntries (storageCache s) \<and>
     (\<exists>rs. requests s' = requests s @ rs)"
  by (auto simp: getOnChainConfig_def Let_def sendRequest_def
      split: option.splits sum.splits if_splits dest!: resolveOnChainConfig_frame)

lemma onChainConfigKey_chain: "onChainConfigKey f c1 = onChainConfigKey f c2 \<longleftrightarrow> c1 = c2"
  by (auto simp: onChainConfigKey_def dest: numberToString_inj)

lemma onChainConfigKey_factory: "onChainConfigKey f1 c = onChainConfigKey f2 c \<longleftrightarrow> f1 = f2"
  by (auto simp: onChainConfigKey_def)

lemma getOnChainConfig_second:
  assumes "fst (getOnChainConfig e s) = Return (Ok c)"
  shows "getOnChainConfig e' (snd (getOnChainConfig e s)) = (Return (Ok c), snd (getOnChainConfig e s)) \<and>
     (this_onChainConfig s = None \<longrightarrow>
        (\<exists>cid. providerGetNetwork e = Inr cid \<and>
           configEntries (storageCache (snd (getOnChainConfig e s)))
             (onChainConfigKey (soulWalletFactoryAddress e) cid) = Some c)) \<and>
     (\<forall>f c1 c2. onChainConfigKey f c1 = onChainConfigKey f c2 \<longleftrightarrow> c1 = c2) \<and>
     (\<forall>f1 f2 k. onChainConfigKey f1 k = onChainConfigKey f2 k \<longleftrightarrow> f1 = f2)"
proof -
  obtain s' where run: "getOnChainConfig e s = (Return (Ok c), s')"
    using assms by (cases "getOnChainConfig e s") simp
  have "this_onChainConfig s' = Some c" using run by (rule getOnChainConfig_Ok)
  then have "getOnChainConfig e' s' = (Return (Ok c), s')" by (rule getOnChainConfig_hit)
  moreover have "this_onChainConfig s = None \<longrightarrow>
        (\<exists>cid. providerGetNetwork e = Inr cid \<and>
           configEntries (storageCache s') (onChainConfigKey (soulWalletFactoryAddress e) cid) = Some c)"
    using getOnChainConfig_stored [OF run] by simp
  ultimately show ?thesis
    using run by (simp add: onChainConfigKey_chain onChainConfigKey_factory)
qed

section \<open>Submission: the hash comparison\<close>


lemma userOpHash_after_config:
  "this_onChainConfig s = Some c \<Longrightarrow>
     userOpHash e s userOp = (Return (Ok (getUserOpHash e userOp (entryPoint c) (chainId c))), s)"
  by (simp add: userOpHash_def getOnChainConfig_hit)

lemma sendUserOperation_accepted:
  assumes cfg: "fst (getOnChainConfig e s) = Return (Ok c)"
    and acc: "eth_sendUserOperation e (entryPoint c) userOp = Inr (Ok h)"
  shows "fst (sendUserOperation e s userOp) =
     (if toLowerCase h \<noteq> toLowerCase (getUserOpHash e userOp (entryPoint c) (chainId c))
      then Throw (ThrownError ''userOpHash !== userOPHashLocal'')
      else Return (Ok True))"
proof -
  obtain s1 where run: "getOnChainConfig e s = (Return (Ok c), s1)"
    using cfg by (cases "getOnChainConfig e s") simp
  have "this_onChainConfig (sendRequest BundlerSendUserOperation s1) = Some c"
    using getOnChainConfig_Ok [OF run] by (simp add: sendRequest_def)
  then show ?thesis
    using run acc by (simp add: sendUserOperation_def Let_def userOpHash_after_config)
qed

lemma sendUserOperation_success:
  assumes ok: "fst (sendUserOperation e s userOp) = Return (Ok True)"
  shows "\<exists>c h. fst (getOnChainConfig e s) = Return (Ok c) \<and>
           eth_sendUserOperation e (entryPoint c) userOp = Inr (Ok h) \<and>
           toLowerCase h = toLowerCase (getUserOpHash e userOp (entryPoint c) (chainId c))"
proof -
  obtain r s1 where run: "getOnChainConfig e s = (r, s1)" by (cases "getOnChainConfig e s")
  from ok run obtain c where r: "r = Return (Ok c)"
    by (auto simp: sendUserOperation_def split: completion.splits result.splits)
  from ok run r obtain h where acc: "eth_sendUserOperation e (entryPoint c) userOp = Inr (Ok h)"
    by (auto simp: sendUserOperation_def Let_def split: sum.splits result.splits)
  have cfg: "fst (getOnChainConfig e s) = Return (Ok c)" using run r by simp
  from sendUserOperation_accepted [OF cfg acc] ok
  have "toLowerCase h = toLowerCase (getUserOpHash e userOp (entryPoint c) (chainId c))"
    by (simp split: if_splits)
  with cfg acc show ?thesis by blast
qed

section \<open>Parity, hexadecimal text and the prefund\<close>

lemma bigintRem_even: "bigintRem a 2 = 0 \<longleftrightarrow> even a"
  by (auto simp: bigintRem_def sgn_if even_iff_mod_2_eq_zero abs_if)

lemma bigintRem_odd: "0 \<le> a \<Longrightarrow> bigintRem a 2 = 1 \<longleftrightarrow> odd a"
  by (auto simp: bigintRem_def sgn_if odd_iff_mod_2_eq_one)

lemma digits16_last: "digits16 v \<noteq> [] \<and> (0 \<le> v \<longrightarrow> \<not> isWhiteSpace (last (digits16 v)))"
proof (cases "v < 16")
  case True
  then show ?thesis by (subst (1 2) digits16.simps) (simp add: digitChar_not_special)
next
  case False
  have "\<not> isWhiteSpace (digitChar (v mod 16))"
    using digitChar_not_special [of "v mod 16"] by simp
  with False show ?thesis by (subst (1 2) digits16.simps) simp
qed

lemma trim_hexString: "0 \<le> v \<Longrightarrow> trim (hexString v) = hexString v"
proof -
  assume v: "0 \<le> v"
  obtain ds d where ds: "digits16 v = ds @ [d]" and d: "\<not> isWhiteSpace d"
    using digits16_last [of v] v by (cases "digits16 v" rule: rev_cases) auto
  have z: "\<not> isWhiteSpace (CHR ''0'')" by (simp add: isWhiteSpace_def)
  show ?thesis using v ds d z by (simp add: trim_def hexString_def toString16_def)
qed

lemma BigInt_hexString: "0 \<le> v \<Longrightarrow> BigInt (JSString (hexString v)) = Inr v"
proof -
  assume v: "0 \<le> v"
  have t: "trim (hexString v) = CHR ''0'' # CHR ''x'' # digits16 v"
    using trim_hexString [OF v] v by (simp add: hexString_def toString16_def)
  have x: "toLowerChar (CHR ''x'') = CHR ''x''" by (simp add: toLowerChar_def)
  have "stringToBigInt (hexString v) = Some v"
    using digits16_last [of v] parseDigits_digits16 [OF v]
    by (simp add: stringToBigInt_def t x parseNonEmpty_def)
  then show ?thesis by (simp add: BigInt_def)
qed

lemma getEntryPointContract_after_config:
  "this_onChainConfig s = Some c \<Longrightarrow>
     fst (getEntryPointContract e s) =
       Return (Ok (case this_entryPointContract s of Some a \<Rightarrow> a | None \<Rightarrow> entryPoint c)) \<and>
     requests (snd (getEntryPointContract e s)) = requests s"
  by (simp add: getEntryPointContract_def getOnChainConfig_hit split: option.splits)

lemma preFund_value:
  assumes mf: "BigInt (maxFeePerGas userOp) = Inr maxFee"
    and pg: "BigInt (preVerificationGas userOp) = Inr preGas"
    and vg: "BigInt (verificationGasLimit userOp) = Inr verGas"
    and cg: "BigInt (callGasLimit userOp) = Inr callGas"
    and nz: "maxFee \<noteq> 0" "preGas \<noteq> 0" "verGas \<noteq> 0"
    and cfg: "fst (getOnChainConfig e s) = Return (Ok c)"
    and bal: "entryPointBalanceOf e
        (case this_entryPointContract s of Some a \<Rightarrow> a | None \<Rightarrow> entryPoint c) (sender userOp) = Inr dep"
  shows "fst (preFund e s userOp) =
     Return (Ok \<lparr>deposit = hexString dep,
       prefund = hexString
         ((callGas + verGas * (if paymasterAndData userOp \<noteq> ''0x'' then 3 else 1) + preGas) * maxFee),
       missfund = hexString (max 0
         ((callGas + verGas * (if paymasterAndData userOp \<noteq> ''0x'' then 3 else 1) + preGas) * maxFee - dep))\<rparr>)"
proof -
  obtain s1 where run: "getOnChainConfig e s = (Return (Ok c), s1)"
    using cfg by (cases "getOnChainConfig e s") simp
  have f1: "this_onChainConfig s1 = Some c" using run by (rule getOnChainConfig_Ok)
  have f2: "this_entryPointContract s1 = this_entryPointContract s"
    using getOnChainConfig_frame [OF run] by simp
  obtain s2 where ep: "getEntryPointContract e s1 =
      (Return (Ok (case this_entryPointContract s of Some a \<Rightarrow> a | None \<Rightarrow> entryPoint c)), s2)"
    using getEntryPointContract_after_config [OF f1, of e] f2
    by (cases "getEntryPointContract e s1") simp
  show ?thesis
    using mf pg vg cg nz run ep bal
    by (simp add: preFund_def preFundTry_def Let_def max_def)
qed

lemma preFund_zero:
  assumes mf: "BigInt (maxFeePerGas userOp) = Inr maxFee"
    and pg: "BigInt (preVerificationGas userOp) = Inr preGas"
    and vg: "BigInt (verificationGasLimit userOp) = Inr verGas"
    and cg: "BigInt (callGasLimit userOp) = Inr callGas"
    and z: "maxFee = 0 \<or> preGas = 0 \<or> verGas = 0"
  shows "preFund e s userOp =
     (Return (Err (Error ''maxFeePerGas, preVerificationGas, verificationGasLimit must > 0'')), s)"
  using assms by (auto simp: preFund_def preFundTry_def)

lemma preFund_zero_any:
  assumes z: "BigInt (maxFeePerGas userOp) = Inr 0 \<or> BigInt (preVerificationGas userOp) = Inr 0 \<or>
      BigInt (verificationGasLimit userOp) = Inr 0"
  shows "\<exists>er. preFund e s userOp = (Return (Err er), s)"
  using assms by (auto simp: preFund_def preFundTry_def split: sum.splits)

section \<open>The assignments of a successful estimate\<close>

lemma installPlaceholder_Inr:
  "installPlaceholder e s userOp hook semi = (Inr sent, s1) \<Longrightarrow>
     \<exists>sg. sent = userOp\<lparr>signature := sg\<rparr>"
proof (cases semi)
  case False
  assume "installPlaceholder e s userOp hook semi = (Inr sent, s1)"
  with False have "sent = userOp\<lparr>signature := signature userOp\<rparr>"
    by (simp add: installPlaceholder_def)
  then show ?thesis by (rule exI)
next
  case True
  assume "installPlaceholder e s userOp hook semi = (Inr sent, s1)"
  with True show ?thesis
    by (auto simp: installPlaceholder_def split: prod.splits completion.splits result.splits)
qed

lemma installPlaceholder_Inl:
  "installPlaceholder e s userOp hook semi = (Inl stop, s1) \<Longrightarrow> stop \<noteq> Return (Ok b)"
  by (auto simp: installPlaceholder_def split: if_splits prod.splits completion.splits result.splits)

lemma applyEstimate_Inr:
  assumes ap: "applyEstimate sent gas = Inr op2"
  shows "\<exists>cur. BigInt (callGasLimit sent) = Inr cur \<and>
     preVerificationGas op2 = gasPreVerificationGas gas \<and>
     verificationGasLimit op2 = gasVerificationGasLimit gas \<and>
     (if even cur
      then \<exists>new. BigInt (gasCallGasLimit gas) = Inr new \<and>
             callGasLimit op2 = JSString (hexString (if bigintRem new 2 = 1 then new + 1 else new))
      else callGasLimit op2 = callGasLimit sent)"
proof (cases "BigInt (callGasLimit sent)")
  case (Inl t)
  with ap show ?thesis by (simp add: applyEstimate_def)
next
  case (Inr cur)
  show ?thesis
  proof (cases "even cur")
    case False
    with ap Inr have "op2 = sent\<lparr>preVerificationGas := gasPreVerificationGas gas,
                       verificationGasLimit := gasVerificationGasLimit gas\<rparr>"
      by (simp add: applyEstimate_def bigintRem_even)
    with Inr False show ?thesis by simp
  next
    case True
    show ?thesis
    proof (cases "BigInt (gasCallGasLimit gas)")
      case (Inl t)
      with ap Inr True show ?thesis by (simp add: applyEstimate_def bigintRem_even)
    next
      case new: (Inr new)
      with ap Inr True have "op2 = sent\<lparr>preVerificationGas := gasPreVerificationGas gas,
                       verificationGasLimit := gasVerificationGasLimit gas,
                       callGasLimit :=
                         JSString (hexString (if bigintRem new 2 = 1 then new + 1 else new))\<rparr>"
        by (simp add: applyEstimate_def bigintRem_even)
      with Inr True new show ?thesis by simp
    qed
  qed
qed

lemma estimateTry_Ok:
  assumes "estimateTry e s userOp hook c semi = (Return (Ok True), op', s')"
  shows "\<exists>sg gas op2.
     eth_estimateUserOperationGas e (entryPoint c) (userOp\<lparr>signature := sg\<rparr>) = Inr (Ok gas) \<and>
     applyEstimate (userOp\<lparr>signature := sg\<rparr>) gas = Inr op2 \<and>
     calcGasOverhead e op2 = (op', None)"
proof -
  obtain r s1 where pre: "installPlaceholder e s userOp hook semi = (r, s1)"
    by (cases "installPlaceholder e s userOp hook semi")
  from assms pre obtain sent where r: "r = Inr sent"
    by (cases r) (auto simp: estimateTry_def dest: installPlaceholder_Inl)
  from pre r obtain sg where sent: "sent = userOp\<lparr>signature := sg\<rparr>"
    using installPlaceholder_Inr [of e s userOp hook semi sent s1] by auto
  from assms pre r obtain gas where
    gas: "eth_estimateUserOperationGas e (entryPoint c) sent = Inr (Ok gas)"
    by (auto simp: estimateTry_def Let_def split: sum.splits result.splits)
  from assms pre r gas obtain op2 where
    ap: "applyEstimate sent gas = Inr op2" and calc: "calcGasOverhead e op2 = (op', None)"
    by (auto simp: estimateTry_def Let_def split: sum.splits prod.splits option.splits)
  from gas ap calc show ?thesis unfolding sent by (intro exI conjI)
qed

lemma estimateUserOperationGas_Ok:
  assumes ok: "fst (estimateUserOperationGas e s userOp hook) = Return (Ok True)"
  shows "\<exists>c sg gas cur op2 op3.
     fst (getOnChainConfig e s) = Return (Ok c) \<and>
     eth_estimateUserOperationGas e (entryPoint c) (userOp\<lparr>signature := sg\<rparr>) = Inr (Ok gas) \<and>
     BigInt (callGasLimit userOp) = Inr cur \<and>
     preVerificationGas op2 = gasPreVerificationGas gas \<and>
     verificationGasLimit op2 = gasVerificationGasLimit gas \<and>
     (if even cur
      then \<exists>new. BigInt (gasCallGasLimit gas) = Inr new \<and>
             (if 0 \<le> new
              then callGasLimit op2 = JSString (hexString (if odd new then new + 1 else new))
              else callGasLimit op2 = JSString (hexString (if bigintRem new 2 = 1 then new + 1 else new)))
      else callGasLimit op2 = callGasLimit userOp) \<and>
     calcGasOverhead e op2 = (op3, None) \<and>
     fst (snd (estimateUserOperationGas e s userOp hook)) =
       (if signature userOp = ''0x'' then op3\<lparr>signature := ''0x''\<rparr> else op3)"
proof -
  from ok have g: "checkGuardHookInput userOp hook = None"
    by (auto simp: estimateUserOperationGas_def split: option.splits)
  obtain r s1 where run: "getOnChainConfig e s = (r, s1)" by (cases "getOnChainConfig e s")
  from ok g run obtain c where r: "r = Return (Ok c)"
    by (auto simp: estimateUserOperationGas_def Let_def split: completion.splits result.splits)
  obtain r2 op' s2 where blk: "estimateTry e s1 userOp hook c (signature userOp = ''0x'') = (r2, op', s2)"
    by (cases "estimateTry e s1 userOp hook c (signature userOp = ''0x'')")
  from ok g run r blk have r2: "r2 = Return (Ok True)"
    by (simp add: estimateUserOperationGas_def Let_def)
  have fin: "fst (snd (estimateUserOperationGas e s userOp hook)) =
       (if signature userOp = ''0x'' then op'\<lparr>signature := ''0x''\<rparr> else op')"
    using g run r blk by (simp add: estimateUserOperationGas_def Let_def)
  from estimateTry_Ok [OF blk [unfolded r2]] obtain sg gas op2 where
    gas: "eth_estimateUserOperationGas e (entryPoint c) (userOp\<lparr>signature := sg\<rparr>) = Inr (Ok gas)" and
    ap: "applyEstimate (userOp\<lparr>signature := sg\<rparr>) gas = Inr op2" and
    calc: "calcGasOverhead e op2 = (op', None)"
    by (elim exE conjE)
  from applyEstimate_Inr [OF ap] obtain cur where
    cur: "BigInt (callGasLimit userOp) = Inr cur" and
    pv: "preVerificationGas op2 = gasPreVerificationGas gas" and
    vg: "verificationGasLimit op2 = gasVerificationGasLimit gas" and
    cl: "if even cur
      then \<exists>new. BigInt (gasCallGasLimit gas) = Inr new \<and>
             callGasLimit op2 = JSString (hexString (if bigintRem new 2 = 1 then new + 1 else new))
      else callGasLimit op2 = callGasLimit userOp"
    by (elim exE conjE) simp
  have cl': "if even cur
      then \<exists>new. BigInt (gasCallGasLimit gas) = Inr new \<and>
             (if 0 \<le> new
              then callGasLimit op2 = JSString (hexString (if odd new then new + 1 else new))
              else callGasLimit op2 = JSString (hexString (if bigintRem new 2 = 1 then new + 1 else new)))
      else callGasLimit op2 = callGasLimit userOp"
  proof (cases "even cur")
    case True
    with cl obtain new where n: "BigInt (gasCallGasLimit gas) = Inr new"
      and v: "callGasLimit op2 = JSString (hexString (if bigintRem new 2 = 1 then new + 1 else new))"
      by auto
    have "if 0 \<le> new
          then callGasLimit op2 = JSString (hexString (if odd new then new + 1 else new))
          else callGasLimit op2 = JSString (hexString (if bigintRem new 2 = 1 then new + 1 else new))"
      using v bigintRem_odd [of new] by (cases "0 \<le> new") simp_all
    with n have "\<exists>new. BigInt (gasCallGasLimit gas) = Inr new \<and>
             (if 0 \<le> new
              then callGasLimit op2 = JSString (hexString (if odd new then new + 1 else new))
              else callGasLimit op2 = JSString (hexString (if bigintRem new 2 = 1 then new + 1 else new)))"
      by (intro exI [of _ new] conjI)
    with True show ?thesis by simp
  next
    case False
    with cl show ?thesis by simp
  qed
  have cfg: "fst (getOnChainConfig e s) = Return (Ok c)" using run r by simp
  have body: "fst (getOnChainConfig e s) = Return (Ok c) \<and>
     eth_estimateUserOperationGas e (entryPoint c) (userOp\<lparr>signature := sg\<rparr>) = Inr (Ok gas) \<and>
     BigInt (callGasLimit userOp) = Inr cur \<and>
     preVerificationGas op2 = gasPreVerificationGas gas \<and>
     verificationGasLimit op2 = gasVerificationGasLimit gas \<and>
     (if even cur
      then \<exists>new. BigInt (gasCallGasLimit gas) = Inr new \<and>
             (if 0 \<le> new
              then callGasLimit op2 = JSString (hexString (if odd new then new + 1 else new))
              else callGasLimit op2 = JSString (hexString (if bigintRem new 2 = 1 then new + 1 else new)))
      else callGasLimit op2 = callGasLimit userOp) \<and>
     calcGasOverhead e op2 = (op', None) \<and>
     fst (snd (estimateUserOperationGas e s userOp hook)) =
       (if signature userOp = ''0x'' then op'\<lparr>signature := ''0x''\<rparr> else op')"
    using cfg gas cur pv vg cl' calc fin by (intro conjI)
  show ?thesis
    apply (rule exI [of _ c])
    apply (rule exI [of _ sg])
    apply (rule exI [of _ gas])
    apply (rule exI [of _ cur])
    apply (rule exI [of _ op2])
    apply (rule exI [of _ op'])
    apply (rule body)
    done
qed

section \<open>The loops of fromTransaction\<close>

lemma sumGasLimits_all:
  "list_all2 (\<lambda>tx g. \<exists>b. txGasLimit tx = Some b \<and> BigInt b = Inr g) txs gs \<Longrightarrow>
     sumGasLimits txs acc = Inr (acc + sum_list gs)"
  by (induction txs gs arbitrary: acc rule: list_all2_induct) (auto simp: add.assoc)

lemma sumGasLimits_omitted:
  "\<exists>tx\<in>set txs. txGasLimit tx = None \<Longrightarrow> sumGasLimits txs acc = Inr g \<Longrightarrow> g = 0"
  by (induction txs arbitrary: acc) (auto split: option.splits sum.splits)

lemma callValue_zero:
  "callValue tx = Inr v \<Longrightarrow>
     v = ''0x0'' \<longleftrightarrow> (txValue tx = None \<or> (\<exists>b. txValue tx = Some b \<and> BigInt b = Inr 0))"
  by (auto simp: callValue_def hexString_zero split: option.splits sum.splits)

lemma collectCalls_Ok:
  "collectCalls e txs to val dat hv = Return (Ok (to', val', dat', hv')) \<Longrightarrow>
     to' = to @ map txTo txs \<and>
     (\<exists>vs. val' = val @ vs \<and> list_all2 (\<lambda>tx v. callValue tx = Inr v) txs vs \<and>
        hv' = (hv \<or> (\<exists>v\<in>set vs. v \<noteq> ''0x0''))) \<and>
     dat' = dat @ map callBytes txs"
proof (induction txs arbitrary: to val dat hv)
  case Nil
  then show ?case by simp
next
  case (Cons tx txs)
  have a: "onlyAddress e (txTo tx)"
    using Cons.prems by (cases "onlyAddress e (txTo tx)") simp_all
  obtain v where v: "callValue tx = Inr v"
    using Cons.prems a by (cases "callValue tx") simp_all
  have b: "onlyBytes e (callBytes tx)"
    using Cons.prems a v by (cases "onlyBytes e (callBytes tx)") simp_all
  have rest: "collectCalls e txs (to @ [txTo tx]) (val @ [v]) (dat @ [callBytes tx])
        (hv \<or> v \<noteq> ''0x0'') = Return (Ok (to', val', dat', hv'))"
    using Cons.prems a v b by simp
  from Cons.IH [OF rest] obtain vs where
    t: "to' = (to @ [txTo tx]) @ map txTo txs" and
    v1: "val' = (val @ [v]) @ vs" and
    v2: "list_all2 (\<lambda>tx v. callValue tx = Inr v) txs vs" and
    v3: "hv' = ((hv \<or> v \<noteq> ''0x0'') \<or> (\<exists>v\<in>set vs. v \<noteq> ''0x0''))" and
    d: "dat' = (dat @ [callBytes tx]) @ map callBytes txs"
    by (elim exE conjE)
  have w1: "val' = val @ (v # vs)" using v1 by simp
  have w2: "list_all2 (\<lambda>tx v. callValue tx = Inr v) (tx # txs) (v # vs)" using v v2 by simp
  have w3: "hv' = (hv \<or> (\<exists>u\<in>set (v # vs). u \<noteq> ''0x0''))" using v3 by auto
  have "\<exists>vs. val' = val @ vs \<and> list_all2 (\<lambda>tx v. callValue tx = Inr v) (tx # txs) vs \<and>
        hv' = (hv \<or> (\<exists>v\<in>set vs. v \<noteq> ''0x0''))"
    using w1 w2 w3 by (intro exI [of _ "v # vs"] conjI)
  with t d show ?case by simp
qed

lemma fromTransaction_Ok:
  assumes ok: "fst (fromTransaction e s maxFee maxPriorityFee from txs nonceKey) = Return (Ok userOp)"
  shows "txs \<noteq> [] \<and>
     (\<exists>g to val dat hv.
        sumGasLimits txs 0 = Inr g \<and>
        collectCalls e txs [] [] [] False = Return (Ok (to, val, dat, hv)) \<and>
        callData userOp = encodeFunctionData e (chooseCall (length txs) to val dat hv) \<and>
        callGasLimit userOp = JSString (hexString (if bigintRem g 2 = 1 then g + 1 else g)))"
proof -
  have ne: "txs \<noteq> []" using ok by (auto simp: fromTransaction_def)
  have ad: "onlyAddress e from" using ok ne by (auto simp: fromTransaction_def split: if_splits)
  obtain r1 s1 where wd: "walletDeployed e s from = (r1, s1)" by (cases "walletDeployed e s from")
  from ok ne ad wd obtain b where r1: "r1 = Return (Ok b)"
    by (auto simp: fromTransaction_def split: completion.splits result.splits)
  from ok ne ad wd r1 obtain g where g: "sumGasLimits txs 0 = Inr g"
    by (cases "sumGasLimits txs 0") (auto simp: fromTransaction_def)
  obtain r2 s2 where gn: "getNonce e s1 from nonceKey = (r2, s2)" by (cases "getNonce e s1 from nonceKey")
  from ok ne ad wd r1 g gn obtain n where r2: "r2 = Return (Ok n)"
    by (auto simp: fromTransaction_def Let_def split: completion.splits result.splits)
  from ok ne ad wd r1 g gn r2 obtain to val dat hv where
    cc: "collectCalls e txs [] [] [] False = Return (Ok (to, val, dat, hv))"
    by (auto simp: fromTransaction_def Let_def split: completion.splits result.splits)
  from ok ne ad wd r1 g gn r2 cc obtain fee where fee: "BigInt (JSString maxFee) = Inr fee"
    by (cases "BigInt (JSString maxFee)") (auto simp: fromTransaction_def Let_def)
  from ok ne ad wd r1 g gn r2 cc fee obtain pfee where pfee: "BigInt (JSString maxPriorityFee) = Inr pfee"
    by (cases "BigInt (JSString maxPriorityFee)") (auto simp: fromTransaction_def Let_def)
  from ok ne ad wd r1 g gn r2 cc fee pfee have
    "callData userOp = encodeFunctionData e (chooseCall (length txs) to val dat hv) \<and>
     callGasLimit userOp = JSString (hexString (if bigintRem g 2 = 1 then g + 1 else g))"
    by (auto simp: fromTransaction_def Let_def)
  with g cc have "\<exists>g to val dat hv.
        sumGasLimits txs 0 = Inr g \<and>
        collectCalls e txs [] [] [] False = Return (Ok (to, val, dat, hv)) \<and>
        callData userOp = encodeFunctionData e (chooseCall (length txs) to val dat hv) \<and>
        callGasLimit userOp = JSString (hexString (if bigintRem g 2 = 1 then g + 1 else g))"
    by (intro exI [of _ g] exI [of _ to] exI [of _ val] exI [of _ dat] exI [of _ hv] conjI) simp_all
  with ne show ?thesis by simp
qed

lemma callValues_all_zero:
  "list_all2 (\<lambda>tx v. callValue tx = Inr v) txs vs \<Longrightarrow>
     (\<exists>v\<in>set vs. v \<noteq> ''0x0'') \<longleftrightarrow>
     \<not> list_all (\<lambda>tx. case txValue tx of None \<Rightarrow> True | Some b \<Rightarrow> BigInt b = Inr 0) txs"
proof (induction txs vs rule: list_all2_induct)
  case Nil
  then show ?case by simp
next
  case (Cons tx txs v vs)
  have "v = ''0x0'' \<longleftrightarrow> (case txValue tx of None \<Rightarrow> True | Some b \<Rightarrow> BigInt b = Inr 0)"
    using callValue_zero [OF Cons.hyps(1)] by (simp split: option.splits)
  with Cons.IH show ?case by auto
qed

section \<open>The deployment flag\<close>

text \<open>
  The two families of keys in the store never coincide for chain ids that are not
  negative: the last character before the digits is \<open>-\<close> in one and \<open>_\<close> in the
  other.
\<close>

lemma digits10_chars:
  "0 \<le> n \<Longrightarrow> CHR ''-'' \<notin> set (digits10 n) \<and> CHR ''_'' \<notin> set (digits10 n)"
proof (induction n rule: digits10.induct)
  case (1 n)
  show ?case
  proof (cases "n < 10")
    case True
    with "1.prems" show ?thesis
      using digitChar_not_special [of n] by (subst (1 2) digits10.simps) auto
  next
    case False
    with "1.prems" have ih: "CHR ''-'' \<notin> set (digits10 (n div 10)) \<and> CHR ''_'' \<notin> set (digits10 (n div 10))"
      using "1.IH" by simp
    have "digitChar (n mod 10) \<noteq> CHR ''-'' \<and> digitChar (n mod 10) \<noteq> CHR ''_''"
      using digitChar_not_special [of "n mod 10"] by simp
    with False ih show ?thesis by (subst (1 2) digits10.simps) auto
  qed
qed

lemma last_separator:
  assumes eq: "xs @ a # ds = ys @ b # es"
    and ds: "a \<notin> set ds" "b \<notin> set ds"
    and es: "a \<notin> set es" "b \<notin> set es"
  shows "a = b"
proof -
  let ?P = "\<lambda>c. c \<noteq> a \<and> c \<noteq> b"
  from eq have "rev (xs @ a # ds) = rev (ys @ b # es)" by (rule arg_cong)
  then have "rev ds @ a # rev xs = rev es @ b # rev ys" by simp
  then have "dropWhile ?P (rev ds @ a # rev xs) = dropWhile ?P (rev es @ b # rev ys)"
    by (rule arg_cong)
  moreover have "dropWhile ?P (rev ds @ a # rev xs) = a # rev xs"
    using ds by (subst dropWhile_append2) auto
  moreover have "dropWhile ?P (rev es @ b # rev ys) = b # rev ys"
    using es by (subst dropWhile_append2) auto
  ultimately have "a # rev xs = b # rev ys" by simp
  then show ?thesis by simp
qed

lemma keys_disjoint:
  assumes "0 \<le> c" "0 \<le> c'"
  shows "walletDeployedKey w c \<noteq> onChainConfigKey f c'"
proof
  assume "walletDeployedKey w c = onChainConfigKey f c'"
  then have e: "w @ CHR ''-'' # digits10 c = (''onChainConfig_'' @ f) @ CHR ''_'' # digits10 c'"
    using assms by (simp add: walletDeployedKey_def onChainConfigKey_def numberToString_def)
  have "CHR ''-'' = CHR ''_''"
    by (rule last_separator [OF e])
      (use digits10_chars [OF assms(1)] digits10_chars [OF assms(2)] in simp_all)
  then show False by simp
qed

lemma walletDeployed_ready:
  assumes c: "this_onChainConfig s = Some c"
  shows "walletDeployed e s w =
     (if getDeployedEntry s (walletDeployedKey w (chainId c)) then (Return (Ok True), s)
      else (case providerGetCode e w of
              Inl t \<Rightarrow> (Return (Err (caughtError t)), sendRequest (ProviderGetCode w) s)
            | Inr code \<Rightarrow>
                (Return (Ok (code \<noteq> ''0x'')),
                 (if code \<noteq> ''0x''
                  then setDeployedEntry (walletDeployedKey w (chainId c)) True (sendRequest (ProviderGetCode w) s)
                  else sendRequest (ProviderGetCode w) s))))"
  using c by (simp add: walletDeployed_def getOnChainConfig_hit Let_def split: sum.splits)

lemma walletDeployed_via_config:
  assumes run: "getOnChainConfig e s = (Return (Ok c), s1)"
  shows "walletDeployed e s w = walletDeployed e s1 w"
proof -
  have "this_onChainConfig s1 = Some c" using run by (rule getOnChainConfig_Ok)
  then have "getOnChainConfig e s1 = (Return (Ok c), s1)" by (rule getOnChainConfig_hit)
  with run show ?thesis by (simp add: walletDeployed_def)
qed

lemma walletDeployed_no_config:
  assumes run: "getOnChainConfig e s = (r, s1)" and r: "\<forall>c. r \<noteq> Return (Ok c)"
  shows "(\<forall>b. fst (walletDeployed e s w) \<noteq> Return (Ok b)) \<and> snd (walletDeployed e s w) = s1"
proof (cases r)
  case (Throw t)
  with run show ?thesis by (simp add: walletDeployed_def)
next
  case (Return x)
  with r obtain er where "x = Err er" by (cases x) auto
  with run Return show ?thesis by (simp add: walletDeployed_def)
qed

lemma sdk_fields [simp]:
  "this_onChainConfig (sendRequest q s) = this_onChainConfig s"
  "this_onChainConfig (setDeployedEntry k b s) = this_onChainConfig s"
  "requests (sendRequest q s) = requests s @ [q]"
  "requests (setDeployedEntry k b s) = requests s"
  "deployedEntries (storageCache (sendRequest q s)) = deployedEntries (storageCache s)"
  "deployedEntries (storageCache (setDeployedEntry k b s)) = (deployedEntries (storageCache s))(k \<mapsto> b)"
  "getDeployedEntry (sendRequest q s) k = getDeployedEntry s k"
  "getDeployedEntry (setDeployedEntry k b s) k = b"
  by (simp_all add: sendRequest_def setDeployedEntry_def getDeployedEntry_def)

lemma walletDeployed_step:
  assumes c: "this_onChainConfig s = Some c"
  shows "(deployedEntries (storageCache (snd (walletDeployed e s w))) k \<noteq> deployedEntries (storageCache s) k \<longrightarrow>
      deployedEntries (storageCache (snd (walletDeployed e s w))) k = Some True \<and>
      (\<exists>code. providerGetCode e w = Inr code \<and> code \<noteq> ''0x'')) \<and>
   (fst (walletDeployed e s w) = Return (Ok False) \<longrightarrow>
      providerGetCode e w = Inr ''0x'' \<and>
      requests (snd (walletDeployed e s w)) = requests s @ [ProviderGetCode w] \<and>
      requests (snd (walletDeployed e' (snd (walletDeployed e s w)) w)) =
        requests (snd (walletDeployed e s w)) @ [ProviderGetCode w]) \<and>
   (fst (walletDeployed e s w) = Return (Ok True) \<longrightarrow>
      walletDeployed e' (snd (walletDeployed e s w)) w = (Return (Ok True), snd (walletDeployed e s w)))"
proof (cases "getDeployedEntry s (walletDeployedKey w (chainId c))")
  case True
  then have "walletDeployed e s w = (Return (Ok True), s)"
    and "walletDeployed e' s w = (Return (Ok True), s)"
    using c by (simp_all add: walletDeployed_ready)
  then show ?thesis by simp
next
  case False
  show ?thesis
  proof (cases "providerGetCode e w")
    case (Inl t)
    with False c have "walletDeployed e s w =
        (Return (Err (caughtError t)), sendRequest (ProviderGetCode w) s)"
      by (simp add: walletDeployed_ready)
    then show ?thesis by simp
  next
    case (Inr code)
    show ?thesis
    proof (cases "code = ''0x''")
      case True
      with False Inr c have one: "walletDeployed e s w =
          (Return (Ok False), sendRequest (ProviderGetCode w) s)"
        by (simp add: walletDeployed_ready)
      have c': "this_onChainConfig (sendRequest (ProviderGetCode w) s) = Some c" using c by simp
      have "requests (snd (walletDeployed e' (sendRequest (ProviderGetCode w) s) w)) =
          requests (sendRequest (ProviderGetCode w) s) @ [ProviderGetCode w]"
        using False by (simp add: walletDeployed_ready [OF c'] split: sum.splits)
      with one Inr True show ?thesis by simp
    next
      case nonempty: False
      let ?k = "walletDeployedKey w (chainId c)"
      let ?s' = "setDeployedEntry ?k True (sendRequest (ProviderGetCode w) s)"
      from False Inr c nonempty have one: "walletDeployed e s w = (Return (Ok True), ?s')"
        by (simp add: walletDeployed_ready)
      have c': "this_onChainConfig ?s' = Some c" using c by simp
      have two: "walletDeployed e' ?s' w = (Return (Ok True), ?s')"
        by (simp add: walletDeployed_ready [OF c'])
      from one two Inr nonempty show ?thesis by simp
    qed
  qed
qed

text \<open>
  The key of a flag names the wallet and the chain: the last \<open>-\<close> of the key
  separates them, since the digits of a chain id that is not negative hold none.
\<close>

lemma split_at_last:
  assumes eq: "xs @ a # ds = ys @ a # es" and ds: "a \<notin> set ds" and es: "a \<notin> set es"
  shows "xs = ys \<and> ds = es"
proof -
  let ?P = "\<lambda>c. c \<noteq> a"
  from eq have "rev (xs @ a # ds) = rev (ys @ a # es)" by (rule arg_cong)
  then have r: "rev ds @ a # rev xs = rev es @ a # rev ys" by simp
  then have "takeWhile ?P (rev ds @ a # rev xs) = takeWhile ?P (rev es @ a # rev ys)"
    by (rule arg_cong)
  moreover have "takeWhile ?P (rev ds @ a # rev xs) = rev ds"
    using ds by (auto simp: takeWhile_tail)
  moreover have "takeWhile ?P (rev es @ a # rev ys) = rev es"
    using es by (auto simp: takeWhile_tail)
  ultimately have "rev ds = rev es" by simp
  then have d: "ds = es" by simp
  with eq show ?thesis by simp
qed

lemma walletDeployedKey_inj:
  assumes c1: "0 \<le> c1" and c2: "0 \<le> c2"
    and eq: "walletDeployedKey w1 c1 = walletDeployedKey w2 c2"
  shows "w1 = w2 \<and> c1 = c2"
proof -
  from eq c1 c2 have e: "w1 @ CHR ''-'' # digits10 c1 = w2 @ CHR ''-'' # digits10 c2"
    by (simp add: walletDeployedKey_def numberToString_def)
  have "w1 = w2 \<and> digits10 c1 = digits10 c2"
    by (rule split_at_last [OF e]) (use digits10_chars [OF c1] digits10_chars [OF c2] in simp_all)
  with digits10_inj [OF c1 c2] show ?thesis by simp
qed

lemma walletDeployed_cases:
  assumes run: "getOnChainConfig e s = (Return (Ok c), s1)"
  shows "walletDeployed e s w =
     (if getDeployedEntry s (walletDeployedKey w (chainId c)) then (Return (Ok True), s1)
      else (case providerGetCode e w of
              Inl t \<Rightarrow> (Return (Err (caughtError t)), sendRequest (ProviderGetCode w) s1)
            | Inr code \<Rightarrow>
                (Return (Ok (code \<noteq> ''0x'')),
                 (if code \<noteq> ''0x''
                  then setDeployedEntry (walletDeployedKey w (chainId c)) True (sendRequest (ProviderGetCode w) s1)
                  else sendRequest (ProviderGetCode w) s1))))"
proof -
  have c: "this_onChainConfig s1 = Some c" using run by (rule getOnChainConfig_Ok)
  have "deployedEntries (storageCache s1) = deployedEntries (storageCache s)"
    using getOnChainConfig_frame [OF run] by simp
  then have g: "getDeployedEntry s1 = getDeployedEntry s"
    by (simp add: getDeployedEntry_def fun_eq_iff)
  have "walletDeployed e s w = walletDeployed e s1 w" using run by (rule walletDeployed_via_config)
  then show ?thesis unfolding walletDeployed_ready [OF c] g .
qed

text \<open>The call with a resolved config, by the flag of the wallet on that chain.\<close>

lemma walletDeployed_flag_set:
  assumes run: "getOnChainConfig e s = (Return (Ok c), s1)"
    and f: "getDeployedEntry s (walletDeployedKey w (chainId c))"
  shows "walletDeployed e s w = (Return (Ok True), s1)"
  using f by (simp add: walletDeployed_cases [OF run])

lemma walletDeployed_flag_unset:
  assumes run: "getOnChainConfig e s = (Return (Ok c), s1)"
    and f: "\<not> getDeployedEntry s (walletDeployedKey w (chainId c))"
  shows "requests (snd (walletDeployed e s w)) = requests s1 @ [ProviderGetCode w]"
    and "providerGetCode e w = Inl t \<Longrightarrow>
       fst (walletDeployed e s w) = Return (Err (caughtError t)) \<and>
       deployedEntries (storageCache (snd (walletDeployed e s w))) = deployedEntries (storageCache s)"
    and "providerGetCode e w = Inr ''0x'' \<Longrightarrow>
       fst (walletDeployed e s w) = Return (Ok False) \<and>
       deployedEntries (storageCache (snd (walletDeployed e s w))) = deployedEntries (storageCache s)"
    and "providerGetCode e w = Inr code \<Longrightarrow> code \<noteq> ''0x'' \<Longrightarrow>
       fst (walletDeployed e s w) = Return (Ok True) \<and>
       deployedEntries (storageCache (snd (walletDeployed e s w))) =
         (deployedEntries (storageCache s))(walletDeployedKey w (chainId c) \<mapsto> True)"
proof -
  have d: "deployedEntries (storageCache s1) = deployedEntries (storageCache s)"
    using getOnChainConfig_frame [OF run] by simp
  show "requests (snd (walletDeployed e s w)) = requests s1 @ [ProviderGetCode w]"
    using f by (simp add: walletDeployed_cases [OF run] split: sum.splits)
  show "providerGetCode e w = Inl t \<Longrightarrow>
       fst (walletDeployed e s w) = Return (Err (caughtError t)) \<and>
       deployedEntries (storageCache (snd (walletDeployed e s w))) = deployedEntries (storageCache s)"
    using f d by (simp add: walletDeployed_cases [OF run])
  show "providerGetCode e w = Inr ''0x'' \<Longrightarrow>
       fst (walletDeployed e s w) = Return (Ok False) \<and>
       deployedEntries (storageCache (snd (walletDeployed e s w))) = deployedEntries (storageCache s)"
    using f d by (simp add: walletDeployed_cases [OF run])
  show "providerGetCode e w = Inr code \<Longrightarrow> code \<noteq> ''0x'' \<Longrightarrow>
       fst (walletDeployed e s w) = Return (Ok True) \<and>
       deployedEntries (storageCache (snd (walletDeployed e s w))) =
         (deployedEntries (storageCache s))(walletDeployedKey w (chainId c) \<mapsto> True)"
    using f d by (simp add: walletDeployed_cases [OF run])
qed

lemma walletDeployed_keeps_config:
  assumes run: "getOnChainConfig e s = (Return (Ok c), s1)"
  shows "getOnChainConfig e' (snd (walletDeployed e s w)) = (Return (Ok c), snd (walletDeployed e s w))"
proof -
  have c: "this_onChainConfig s1 = Some c" using run by (rule getOnChainConfig_Ok)
  have "this_onChainConfig (snd (walletDeployed e s w)) = Some c"
    using c by (simp add: walletDeployed_cases [OF run] split: sum.splits)
  then show ?thesis by (rule getOnChainConfig_hit)
qed

lemma walletDeployed_other_keys:
  assumes run: "getOnChainConfig e s = (Return (Ok c), s1)"
    and k: "k \<noteq> walletDeployedKey w (chainId c)"
  shows "deployedEntries (storageCache (snd (walletDeployed e s w))) k = deployedEntries (storageCache s) k"
proof -
  have d: "deployedEntries (storageCache s1) = deployedEntries (storageCache s)"
    using getOnChainConfig_frame [OF run] by simp
  show ?thesis using k d by (simp add: walletDeployed_cases [OF run] split: sum.splits)
qed

lemma walletDeployed_other_wallets:
  assumes run: "getOnChainConfig e s = (Return (Ok c), s1)"
    and c: "0 \<le> chainId c" and cid: "0 \<le> cid"
    and other: "w' \<noteq> w \<or> cid \<noteq> chainId c"
  shows "getDeployedEntry (snd (walletDeployed e s w)) (walletDeployedKey w' cid) =
     getDeployedEntry s (walletDeployedKey w' cid)"
proof -
  have "walletDeployedKey w' cid \<noteq> walletDeployedKey w (chainId c)"
    using walletDeployedKey_inj [OF cid c, of w' w] other by blast
  from walletDeployed_other_keys [OF run this] show ?thesis by (simp add: getDeployedEntry_def)
qed

lemma walletDeployed_change:
  assumes ch: "deployedEntries (storageCache (snd (walletDeployed e s w))) k \<noteq>
      deployedEntries (storageCache s) k"
  shows "deployedEntries (storageCache (snd (walletDeployed e s w))) k = Some True \<and>
     (\<exists>code. providerGetCode e w = Inr code \<and> code \<noteq> ''0x'') \<and>
     (\<exists>c. fst (getOnChainConfig e s) = Return (Ok c) \<and> k = walletDeployedKey w (chainId c))"
proof -
  obtain r s1 where run: "getOnChainConfig e s = (r, s1)" by (cases "getOnChainConfig e s")
  have fr: "deployedEntries (storageCache s1) = deployedEntries (storageCache s)"
    using getOnChainConfig_frame [OF run] by simp
  have "\<exists>c. r = Return (Ok c)"
  proof (rule ccontr)
    assume "\<not> (\<exists>c. r = Return (Ok c))"
    then have "\<forall>c. r \<noteq> Return (Ok c)" by simp
    from walletDeployed_no_config [OF run this, of w] fr ch show False by simp
  qed
  then obtain c where r: "r = Return (Ok c)" by (elim exE)
  note run' = run [unfolded r]
  have k: "k = walletDeployedKey w (chainId c)"
  proof (rule ccontr)
    assume "k \<noteq> walletDeployedKey w (chainId c)"
    from walletDeployed_other_keys [OF run' this] ch show False by simp
  qed
  have set: "\<not> getDeployedEntry s (walletDeployedKey w (chainId c))"
  proof
    assume "getDeployedEntry s (walletDeployedKey w (chainId c))"
    from walletDeployed_flag_set [OF run' this] fr ch show False by simp
  qed
  have code: "\<exists>code. providerGetCode e w = Inr code \<and> code \<noteq> ''0x''"
  proof (cases "providerGetCode e w")
    case (Inl t)
    from walletDeployed_flag_unset(2) [OF run' set Inl] ch show ?thesis by simp
  next
    case (Inr code)
    show ?thesis
    proof (cases "code = ''0x''")
      case True
      with Inr have "providerGetCode e w = Inr ''0x''" by simp
      from walletDeployed_flag_unset(3) [OF run' set this] ch show ?thesis by simp
    next
      case False
      with Inr show ?thesis by simp
    qed
  qed
  then obtain code where cd: "providerGetCode e w = Inr code" and ne: "code \<noteq> ''0x''"
    by (elim exE conjE)
  from walletDeployed_flag_unset(4) [OF run' set cd ne] k
  have "deployedEntries (storageCache (snd (walletDeployed e s w))) k = Some True" by simp
  with code k run' show ?thesis by simp
qed

lemma walletDeployed_repeat:
  "(fst (walletDeployed e s w) = Return (Ok False) \<longrightarrow>
      providerGetCode e w = Inr ''0x'' \<and>
      (\<exists>rs. requests (snd (walletDeployed e s w)) = requests s @ rs @ [ProviderGetCode w]) \<and>
      requests (snd (walletDeployed e' (snd (walletDeployed e s w)) w)) =
        requests (snd (walletDeployed e s w)) @ [ProviderGetCode w]) \<and>
   (fst (walletDeployed e s w) = Return (Ok True) \<longrightarrow>
      walletDeployed e' (snd (walletDeployed e s w)) w = (Return (Ok True), snd (walletDeployed e s w)))"
proof -
  obtain r s1 where run: "getOnChainConfig e s = (r, s1)" by (cases "getOnChainConfig e s")
  have rq: "\<exists>rs. requests s1 = requests s @ rs"
    using getOnChainConfig_frame [OF run] by simp
  show ?thesis
  proof (cases "\<exists>c. r = Return (Ok c)")
    case False
    then have "\<forall>c. r \<noteq> Return (Ok c)" by simp
    from walletDeployed_no_config [OF run this, of w] show ?thesis by simp
  next
    case True
    then obtain c where r: "r = Return (Ok c)" by (elim exE)
    have same: "walletDeployed e s w = walletDeployed e s1 w"
      using run unfolding r by (rule walletDeployed_via_config)
    have c: "this_onChainConfig s1 = Some c" using run unfolding r by (rule getOnChainConfig_Ok)
    from rq obtain rs where rs: "requests s1 = requests s @ rs" by (elim exE)
    have ex: "requests (snd (walletDeployed e s1 w)) = requests s1 @ [ProviderGetCode w] \<Longrightarrow>
        \<exists>rs. requests (snd (walletDeployed e s1 w)) = requests s @ rs @ [ProviderGetCode w]"
      using rs by simp
    from walletDeployed_step [OF c, of e w k e'] ex show ?thesis
      unfolding same by blast
  qed
qed

section \<open>The earlier generation: config, submission, estimation, prefund\<close>

lemma getOnChainConfig_v1_hit:
  "configEntries (storageCache s) (onChainConfigKey_v1 (soulWalletFactoryAddress e)) = Some c \<Longrightarrow>
     getOnChainConfig_v1 e s = (Return c, s)"
  by (simp add: getOnChainConfig_v1_def)

lemma checkBundler_v1_Return:
  "checkBundler_v1 e c s = (Return c', s') \<Longrightarrow>
     c' = c \<and> s' = sendRequest BundlerSupportedEntryPoints s"
  by (auto simp: checkBundler_v1_def Let_def split: sum.splits result.splits if_splits)

lemma configEntries_fields [simp]:
  "configEntries (storageCache (sendRequest q s)) = configEntries (storageCache s)"
  "configEntries (storageCache (setConfigEntry k c s)) = (configEntries (storageCache s))(k \<mapsto> c)"
  "configEntries (storageCache (setDeployedEntry k b s)) = configEntries (storageCache s)"
  by (simp_all add: sendRequest_def setConfigEntry_def setDeployedEntry_def)

lemma resolveOnChainConfig_v1_Return:
  assumes "resolveOnChainConfig_v1 e key s = (Return c, s')"
  shows "configEntries (storageCache s') key = Some c"
proof -
  from assms obtain logic where l: "factoryWalletImpl e = Inr logic"
    by (cases "factoryWalletImpl e") (auto simp: resolveOnChainConfig_v1_def Let_def)
  from assms l obtain ep where p: "walletEntryPoint e logic = Inr ep"
    by (cases "walletEntryPoint e logic") (auto simp: resolveOnChainConfig_v1_def Let_def)
  let ?s2 = "sendRequest (WalletEntryPoint logic) (sendRequest FactoryWalletImpl s)"
  obtain r s3 where ids: "readChainIds_v1 e ?s2 = (r, s3)" by (cases "readChainIds_v1 e ?s2")
  from assms l p ids obtain cid where r: "r = Return cid"
    by (cases r) (auto simp: resolveOnChainConfig_v1_def Let_def)
  let ?c = "\<lparr>chainId = cid, entryPoint = ep, soulWalletLogic = logic\<rparr>"
  from assms l p ids r have "checkBundler_v1 e ?c (setConfigEntry key ?c s3) = (Return c, s')"
    by (simp add: resolveOnChainConfig_v1_def Let_def)
  from checkBundler_v1_Return [OF this] show ?thesis by simp
qed

lemma getOnChainConfig_v1_Return:
  assumes "getOnChainConfig_v1 e s = (Return c, s')"
  shows "configEntries (storageCache s') (onChainConfigKey_v1 (soulWalletFactoryAddress e)) = Some c"
proof (cases "configEntries (storageCache s) (onChainConfigKey_v1 (soulWalletFactoryAddress e))")
  case None
  with assms have "resolveOnChainConfig_v1 e (onChainConfigKey_v1 (soulWalletFactoryAddress e)) s = (Return c, s')"
    by (simp add: getOnChainConfig_v1_def)
  then show ?thesis by (rule resolveOnChainConfig_v1_Return)
next
  case (Some c0)
  with assms show ?thesis by (simp add: getOnChainConfig_v1_def)
qed

lemma getOnChainConfig_v1_again:
  assumes "fst (getOnChainConfig_v1 e s) = Return c"
    and "soulWalletFactoryAddress e' = soulWalletFactoryAddress e"
  shows "getOnChainConfig_v1 e' (snd (getOnChainConfig_v1 e s)) = (Return c, snd (getOnChainConfig_v1 e s))"
proof -
  obtain s' where run: "getOnChainConfig_v1 e s = (Return c, s')"
    using assms(1) by (cases "getOnChainConfig_v1 e s") simp
  from getOnChainConfig_v1_Return [OF run] assms(2)
  have "configEntries (storageCache s') (onChainConfigKey_v1 (soulWalletFactoryAddress e')) = Some c"
    by simp
  then have "getOnChainConfig_v1 e' s' = (Return c, s')" by (rule getOnChainConfig_v1_hit)
  with run show ?thesis by simp
qed

lemma sendUserOperation_v1_accepted:
  assumes cfg: "fst (getOnChainConfig_v1 e s) = Return c"
    and acc: "eth_sendUserOperation e (entryPoint c) userOp = Inr (Ok h)"
  shows "fst (sendUserOperation_v1 e s userOp) =
     (if toLowerCase h \<noteq> toLowerCase (getUserOpHash e userOp (entryPoint c) (chainId c))
      then Some (UserOpErrors UnknownError ''userOpHash !== userOPHashLocal'')
      else None)"
proof -
  obtain s1 where run: "getOnChainConfig_v1 e s = (Return c, s1)"
    using cfg by (cases "getOnChainConfig_v1 e s") simp
  let ?s2 = "sendRequest BundlerSendUserOperation s1"
  have "configEntries (storageCache ?s2) (onChainConfigKey_v1 (soulWalletFactoryAddress e)) = Some c"
    using getOnChainConfig_v1_Return [OF run] by simp
  then have again: "getOnChainConfig_v1 e ?s2 = (Return c, ?s2)" by (rule getOnChainConfig_v1_hit)
  show ?thesis
    using run acc again
    by (simp add: sendUserOperation_v1_def sendTry_v1_def userOpHash_v1_def Let_def caught_v1_def)
qed

lemma sendUserOperation_v1_success:
  assumes ok: "fst (sendUserOperation_v1 e s userOp) = None"
  shows "\<exists>c h. fst (getOnChainConfig_v1 e s) = Return c \<and>
           eth_sendUserOperation e (entryPoint c) userOp = Inr (Ok h) \<and>
           toLowerCase h = toLowerCase (getUserOpHash e userOp (entryPoint c) (chainId c))"
proof -
  obtain r s1 where run: "getOnChainConfig_v1 e s = (r, s1)" by (cases "getOnChainConfig_v1 e s")
  from ok run obtain c where r: "r = Return c"
    by (cases r) (auto simp: sendUserOperation_v1_def sendTry_v1_def caught_v1_def)
  have cfg: "fst (getOnChainConfig_v1 e s) = Return c" using run r by simp
  from ok run r obtain h where acc: "eth_sendUserOperation e (entryPoint c) userOp = Inr (Ok h)"
    by (auto simp: sendUserOperation_v1_def sendTry_v1_def caught_v1_def Let_def
        split: sum.splits result.splits)
  from sendUserOperation_v1_accepted [OF cfg acc] ok
  have "toLowerCase h = toLowerCase (getUserOpHash e userOp (entryPoint c) (chainId c))"
    by (simp split: if_splits)
  with cfg acc show ?thesis by blast
qed

lemma estimateUserOperationGas_v1_restores:
  "signature userOp = ''0x'' \<Longrightarrow>
     signature (fst (snd (estimateUserOperationGas_v1 e s userOp))) = ''0x''"
  by (simp add: estimateUserOperationGas_v1_def Let_def split: prod.splits)

lemma estimateTry_v1_Ok:
  assumes "estimateTry_v1 e s userOp semi = (Return None, op', s')"
  shows "\<exists>c sg gas.
     fst (getOnChainConfig_v1 e s) = Return c \<and>
     eth_estimateUserOperationGas e (entryPoint c) (userOp\<lparr>signature := sg\<rparr>) = Inr (Ok gas) \<and>
     calcGasOverhead e
       (userOp\<lparr>signature := sg,
                preVerificationGas := gasPreVerificationGas gas,
                verificationGasLimit := gasVerificationGasLimit gas,
                callGasLimit := gasCallGasLimit gas\<rparr>) = (op', None)"
proof -
  obtain r s1 where run: "getOnChainConfig_v1 e s = (r, s1)" by (cases "getOnChainConfig_v1 e s")
  from assms run obtain c where r: "r = Return c"
    by (cases r) (auto simp: estimateTry_v1_def)
  have cfg: "fst (getOnChainConfig_v1 e s) = Return c" using run r by simp
  from assms run r have ni: "\<not> (semi \<and> initCode userOp = ''0x'')"
    by (auto simp: estimateTry_v1_def)
  define sg where "sg = (if semi then semiValidSignature_v1 e else signature userOp)"
  have op1: "(if semi then userOp\<lparr>signature := semiValidSignature_v1 e\<rparr> else userOp) =
      userOp\<lparr>signature := sg\<rparr>"
    by (simp add: sg_def)
  from assms run r ni obtain gas where
    gas: "eth_estimateUserOperationGas e (entryPoint c) (userOp\<lparr>signature := sg\<rparr>) = Inr (Ok gas)"
    unfolding estimateTry_v1_def Let_def op1
    by (auto split: sum.splits result.splits)
  from assms run r ni gas have calc: "calcGasOverhead e
       (userOp\<lparr>signature := sg,
                preVerificationGas := gasPreVerificationGas gas,
                verificationGasLimit := gasVerificationGasLimit gas,
                callGasLimit := gasCallGasLimit gas\<rparr>) = (op', None)"
    unfolding estimateTry_v1_def Let_def op1
    by (auto split: prod.splits option.splits)
  from cfg gas calc show ?thesis by (intro exI conjI)
qed

lemma estimateUserOperationGas_v1_Ok:
  assumes ok: "fst (estimateUserOperationGas_v1 e s userOp) = None"
  shows "\<exists>c sg gas op3.
     fst (getOnChainConfig_v1 e s) = Return c \<and>
     eth_estimateUserOperationGas e (entryPoint c) (userOp\<lparr>signature := sg\<rparr>) = Inr (Ok gas) \<and>
     calcGasOverhead e
       (userOp\<lparr>signature := sg,
                preVerificationGas := gasPreVerificationGas gas,
                verificationGasLimit := gasVerificationGasLimit gas,
                callGasLimit := gasCallGasLimit gas\<rparr>) = (op3, None) \<and>
     fst (snd (estimateUserOperationGas_v1 e s userOp)) =
       (if signature userOp = ''0x'' then op3\<lparr>signature := ''0x''\<rparr> else op3)"
proof -
  obtain r op' s1 where blk: "estimateTry_v1 e s userOp (signature userOp = ''0x'') = (r, op', s1)"
    by (cases "estimateTry_v1 e s userOp (signature userOp = ''0x'')")
  from ok blk have r: "r = Return None"
    by (cases r) (auto simp: estimateUserOperationGas_v1_def Let_def caught_v1_def)
  have fin: "fst (snd (estimateUserOperationGas_v1 e s userOp)) =
       (if signature userOp = ''0x'' then op'\<lparr>signature := ''0x''\<rparr> else op')"
    using blk by (simp add: estimateUserOperationGas_v1_def Let_def)
  from estimateTry_v1_Ok [OF blk [unfolded r]] obtain c sg gas where
    cfg: "fst (getOnChainConfig_v1 e s) = Return c" and
    gas: "eth_estimateUserOperationGas e (entryPoint c) (userOp\<lparr>signature := sg\<rparr>) = Inr (Ok gas)" and
    calc: "calcGasOverhead e
       (userOp\<lparr>signature := sg,
                preVerificationGas := gasPreVerificationGas gas,
                verificationGasLimit := gasVerificationGasLimit gas,
                callGasLimit := gasCallGasLimit gas\<rparr>) = (op', None)"
    by (elim exE conjE)
  from cfg gas calc fin show ?thesis by (intro exI conjI)
qed

lemma preFund_v1_value:
  assumes mf: "BigInt (maxFeePerGas userOp) = Inr maxFee"
    and pg: "BigInt (preVerificationGas userOp) = Inr preGas"
    and vg: "BigInt (verificationGasLimit userOp) = Inr verGas"
    and cg: "BigInt (callGasLimit userOp) = Inr callGas"
    and nz: "maxFee \<noteq> 0" "preGas \<noteq> 0" "verGas \<noteq> 0"
    and cfg: "fst (getOnChainConfig_v1 e s) = Return c"
    and bal: "entryPointBalanceOf e (entryPoint c) (sender userOp) = Inr dep"
  shows "fst (preFund_v1 e s userOp) =
     Return \<lparr>deposit = hexString dep,
       prefund = hexString
         ((callGas + verGas * (if paymasterAndData userOp \<noteq> ''0x'' then 3 else 1) + preGas) * maxFee),
       missfund = hexString (max 0
         ((callGas + verGas * (if paymasterAndData userOp \<noteq> ''0x'' then 3 else 1) + preGas) * maxFee - dep))\<rparr>"
proof -
  obtain s1 where run: "getOnChainConfig_v1 e s = (Return c, s1)"
    using cfg by (cases "getOnChainConfig_v1 e s") simp
  show ?thesis
    using mf pg vg cg nz run bal
    by (simp add: preFund_v1_def Let_def max_def)
qed

lemma preFund_v1_zero:
  assumes "BigInt (maxFeePerGas userOp) = Inr maxFee"
    and "BigInt (preVerificationGas userOp) = Inr preGas"
    and "BigInt (verificationGasLimit userOp) = Inr verGas"
    and "BigInt (callGasLimit userOp) = Inr callGas"
    and "maxFee = 0 \<or> preGas = 0 \<or> verGas = 0"
  shows "preFund_v1 e s userOp =
     (Throw (ThrownError ''maxFeePerGas, preVerificationGas, verificationGasLimit must > 0''), s)"
  using assms by (auto simp: preFund_v1_def)

lemma preFund_v1_zero_any:
  assumes "BigInt (maxFeePerGas userOp) = Inr 0 \<or> BigInt (preVerificationGas userOp) = Inr 0 \<or>
      BigInt (verificationGasLimit userOp) = Inr 0"
  shows "\<exists>t. preFund_v1 e s userOp = (Throw t, s)"
  using assms by (auto simp: preFund_v1_def split: sum.splits)

section \<open>The config cache entry is written before the bundler check\<close>

text \<open>
  C1. The claim: the config is stored in the cache only after every check has passed,
  so that a resolution failing at the bundler's supported-entry-points check leaves no
  entry under its key and the next call resolves again from scratch. Both generations
  store the entry first (\<open>StorageCache.getInstance().set(key, _onChainConfig)\<close>) and
  ask the bundler afterwards. With a bundler that does not support the entry point,
  the first call fails (\<open>Err\<close> in the later generation, a thrown \<open>Error\<close> in the earlier
  one), the entry is in the store all the same, and the second call answers with that
  entry: the later generation after reading the provider's chain id only, the earlier
  one without any request. The bundler is not asked again. The chain id checks, which
  come before the store, do not have this effect.
\<close>

theorem getOnChainConfig_entry_survives_failed_bundler_check:
  "(case getOnChainConfig unsupportedEnv freshSdk of
      (r1, s1) \<Rightarrow>
        r1 = Return (Err (Error ''Bundler network doesn't support entryPoint 0xE1'')) \<and>
        configEntries (storageCache s1) (onChainConfigKey ''0xF1'' 5) = Some demoConfig \<and>
        (case getOnChainConfig unsupportedEnv s1 of
           (r2, s2) \<Rightarrow>
             r2 = Return (Ok demoConfig) \<and>
             requests s2 = requests s1 @ [ProviderGetNetwork])) \<and>
   (case getOnChainConfig_v1 unsupportedEnv freshSdk of
      (r1, s1) \<Rightarrow>
        r1 = Throw (ThrownError ''Bundler network doesn't support entryPoint 0xE1'') \<and>
        configEntries (storageCache s1) (onChainConfigKey_v1 ''0xF1'') = Some demoConfig \<and>
        (case getOnChainConfig_v1 unsupportedEnv s1 of
           (r2, s2) \<Rightarrow>
             r2 = Return demoConfig \<and>
             requests s2 = requests s1))"
  by code_simp

section \<open>A resolved config is answered from the cache\<close>

text \<open>
  C2. The claim: the cache key is derived from both the factory address and the
  chain id, and a second \<open>getOnChainConfig\<close> call returns the cached value without
  new chain reads or re-validation. The earlier generation builds its key from the
  factory address alone: after a resolution on chain 5, an instance with the same
  factory whose provider and bundler are on chain 6 is answered the config of
  chain 5.
\<close>

theorem getOnChainConfig_v1_key_without_chain:
  "fst (getOnChainConfig_v1 demoEnv freshSdk) = Return demoConfig \<and>
   chainId demoConfig = 5 \<and>
   providerGetNetwork chain6Env = Inr 6 \<and>
   bundlerGetNetwork chain6Env = Inr 6 \<and>
   soulWalletFactoryAddress chain6Env = soulWalletFactoryAddress demoEnv \<and>
   fst (getOnChainConfig_v1 chain6Env (snd (getOnChainConfig_v1 demoEnv freshSdk))) = Return demoConfig \<and>
   requests (snd (getOnChainConfig_v1 chain6Env (snd (getOnChainConfig_v1 demoEnv freshSdk)))) =
     requests (snd (getOnChainConfig_v1 demoEnv freshSdk))"
  by code_simp

text \<open>
  C2, amended. In the later generation, once \<open>getOnChainConfig\<close> has answered \<open>Ok\<close>
  on an instance, a further call on that instance answers the same config and
  leaves the state as it is: no request is sent and nothing is checked again,
  whatever the chain and the bundler would now answer; when the first call had no
  config on the instance, the config is in the store under the key of the factory
  address and the provider's chain id, and that key tells two chain ids apart and
  two factory addresses apart. In the earlier generation the key tells two factory
  addresses apart and has no chain id in it; once a call has returned a config, it
  is in the store under that key, and a further call for the same factory answers it
  and leaves the state as it is.
\<close>

theorem getOnChainConfig_second_call:
  "(fst (getOnChainConfig e s) = Return (Ok c) \<longrightarrow>
      getOnChainConfig e' (snd (getOnChainConfig e s)) = (Return (Ok c), snd (getOnChainConfig e s)) \<and>
      (this_onChainConfig s = None \<longrightarrow>
         (\<exists>cid. providerGetNetwork e = Inr cid \<and>
            configEntries (storageCache (snd (getOnChainConfig e s)))
              (onChainConfigKey (soulWalletFactoryAddress e) cid) = Some c))) \<and>
   (\<forall>f c1 c2. onChainConfigKey f c1 = onChainConfigKey f c2 \<longleftrightarrow> c1 = c2) \<and>
   (\<forall>f1 f2 k. onChainConfigKey f1 k = onChainConfigKey f2 k \<longleftrightarrow> f1 = f2) \<and>
   (fst (getOnChainConfig_v1 e s) = Return c \<and>
    soulWalletFactoryAddress e' = soulWalletFactoryAddress e \<longrightarrow>
      getOnChainConfig_v1 e' (snd (getOnChainConfig_v1 e s)) =
        (Return c, snd (getOnChainConfig_v1 e s)) \<and>
      configEntries (storageCache (snd (getOnChainConfig_v1 e s)))
        (onChainConfigKey_v1 (soulWalletFactoryAddress e)) = Some c) \<and>
   (\<forall>f1 f2. onChainConfigKey_v1 f1 = onChainConfigKey_v1 f2 \<longleftrightarrow> f1 = f2)"
proof -
  have a: "fst (getOnChainConfig e s) = Return (Ok c) \<longrightarrow>
      getOnChainConfig e' (snd (getOnChainConfig e s)) = (Return (Ok c), snd (getOnChainConfig e s)) \<and>
      (this_onChainConfig s = None \<longrightarrow>
         (\<exists>cid. providerGetNetwork e = Inr cid \<and>
            configEntries (storageCache (snd (getOnChainConfig e s)))
              (onChainConfigKey (soulWalletFactoryAddress e) cid) = Some c))"
    using getOnChainConfig_second [of e s c e'] by simp
  have b: "fst (getOnChainConfig_v1 e s) = Return c \<and>
    soulWalletFactoryAddress e' = soulWalletFactoryAddress e \<longrightarrow>
      getOnChainConfig_v1 e' (snd (getOnChainConfig_v1 e s)) =
        (Return c, snd (getOnChainConfig_v1 e s)) \<and>
      configEntries (storageCache (snd (getOnChainConfig_v1 e s)))
        (onChainConfigKey_v1 (soulWalletFactoryAddress e)) = Some c"
  proof
    assume h: "fst (getOnChainConfig_v1 e s) = Return c \<and>
      soulWalletFactoryAddress e' = soulWalletFactoryAddress e"
    then obtain s' where run: "getOnChainConfig_v1 e s = (Return c, s')"
      by (cases "getOnChainConfig_v1 e s") simp
    from h getOnChainConfig_v1_again [of e s c e'] getOnChainConfig_v1_Return [OF run] run
    show "getOnChainConfig_v1 e' (snd (getOnChainConfig_v1 e s)) =
        (Return c, snd (getOnChainConfig_v1 e s)) \<and>
      configEntries (storageCache (snd (getOnChainConfig_v1 e s)))
        (onChainConfigKey_v1 (soulWalletFactoryAddress e)) = Some c"
      by simp
  qed
  have k: "\<forall>f1 f2. onChainConfigKey_v1 f1 = onChainConfigKey_v1 f2 \<longleftrightarrow> f1 = f2"
    by (simp add: onChainConfigKey_v1_def)
  from a b k show ?thesis
    by (simp add: onChainConfigKey_chain onChainConfigKey_factory)
qed

theorem getOnChainConfig_second_call_witness:
  "fst (getOnChainConfig demoEnv freshSdk) = Return (Ok demoConfig) \<and>
   fst (getOnChainConfig unsupportedEnv (snd (getOnChainConfig demoEnv freshSdk))) = Return (Ok demoConfig) \<and>
   requests (snd (getOnChainConfig unsupportedEnv (snd (getOnChainConfig demoEnv freshSdk)))) =
     requests (snd (getOnChainConfig demoEnv freshSdk)) \<and>
   configEntries (storageCache (snd (getOnChainConfig demoEnv freshSdk)))
     (onChainConfigKey ''0xF1'' 5) = Some demoConfig \<and>
   fst (getOnChainConfig_v1 demoEnv freshSdk) = Return demoConfig \<and>
   fst (getOnChainConfig_v1 unsupportedEnv (snd (getOnChainConfig_v1 demoEnv freshSdk))) = Return demoConfig \<and>
   requests (snd (getOnChainConfig_v1 unsupportedEnv (snd (getOnChainConfig_v1 demoEnv freshSdk)))) =
     requests (snd (getOnChainConfig_v1 demoEnv freshSdk))"
proof -
  have h: "fst (getOnChainConfig demoEnv freshSdk) = Return (Ok demoConfig)" by code_simp
  have h1: "fst (getOnChainConfig_v1 demoEnv freshSdk) = Return demoConfig" by code_simp
  have n: "this_onChainConfig freshSdk = None" by (simp add: freshSdk_def)
  have p: "providerGetNetwork demoEnv = Inr 5" "soulWalletFactoryAddress demoEnv = ''0xF1''"
    "soulWalletFactoryAddress unsupportedEnv = soulWalletFactoryAddress demoEnv"
    by (simp_all add: demoEnv_def unsupportedEnv_def)
  from getOnChainConfig_second_call [of demoEnv freshSdk demoConfig unsupportedEnv] h h1 n p
  show ?thesis by auto
qed

section \<open>Submission: a differing hash\<close>

text \<open>
  C3. The claim: whenever the bundler's hash differs from the local one,
  \<open>sendUserOperation\<close> raises a fatal fault, an escalated error and not a normal
  result. The earlier generation throws inside a \<open>try\<close> whose handler catches
  everything: the call resolves with a \<open>UserOpErrors\<close> value, as it does for every
  other failure.
\<close>

theorem sendUserOperation_v1_returns_mismatch:
  "eth_sendUserOperation mismatchEnv ''0xE1'' demoOp = Inr (Ok ''0xAC'') \<and>
   getUserOpHash mismatchEnv demoOp ''0xE1'' 5 = ''0xab'' \<and>
   fst (sendUserOperation_v1 mismatchEnv freshSdk demoOp) =
     Some (UserOpErrors UnknownError ''userOpHash !== userOPHashLocal'')"
  by code_simp

text \<open>
  C3, amended. Both generations submit first and compute the hash locally
  afterwards. When the bundler has accepted the operation and its hash differs from
  the local one after both are lower-cased, the later generation throws
  \<open>Error("userOpHash !== userOPHashLocal")\<close>, so that the promise rejects and no
  \<open>Result\<close> is returned, and the earlier generation returns
  \<open>UserOpErrors(UnknownError, "userOpHash !== userOPHashLocal")\<close>. Neither
  answers success (\<open>Ok(true)\<close>, \<open>undefined\<close>) unless the two hashes agree up to case.
\<close>

theorem sendUserOperation_hash_mismatch_throws:
  "(fst (getOnChainConfig e s) = Return (Ok c) \<and>
    eth_sendUserOperation e (entryPoint c) userOp = Inr (Ok h) \<and>
    toLowerCase h \<noteq> toLowerCase (getUserOpHash e userOp (entryPoint c) (chainId c)) \<longrightarrow>
      fst (sendUserOperation e s userOp) = Throw (ThrownError ''userOpHash !== userOPHashLocal'')) \<and>
   (fst (sendUserOperation e s userOp) = Return (Ok True) \<longrightarrow>
      (\<exists>c' h'. fst (getOnChainConfig e s) = Return (Ok c') \<and>
         eth_sendUserOperation e (entryPoint c') userOp = Inr (Ok h') \<and>
         toLowerCase h' = toLowerCase (getUserOpHash e userOp (entryPoint c') (chainId c')))) \<and>
   (fst (getOnChainConfig_v1 e s) = Return c \<and>
    eth_sendUserOperation e (entryPoint c) userOp = Inr (Ok h) \<and>
    toLowerCase h \<noteq> toLowerCase (getUserOpHash e userOp (entryPoint c) (chainId c)) \<longrightarrow>
      fst (sendUserOperation_v1 e s userOp) =
        Some (UserOpErrors UnknownError ''userOpHash !== userOPHashLocal'')) \<and>
   (fst (sendUserOperation_v1 e s userOp) = None \<longrightarrow>
      (\<exists>c' h'. fst (getOnChainConfig_v1 e s) = Return c' \<and>
         eth_sendUserOperation e (entryPoint c') userOp = Inr (Ok h') \<and>
         toLowerCase h' = toLowerCase (getUserOpHash e userOp (entryPoint c') (chainId c'))))"
  using sendUserOperation_accepted [of e s c userOp h] sendUserOperation_success [of e s userOp]
    sendUserOperation_v1_accepted [of e s c userOp h] sendUserOperation_v1_success [of e s userOp]
  by auto

theorem sendUserOperation_hash_mismatch_throws_witness:
  "fst (sendUserOperation mismatchEnv freshSdk demoOp) = Throw (ThrownError ''userOpHash !== userOPHashLocal'') \<and>
   fst (sendUserOperation_v1 mismatchEnv freshSdk demoOp) =
     Some (UserOpErrors UnknownError ''userOpHash !== userOPHashLocal'') \<and>
   fst (sendUserOperation demoEnv freshSdk demoOp) = Return (Ok True) \<and>
   fst (sendUserOperation_v1 demoEnv freshSdk demoOp) = None \<and>
   toLowerCase ''0xAB'' = toLowerCase (getUserOpHash demoEnv demoOp ''0xE1'' 5)"
proof -
  have c1: "fst (getOnChainConfig mismatchEnv freshSdk) = Return (Ok demoConfig)" by code_simp
  have c2: "fst (getOnChainConfig_v1 mismatchEnv freshSdk) = Return demoConfig" by code_simp
  have a1: "eth_sendUserOperation mismatchEnv (entryPoint demoConfig) demoOp = Inr (Ok ''0xAC'')"
    by (simp add: mismatchEnv_def demoEnv_def)
  have m1: "toLowerCase ''0xAC'' \<noteq>
      toLowerCase (getUserOpHash mismatchEnv demoOp (entryPoint demoConfig) (chainId demoConfig))"
    by code_simp
  have ok: "fst (sendUserOperation demoEnv freshSdk demoOp) = Return (Ok True)" by code_simp
  have ok1: "fst (sendUserOperation_v1 demoEnv freshSdk demoOp) = None" by code_simp
  have eq: "toLowerCase ''0xAB'' = toLowerCase (getUserOpHash demoEnv demoOp ''0xE1'' 5)" by code_simp
  from sendUserOperation_hash_mismatch_throws [of mismatchEnv freshSdk demoConfig demoOp "''0xAC''"]
    c1 c2 a1 m1 ok ok1 eq
  show ?thesis by blast
qed

section \<open>Gas estimation\<close>

text \<open>
  C4. The claim: \<open>callGasLimit\<close> is overwritten only when its current value is even,
  by the bundler's value made even, and an odd current value is never overwritten.
  The earlier generation has no such convention: it assigns the bundler's
  \<open>callGasLimit\<close> as it does the two other fields. An operation entering with the
  odd value 7 leaves with the bundler's \<open>0x12d\<close>, which is odd; the later generation
  leaves the 7 in place.
\<close>

theorem estimateUserOperationGas_v1_overwrites_odd:
  "callGasLimit pinnedDeployOp = JSNumber 7 \<and>
   fst (estimateUserOperationGas_v1 demoEnv freshSdk pinnedDeployOp) = None \<and>
   callGasLimit (fst (snd (estimateUserOperationGas_v1 demoEnv freshSdk pinnedDeployOp))) =
     JSString ''0x12d'' \<and>
   fst (estimateUserOperationGas demoEnv freshSdk pinnedDeployOp None) = Return (Ok True) \<and>
   callGasLimit (fst (snd (estimateUserOperationGas demoEnv freshSdk pinnedDeployOp None))) =
     JSNumber 7"
  by code_simp

text \<open>
  C4, amended. In the later generation, whenever \<open>estimateUserOperationGas\<close> answers
  \<open>Ok(true)\<close>, the bundler has answered an estimate \<open>gas\<close> for the operation (with the
  signature that was sent), and the operation \<open>op2\<close> handed to
  \<open>GasOverhead.calcGasOverhead\<close> carries the bundler's \<open>preVerificationGas\<close> and
  \<open>verificationGasLimit\<close>, whatever they were before. Its \<open>callGasLimit\<close> depends on
  the parity of the value \<open>cur\<close> the operation had on entry: when \<open>cur\<close> is even it is
  the bundler's value \<open>new\<close>, made even by adding one when odd, written as
  \<open>'0x' + toString(16)\<close>; when \<open>cur\<close> is odd it is left as it was. (Gas values are
  unsigned; for a negative odd \<open>new\<close> the remainder \<open>new % 2\<close> is \<open>-1\<close>, which the
  theorem records as the source computes it.) In the earlier generation, whenever
  the call answers \<open>undefined\<close>, the operation handed to \<open>calcGasOverhead\<close> carries
  the bundler's three values, \<open>callGasLimit\<close> included, whatever they were before.
  In both, the operation the caller sees afterwards is the one \<open>calcGasOverhead\<close>
  leaves, with the signature reset when it was empty on entry.
\<close>

theorem estimateUserOperationGas_overwrites:
  "(fst (estimateUserOperationGas e s userOp hook) = Return (Ok True) \<longrightarrow>
     (\<exists>c sg gas cur op2 op3.
        fst (getOnChainConfig e s) = Return (Ok c) \<and>
        eth_estimateUserOperationGas e (entryPoint c) (userOp\<lparr>signature := sg\<rparr>) = Inr (Ok gas) \<and>
        BigInt (callGasLimit userOp) = Inr cur \<and>
        preVerificationGas op2 = gasPreVerificationGas gas \<and>
        verificationGasLimit op2 = gasVerificationGasLimit gas \<and>
        (if even cur
         then \<exists>new. BigInt (gasCallGasLimit gas) = Inr new \<and>
                (if 0 \<le> new
                 then callGasLimit op2 = JSString (hexString (if odd new then new + 1 else new))
                 else callGasLimit op2 = JSString (hexString (if bigintRem new 2 = 1 then new + 1 else new)))
         else callGasLimit op2 = callGasLimit userOp) \<and>
        calcGasOverhead e op2 = (op3, None) \<and>
        fst (snd (estimateUserOperationGas e s userOp hook)) =
          (if signature userOp = ''0x'' then op3\<lparr>signature := ''0x''\<rparr> else op3))) \<and>
   (fst (estimateUserOperationGas_v1 e s userOp) = None \<longrightarrow>
     (\<exists>c sg gas op3.
        fst (getOnChainConfig_v1 e s) = Return c \<and>
        eth_estimateUserOperationGas e (entryPoint c) (userOp\<lparr>signature := sg\<rparr>) = Inr (Ok gas) \<and>
        calcGasOverhead e
          (userOp\<lparr>signature := sg,
                   preVerificationGas := gasPreVerificationGas gas,
                   verificationGasLimit := gasVerificationGasLimit gas,
                   callGasLimit := gasCallGasLimit gas\<rparr>) = (op3, None) \<and>
        fst (snd (estimateUserOperationGas_v1 e s userOp)) =
          (if signature userOp = ''0x'' then op3\<lparr>signature := ''0x''\<rparr> else op3)))"
proof (intro conjI impI)
  assume "fst (estimateUserOperationGas e s userOp hook) = Return (Ok True)"
  then show "\<exists>c sg gas cur op2 op3.
        fst (getOnChainConfig e s) = Return (Ok c) \<and>
        eth_estimateUserOperationGas e (entryPoint c) (userOp\<lparr>signature := sg\<rparr>) = Inr (Ok gas) \<and>
        BigInt (callGasLimit userOp) = Inr cur \<and>
        preVerificationGas op2 = gasPreVerificationGas gas \<and>
        verificationGasLimit op2 = gasVerificationGasLimit gas \<and>
        (if even cur
         then \<exists>new. BigInt (gasCallGasLimit gas) = Inr new \<and>
                (if 0 \<le> new
                 then callGasLimit op2 = JSString (hexString (if odd new then new + 1 else new))
                 else callGasLimit op2 = JSString (hexString (if bigintRem new 2 = 1 then new + 1 else new)))
         else callGasLimit op2 = callGasLimit userOp) \<and>
        calcGasOverhead e op2 = (op3, None) \<and>
        fst (snd (estimateUserOperationGas e s userOp hook)) =
          (if signature userOp = ''0x'' then op3\<lparr>signature := ''0x''\<rparr> else op3)"
    by (rule estimateUserOperationGas_Ok)
next
  assume "fst (estimateUserOperationGas_v1 e s userOp) = None"
  then show "\<exists>c sg gas op3.
        fst (getOnChainConfig_v1 e s) = Return c \<and>
        eth_estimateUserOperationGas e (entryPoint c) (userOp\<lparr>signature := sg\<rparr>) = Inr (Ok gas) \<and>
        calcGasOverhead e
          (userOp\<lparr>signature := sg,
                   preVerificationGas := gasPreVerificationGas gas,
                   verificationGasLimit := gasVerificationGasLimit gas,
                   callGasLimit := gasCallGasLimit gas\<rparr>) = (op3, None) \<and>
        fst (snd (estimateUserOperationGas_v1 e s userOp)) =
          (if signature userOp = ''0x'' then op3\<lparr>signature := ''0x''\<rparr> else op3)"
    by (rule estimateUserOperationGas_v1_Ok)
qed

theorem estimateUserOperationGas_overwrites_witness:
  "fst (estimateUserOperationGas demoEnv freshSdk demoOp None) = Return (Ok True) \<and>
   preVerificationGas (fst (snd (estimateUserOperationGas demoEnv freshSdk demoOp None))) = JSString ''0x64'' \<and>
   verificationGasLimit (fst (snd (estimateUserOperationGas demoEnv freshSdk demoOp None))) = JSString ''0xc8'' \<and>
   callGasLimit (fst (snd (estimateUserOperationGas demoEnv freshSdk demoOp None))) = JSString ''0x12e'' \<and>
   fst (estimateUserOperationGas_v1 demoEnv freshSdk pinnedDeployOp) = None \<and>
   callGasLimit (fst (snd (estimateUserOperationGas_v1 demoEnv freshSdk pinnedDeployOp))) = JSString ''0x12d''"
proof -
  have ok: "fst (estimateUserOperationGas demoEnv freshSdk demoOp None) = Return (Ok True)"
    by code_simp
  from estimateUserOperationGas_overwrites [THEN conjunct1, rule_format, OF ok]
  obtain c sg gas cur op2 op3 where
    cfg: "fst (getOnChainConfig demoEnv freshSdk) = Return (Ok c)" and
    gas: "eth_estimateUserOperationGas demoEnv (entryPoint c) (demoOp\<lparr>signature := sg\<rparr>) = Inr (Ok gas)" and
    cur: "BigInt (callGasLimit demoOp) = Inr cur" and
    pv: "preVerificationGas op2 = gasPreVerificationGas gas" and
    vg: "verificationGasLimit op2 = gasVerificationGasLimit gas" and
    cl: "if even cur
      then \<exists>new. BigInt (gasCallGasLimit gas) = Inr new \<and>
             (if 0 \<le> new
              then callGasLimit op2 = JSString (hexString (if odd new then new + 1 else new))
              else callGasLimit op2 = JSString (hexString (if bigintRem new 2 = 1 then new + 1 else new)))
      else callGasLimit op2 = callGasLimit demoOp" and
    calc: "calcGasOverhead demoEnv op2 = (op3, None)" and
    fin: "fst (snd (estimateUserOperationGas demoEnv freshSdk demoOp None)) =
       (if signature demoOp = ''0x'' then op3\<lparr>signature := ''0x''\<rparr> else op3)"
    by (elim exE conjE)
  have g: "gas = \<lparr>gasPreVerificationGas = JSString ''0x64'',
         gasVerificationGasLimit = JSString ''0xc8'',
         gasCallGasLimit = JSString ''0x12d''\<rparr>"
    using gas by (simp add: demoEnv_def)
  have "BigInt (callGasLimit demoOp) = Inr 10" by code_simp
  with cur have c10: "cur = 10" by simp
  have n: "BigInt (JSString ''0x12d'') = Inr 301" by code_simp
  have h: "hexString 302 = ''0x12e''" by code_simp
  from cl c10 g n h have c2: "callGasLimit op2 = JSString ''0x12e''" by auto
  from calc have o3: "op3 = op2" by (simp add: demoEnv_def)
  have sg0: "signature demoOp = ''0x''" by (simp add: demoOp_def)
  from fin sg0 o3 have f: "fst (snd (estimateUserOperationGas demoEnv freshSdk demoOp None)) =
      op2\<lparr>signature := ''0x''\<rparr>"
    by simp
  have ok1: "fst (estimateUserOperationGas_v1 demoEnv freshSdk pinnedDeployOp) = None"
    by code_simp
  from estimateUserOperationGas_overwrites [THEN conjunct2, rule_format, OF ok1]
  obtain c' sg' gas' op3' where
    cfg1: "fst (getOnChainConfig_v1 demoEnv freshSdk) = Return c'" and
    gas1: "eth_estimateUserOperationGas demoEnv (entryPoint c') (pinnedDeployOp\<lparr>signature := sg'\<rparr>) =
        Inr (Ok gas')" and
    calc1: "calcGasOverhead demoEnv
          (pinnedDeployOp\<lparr>signature := sg',
                   preVerificationGas := gasPreVerificationGas gas',
                   verificationGasLimit := gasVerificationGasLimit gas',
                   callGasLimit := gasCallGasLimit gas'\<rparr>) = (op3', None)" and
    fin1: "fst (snd (estimateUserOperationGas_v1 demoEnv freshSdk pinnedDeployOp)) =
          (if signature pinnedDeployOp = ''0x'' then op3'\<lparr>signature := ''0x''\<rparr> else op3')"
    by (elim exE conjE)
  have g1: "gasCallGasLimit gas' = JSString ''0x12d''"
    using gas1 by (auto simp: demoEnv_def)
  from calc1 have "callGasLimit op3' = gasCallGasLimit gas'" by (auto simp: demoEnv_def)
  with fin1 g1 have f1: "callGasLimit (fst (snd (estimateUserOperationGas_v1 demoEnv freshSdk pinnedDeployOp))) =
      JSString ''0x12d''"
    by simp
  from ok pv vg c2 g f ok1 f1 show ?thesis by simp
qed

text \<open>
  C5. An operation that enters \<open>estimateUserOperationGas\<close> with the empty signature
  \<open>0x\<close> leaves it with the signature \<open>0x\<close>, in both generations, whether the call
  returns success, returns an error or throws, and whatever the collaborators do
  to the operation in between: the paths that return before the \<open>try\<close> have not
  touched the operation, and every path through the \<open>try\<close> ends in the \<open>finally\<close>
  that resets the field.
\<close>

theorem estimateUserOperationGas_restores_signature:
  "signature userOp = ''0x'' \<Longrightarrow>
     signature (fst (snd (estimateUserOperationGas e s userOp hook))) = ''0x'' \<and>
     signature (fst (snd (estimateUserOperationGas_v1 e s userOp))) = ''0x''"
  using estimateUserOperationGas_v1_restores [of userOp e s]
  by (auto simp: estimateUserOperationGas_def Let_def
      split: option.splits prod.splits completion.splits result.splits)

theorem estimateUserOperationGas_restores_signature_witness:
  "signature demoOp = ''0x'' \<and>
   fst (estimateUserOperationGas demoEnv freshSdk demoOp None) = Return (Ok True) \<and>
   signature (fst (snd (estimateUserOperationGas demoEnv freshSdk demoOp None))) = ''0x'' \<and>
   signature (fst (snd (estimateUserOperationGas_v1 demoEnv freshSdk demoOp))) = ''0x''"
proof -
  have h: "signature demoOp = ''0x''" by (simp add: demoOp_def)
  have r: "fst (estimateUserOperationGas demoEnv freshSdk demoOp None) = Return (Ok True)" by code_simp
  from estimateUserOperationGas_restores_signature [OF h] h r show ?thesis by simp
qed

section \<open>Prefund\<close>

text \<open>
  C6. For an operation whose four gas fields read as integers, with \<open>maxFeePerGas\<close>,
  \<open>preVerificationGas\<close> and \<open>verificationGasLimit\<close> nonzero, and with the config
  resolved and the deposit read from the entry point, \<open>preFund\<close> answers (\<open>Ok\<close> in the
  later generation, the plain value in the earlier one) with
  \<open>prefund = (callGasLimit + verificationGasLimit * mul + preVerificationGas) *
  maxFeePerGas\<close>, where \<open>mul\<close> is 3 when \<open>paymasterAndData\<close> is not \<open>0x\<close> and 1
  otherwise, and \<open>missfund = max 0 (prefund - deposit)\<close>. The arithmetic is on
  unbounded integers and the three answers are the texts \<open>'0x' + v.toString(16)\<close>.
  The witness is the example of the specification: 10, 5, 2 and fee 3 give \<open>0x33\<close>
  without paymaster data and \<open>0x51\<close> with it.
\<close>

theorem preFund_formula:
  assumes mf: "BigInt (maxFeePerGas userOp) = Inr maxFee"
    and pg: "BigInt (preVerificationGas userOp) = Inr preGas"
    and vg: "BigInt (verificationGasLimit userOp) = Inr verGas"
    and cg: "BigInt (callGasLimit userOp) = Inr callGas"
    and nz: "maxFee \<noteq> 0" "preGas \<noteq> 0" "verGas \<noteq> 0"
  shows "(fst (getOnChainConfig e s) = Return (Ok c) \<and>
      entryPointBalanceOf e
        (case this_entryPointContract s of Some a \<Rightarrow> a | None \<Rightarrow> entryPoint c) (sender userOp) = Inr dep \<longrightarrow>
      fst (preFund e s userOp) =
        Return (Ok \<lparr>deposit = hexString dep,
          prefund = hexString
            ((callGas + verGas * (if paymasterAndData userOp \<noteq> ''0x'' then 3 else 1) + preGas) * maxFee),
          missfund = hexString (max 0
            ((callGas + verGas * (if paymasterAndData userOp \<noteq> ''0x'' then 3 else 1) + preGas) * maxFee - dep))\<rparr>)) \<and>
     (fst (getOnChainConfig_v1 e s) = Return c \<and>
      entryPointBalanceOf e (entryPoint c) (sender userOp) = Inr dep \<longrightarrow>
      fst (preFund_v1 e s userOp) =
        Return \<lparr>deposit = hexString dep,
          prefund = hexString
            ((callGas + verGas * (if paymasterAndData userOp \<noteq> ''0x'' then 3 else 1) + preGas) * maxFee),
          missfund = hexString (max 0
            ((callGas + verGas * (if paymasterAndData userOp \<noteq> ''0x'' then 3 else 1) + preGas) * maxFee - dep))\<rparr>)"
  using preFund_value [OF mf pg vg cg nz, of e s c dep]
    preFund_v1_value [OF mf pg vg cg nz, of e s c dep]
  by blast

theorem preFund_formula_witness:
  "fst (preFund demoEnv freshSdk demoOp) =
     Return (Ok \<lparr>deposit = ''0x14'', prefund = ''0x33'', missfund = ''0x1f''\<rparr>) \<and>
   fst (preFund demoEnv freshSdk (demoOp\<lparr>paymasterAndData := ''0xD1''\<rparr>)) =
     Return (Ok \<lparr>deposit = ''0x14'', prefund = ''0x51'', missfund = ''0x3d''\<rparr>) \<and>
   fst (preFund_v1 demoEnv freshSdk demoOp) =
     Return \<lparr>deposit = ''0x14'', prefund = ''0x33'', missfund = ''0x1f''\<rparr> \<and>
   fst (preFund_v1 demoEnv freshSdk (demoOp\<lparr>paymasterAndData := ''0xD1''\<rparr>)) =
     Return \<lparr>deposit = ''0x14'', prefund = ''0x51'', missfund = ''0x3d''\<rparr>"
proof -
  let ?op = "demoOp\<lparr>paymasterAndData := ''0xD1''\<rparr>"
  have p: "BigInt (maxFeePerGas demoOp) = Inr 3" "BigInt (preVerificationGas demoOp) = Inr 2"
    "BigInt (verificationGasLimit demoOp) = Inr 5" "BigInt (callGasLimit demoOp) = Inr 10"
    by code_simp+
  have q: "BigInt (maxFeePerGas ?op) = Inr 3" "BigInt (preVerificationGas ?op) = Inr 2"
    "BigInt (verificationGasLimit ?op) = Inr 5" "BigInt (callGasLimit ?op) = Inr 10"
    by code_simp+
  have c: "fst (getOnChainConfig demoEnv freshSdk) = Return (Ok demoConfig)" by code_simp
  have c1: "fst (getOnChainConfig_v1 demoEnv freshSdk) = Return demoConfig" by code_simp
  have b: "entryPointBalanceOf demoEnv
      (case this_entryPointContract freshSdk of Some a \<Rightarrow> a | None \<Rightarrow> entryPoint demoConfig)
      (sender demoOp) = Inr 20"
    "entryPointBalanceOf demoEnv
      (case this_entryPointContract freshSdk of Some a \<Rightarrow> a | None \<Rightarrow> entryPoint demoConfig)
      (sender ?op) = Inr 20"
    "entryPointBalanceOf demoEnv (entryPoint demoConfig) (sender demoOp) = Inr 20"
    "entryPointBalanceOf demoEnv (entryPoint demoConfig) (sender ?op) = Inr 20"
    by (simp_all add: demoEnv_def)
  have h: "hexString 20 = ''0x14''" "hexString 51 = ''0x33''" "hexString 31 = ''0x1f''"
    "hexString 81 = ''0x51''" "hexString 61 = ''0x3d''"
    by code_simp+
  have pm: "paymasterAndData demoOp = ''0x''" "paymasterAndData ?op = ''0xD1''"
    by (simp_all add: demoOp_def)
  note t1 = preFund_formula [OF p(1) p(2) p(3) p(4), of demoEnv freshSdk demoConfig 20]
  note t2 = preFund_formula [OF q(1) q(2) q(3) q(4), of demoEnv freshSdk demoConfig 20]
  have r1: "fst (preFund demoEnv freshSdk demoOp) =
     Return (Ok \<lparr>deposit = ''0x14'', prefund = ''0x33'', missfund = ''0x1f''\<rparr>)"
    using t1 c b(1) h pm by simp
  have r2: "fst (preFund demoEnv freshSdk ?op) =
     Return (Ok \<lparr>deposit = ''0x14'', prefund = ''0x51'', missfund = ''0x3d''\<rparr>)"
    using t2 c b(2) h pm by simp
  have r3: "fst (preFund_v1 demoEnv freshSdk demoOp) =
     Return \<lparr>deposit = ''0x14'', prefund = ''0x33'', missfund = ''0x1f''\<rparr>"
    using t1 c1 b(3) h pm by simp
  have r4: "fst (preFund_v1 demoEnv freshSdk ?op) =
     Return \<lparr>deposit = ''0x14'', prefund = ''0x51'', missfund = ''0x3d''\<rparr>"
    using t2 c1 b(4) h pm by simp
  from r1 r2 r3 r4 show ?thesis by simp
qed

text \<open>
  C7. When one of \<open>maxFeePerGas\<close>, \<open>preVerificationGas\<close>, \<open>verificationGasLimit\<close> reads
  as zero, \<open>preFund\<close> fails and sends no request: the later generation answers
  \<open>Err\<close>, the earlier one throws. When all four gas fields read as integers the
  error is the one of the check, \<open>maxFeePerGas, preVerificationGas,
  verificationGasLimit must > 0\<close>. A zero \<open>callGasLimit\<close> with the three others
  nonzero does not fail: with the config resolved and the deposit read, the call
  answers its value.
\<close>

theorem preFund_rejects_zero_gas:
  "(BigInt (maxFeePerGas userOp) = Inr 0 \<or> BigInt (preVerificationGas userOp) = Inr 0 \<or>
      BigInt (verificationGasLimit userOp) = Inr 0 \<longrightarrow>
        (\<exists>er. preFund e s userOp = (Return (Err er), s)) \<and>
        (\<exists>t. preFund_v1 e s userOp = (Throw t, s))) \<and>
   (BigInt (maxFeePerGas userOp) = Inr maxFee \<and> BigInt (preVerificationGas userOp) = Inr preGas \<and>
      BigInt (verificationGasLimit userOp) = Inr verGas \<and> BigInt (callGasLimit userOp) = Inr callGas \<and>
      (maxFee = 0 \<or> preGas = 0 \<or> verGas = 0) \<longrightarrow>
        preFund e s userOp =
          (Return (Err (Error ''maxFeePerGas, preVerificationGas, verificationGasLimit must > 0'')), s) \<and>
        preFund_v1 e s userOp =
          (Throw (ThrownError ''maxFeePerGas, preVerificationGas, verificationGasLimit must > 0''), s)) \<and>
   (BigInt (maxFeePerGas userOp) = Inr maxFee \<and> BigInt (preVerificationGas userOp) = Inr preGas \<and>
      BigInt (verificationGasLimit userOp) = Inr verGas \<and> BigInt (callGasLimit userOp) = Inr 0 \<and>
      maxFee \<noteq> 0 \<and> preGas \<noteq> 0 \<and> verGas \<noteq> 0 \<and>
      fst (getOnChainConfig e s) = Return (Ok c) \<and>
      entryPointBalanceOf e
        (case this_entryPointContract s of Some a \<Rightarrow> a | None \<Rightarrow> entryPoint c) (sender userOp) = Inr dep \<longrightarrow>
        (\<exists>r. fst (preFund e s userOp) = Return (Ok r))) \<and>
   (BigInt (maxFeePerGas userOp) = Inr maxFee \<and> BigInt (preVerificationGas userOp) = Inr preGas \<and>
      BigInt (verificationGasLimit userOp) = Inr verGas \<and> BigInt (callGasLimit userOp) = Inr 0 \<and>
      maxFee \<noteq> 0 \<and> preGas \<noteq> 0 \<and> verGas \<noteq> 0 \<and>
      fst (getOnChainConfig_v1 e s) = Return c \<and>
      entryPointBalanceOf e (entryPoint c) (sender userOp) = Inr dep \<longrightarrow>
        (\<exists>r. fst (preFund_v1 e s userOp) = Return r))"
  using preFund_zero_any [of userOp e s]
    preFund_zero [of userOp maxFee preGas verGas callGas e s]
    preFund_value [of userOp maxFee preGas verGas 0 e s c dep]
    preFund_v1_zero_any [of userOp e s]
    preFund_v1_zero [of userOp maxFee preGas verGas callGas e s]
    preFund_v1_value [of userOp maxFee preGas verGas 0 e s c dep]
  by blast

theorem preFund_rejects_zero_gas_witness:
  "preFund demoEnv freshSdk zeroFeeOp =
     (Return (Err (Error ''maxFeePerGas, preVerificationGas, verificationGasLimit must > 0'')), freshSdk) \<and>
   preFund_v1 demoEnv freshSdk zeroFeeOp =
     (Throw (ThrownError ''maxFeePerGas, preVerificationGas, verificationGasLimit must > 0''), freshSdk) \<and>
   (\<exists>r. fst (preFund demoEnv freshSdk zeroCallGasOp) = Return (Ok r)) \<and>
   (\<exists>r. fst (preFund_v1 demoEnv freshSdk zeroCallGasOp) = Return r)"
proof -
  have z: "BigInt (maxFeePerGas zeroFeeOp) = Inr 0" "BigInt (preVerificationGas zeroFeeOp) = Inr 1"
    "BigInt (verificationGasLimit zeroFeeOp) = Inr 1" "BigInt (callGasLimit zeroFeeOp) = Inr 0"
    by code_simp+
  have p: "BigInt (maxFeePerGas zeroCallGasOp) = Inr 3" "BigInt (preVerificationGas zeroCallGasOp) = Inr 2"
    "BigInt (verificationGasLimit zeroCallGasOp) = Inr 5" "BigInt (callGasLimit zeroCallGasOp) = Inr 0"
    by code_simp+
  have c: "fst (getOnChainConfig demoEnv freshSdk) = Return (Ok demoConfig)" by code_simp
  have c1: "fst (getOnChainConfig_v1 demoEnv freshSdk) = Return demoConfig" by code_simp
  have b: "entryPointBalanceOf demoEnv
      (case this_entryPointContract freshSdk of Some a \<Rightarrow> a | None \<Rightarrow> entryPoint demoConfig)
      (sender zeroCallGasOp) = Inr 20"
    "entryPointBalanceOf demoEnv (entryPoint demoConfig) (sender zeroCallGasOp) = Inr 20"
    by (simp_all add: demoEnv_def)
  note t1 = preFund_rejects_zero_gas [of zeroFeeOp demoEnv freshSdk 0 1 1 0]
  note t2 = preFund_rejects_zero_gas [of zeroCallGasOp demoEnv freshSdk 3 2 5 _ demoConfig 20]
  have r1: "preFund demoEnv freshSdk zeroFeeOp =
     (Return (Err (Error ''maxFeePerGas, preVerificationGas, verificationGasLimit must > 0'')), freshSdk)"
    using t1 z by simp
  have r2: "preFund_v1 demoEnv freshSdk zeroFeeOp =
     (Throw (ThrownError ''maxFeePerGas, preVerificationGas, verificationGasLimit must > 0''), freshSdk)"
    using t1 z by simp
  have r3: "\<exists>r. fst (preFund demoEnv freshSdk zeroCallGasOp) = Return (Ok r)"
    using t2 p c b by simp
  have r4: "\<exists>r. fst (preFund_v1 demoEnv freshSdk zeroCallGasOp) = Return r"
    using t2 p c1 b by simp
  from r1 r2 r3 r4 show ?thesis by simp
qed

section \<open>Building an execute operation\<close>

text \<open>
  C8. When \<open>fromTransaction\<close> answers \<open>Ok\<close>, the call data of the operation is the
  encoding of exactly one wallet call, chosen by the shape of the list: one
  transaction gives \<open>execute(to, value, data)\<close>; several transactions whose values
  are all omitted or zero give \<open>executeBatch(address[],bytes[])\<close>; several
  transactions with a nonzero value among them give
  \<open>executeBatch(address[],uint256[],bytes[])\<close>. The values \<open>vs\<close> are the texts the
  loop renders. The empty list is answered by \<open>Err("txs.length === 0")\<close>. The ABI
  encoder is a parameter.
\<close>

theorem fromTransaction_encoding:
  "(fst (fromTransaction e s maxFee maxPriorityFee from txs nonceKey) = Return (Ok userOp) \<longrightarrow>
      (\<exists>vs. list_all2 (\<lambda>tx v. callValue tx = Inr v) txs vs \<and>
         callData userOp = encodeFunctionData e
           (if length txs = 1 then Execute (txTo (hd txs)) (hd vs) (callBytes (hd txs))
            else if list_all (\<lambda>tx. case txValue tx of None \<Rightarrow> True | Some b \<Rightarrow> BigInt b = Inr 0) txs
            then ExecuteBatchNoValue (map txTo txs) (map callBytes txs)
            else ExecuteBatchWithValue (map txTo txs) vs (map callBytes txs)))) \<and>
   fst (fromTransaction e s maxFee maxPriorityFee from [] nonceKey) =
     Return (Err (Error ''txs.length === 0''))"
proof (intro conjI impI)
  show "fst (fromTransaction e s maxFee maxPriorityFee from [] nonceKey) =
     Return (Err (Error ''txs.length === 0''))"
    by (simp add: fromTransaction_def)
next
  assume ok: "fst (fromTransaction e s maxFee maxPriorityFee from txs nonceKey) = Return (Ok userOp)"
  from fromTransaction_Ok [OF ok] obtain g to val dat hv where
    ne: "txs \<noteq> []" and
    cc: "collectCalls e txs [] [] [] False = Return (Ok (to, val, dat, hv))" and
    cd: "callData userOp = encodeFunctionData e (chooseCall (length txs) to val dat hv)"
    by (elim exE conjE)
  from collectCalls_Ok [OF cc] obtain vs where
    t: "to = map txTo txs" and v: "val = vs" and
    la: "list_all2 (\<lambda>tx v. callValue tx = Inr v) txs vs" and
    h: "hv = (\<exists>v\<in>set vs. v \<noteq> ''0x0'')" and
    d: "dat = map callBytes txs"
    by (elim exE conjE) simp
  have hz: "hv \<longleftrightarrow> \<not> list_all (\<lambda>tx. case txValue tx of None \<Rightarrow> True | Some b \<Rightarrow> BigInt b = Inr 0) txs"
    unfolding h using la by (rule callValues_all_zero)
  have len: "length vs = length txs" using la by (simp add: list_all2_lengthD)
  with ne have nv: "vs \<noteq> []" by auto
  have one: "\<not> 1 < length txs \<longleftrightarrow> length txs = 1" using ne by (cases txs) auto
  have h0: "to ! 0 = txTo (hd txs)" "val ! 0 = hd vs" "dat ! 0 = callBytes (hd txs)"
    using ne nv by (simp_all add: t v d hd_conv_nth)
  have "chooseCall (length txs) to val dat hv =
      (if length txs = 1 then Execute (txTo (hd txs)) (hd vs) (callBytes (hd txs))
       else if list_all (\<lambda>tx. case txValue tx of None \<Rightarrow> True | Some b \<Rightarrow> BigInt b = Inr 0) txs
       then ExecuteBatchNoValue (map txTo txs) (map callBytes txs)
       else ExecuteBatchWithValue (map txTo txs) vs (map callBytes txs))"
    using one hz h0 by (simp add: chooseCall_def t v d)
  with cd la show "\<exists>vs. list_all2 (\<lambda>tx v. callValue tx = Inr v) txs vs \<and>
         callData userOp = encodeFunctionData e
           (if length txs = 1 then Execute (txTo (hd txs)) (hd vs) (callBytes (hd txs))
            else if list_all (\<lambda>tx. case txValue tx of None \<Rightarrow> True | Some b \<Rightarrow> BigInt b = Inr 0) txs
            then ExecuteBatchNoValue (map txTo txs) (map callBytes txs)
            else ExecuteBatchWithValue (map txTo txs) vs (map callBytes txs))"
    by (intro exI [of _ vs] conjI) simp_all
qed

theorem fromTransaction_encoding_witness:
  "(\<exists>u. fst (fromTransaction demoEnv freshSdk ''0x3'' ''0x1'' ''0xB1''
            [demoTx 0 (Some 3), demoTx 0 (Some 4)] None) = Return (Ok u) \<and>
        callData u = encodeFunctionData demoEnv
          (ExecuteBatchNoValue [''0xC1'', ''0xC1''] [''0x'', ''0x''])) \<and>
   (\<exists>u. fst (fromTransaction demoEnv freshSdk ''0x3'' ''0x1'' ''0xB1''
            [demoTx 0 (Some 3), demoTx 5 (Some 4)] None) = Return (Ok u) \<and>
        callData u = encodeFunctionData demoEnv
          (ExecuteBatchWithValue [''0xC1'', ''0xC1''] [''0x0'', ''0x5''] [''0x'', ''0x'']))"
proof -
  let ?u = "\<lambda>cd. \<lparr>sender = ''0xB1'', nonce = JSString ''0x7'', initCode = ''0x'',
         callData = cd, callGasLimit = JSString ''0x8'',
         verificationGasLimit = JSNumber 0, preVerificationGas = JSNumber 0,
         maxFeePerGas = JSString ''0x3'',
         maxPriorityFeePerGas = JSString ''0x1'', paymasterAndData = ''0x'',
         signature = ''0x''\<rparr>"
  let ?t1 = "[demoTx 0 (Some 3), demoTx 0 (Some 4)]"
  let ?t2 = "[demoTx 0 (Some 3), demoTx 5 (Some 4)]"
  have ok1: "fst (fromTransaction demoEnv freshSdk ''0x3'' ''0x1'' ''0xB1'' ?t1 None) =
      Return (Ok (?u ''executeBatch2''))"
    by code_simp
  have ok2: "fst (fromTransaction demoEnv freshSdk ''0x3'' ''0x1'' ''0xB1'' ?t2 None) =
      Return (Ok (?u ''executeBatch3''))"
    by code_simp
  have z: "BigInt (JSNumber 0) = Inr 0" "BigInt (JSNumber 5) = Inr 5" by (simp_all add: BigInt_def)
  have h: "hexString 0 = ''0x0''" "hexString 5 = ''0x5''" by code_simp+
  from fromTransaction_encoding [THEN conjunct1, rule_format, OF ok1]
  have c1: "callData (?u ''executeBatch2'') = encodeFunctionData demoEnv
      (ExecuteBatchNoValue [''0xC1'', ''0xC1''] [''0x'', ''0x''])"
    by (simp add: demoTx_def callBytes_def z)
  from fromTransaction_encoding [THEN conjunct1, rule_format, OF ok2]
  obtain vs where la: "list_all2 (\<lambda>tx v. callValue tx = Inr v) ?t2 vs" and
    cd: "callData (?u ''executeBatch3'') = encodeFunctionData demoEnv
      (ExecuteBatchWithValue [''0xC1'', ''0xC1''] vs [''0x'', ''0x''])"
    by (auto simp: demoTx_def callBytes_def z)
  from la have "vs = [''0x0'', ''0x5'']"
    by (auto simp: list_all2_Cons1 demoTx_def callValue_def z h)
  with cd have c2: "callData (?u ''executeBatch3'') = encodeFunctionData demoEnv
      (ExecuteBatchWithValue [''0xC1'', ''0xC1''] [''0x0'', ''0x5''] [''0x'', ''0x''])"
    by simp
  from ok1 c1 ok2 c2 show ?thesis by blast
qed

text \<open>
  C9. When \<open>fromTransaction\<close> answers \<open>Ok\<close>: if some transaction has no \<open>gasLimit\<close>,
  the call gas limit of the operation is \<open>0x0\<close>; if every transaction has one, read
  as the integers \<open>gs\<close> with a non-negative sum, the call gas limit is the text of
  that sum rounded up to the next even number, and \<open>BigInt\<close> reads it back as that
  number. (Gas limits are unsigned; a negative odd sum has remainder \<open>-1\<close> and is
  not touched by the source's test \<open>% 2 === 1\<close>.)
\<close>

theorem fromTransaction_callGasLimit:
  assumes ok: "fst (fromTransaction e s maxFee maxPriorityFee from txs nonceKey) = Return (Ok userOp)"
  shows "((\<exists>tx\<in>set txs. txGasLimit tx = None) \<longrightarrow> callGasLimit userOp = JSString ''0x0'') \<and>
     (list_all2 (\<lambda>tx g. \<exists>b. txGasLimit tx = Some b \<and> BigInt b = Inr g) txs gs \<and> 0 \<le> sum_list gs \<longrightarrow>
        callGasLimit userOp =
          JSString (hexString (if odd (sum_list gs) then sum_list gs + 1 else sum_list gs)) \<and>
        BigInt (callGasLimit userOp) = Inr (if odd (sum_list gs) then sum_list gs + 1 else sum_list gs))"
proof -
  from fromTransaction_Ok [OF ok] obtain g where
    g: "sumGasLimits txs 0 = Inr g" and
    cg: "callGasLimit userOp = JSString (hexString (if bigintRem g 2 = 1 then g + 1 else g))"
    by (elim exE conjE)
  have z: "hexString 0 = ''0x0''" by code_simp
  have r0: "bigintRem 0 2 = 0" by (simp add: bigintRem_def)
  have a: "(\<exists>tx\<in>set txs. txGasLimit tx = None) \<longrightarrow> callGasLimit userOp = JSString ''0x0''"
  proof
    assume "\<exists>tx\<in>set txs. txGasLimit tx = None"
    from sumGasLimits_omitted [OF this g] have "g = 0" .
    with cg z r0 show "callGasLimit userOp = JSString ''0x0''" by simp
  qed
  have b: "list_all2 (\<lambda>tx g. \<exists>b. txGasLimit tx = Some b \<and> BigInt b = Inr g) txs gs \<and> 0 \<le> sum_list gs \<longrightarrow>
        callGasLimit userOp =
          JSString (hexString (if odd (sum_list gs) then sum_list gs + 1 else sum_list gs)) \<and>
        BigInt (callGasLimit userOp) = Inr (if odd (sum_list gs) then sum_list gs + 1 else sum_list gs)"
  proof
    assume h: "list_all2 (\<lambda>tx g. \<exists>b. txGasLimit tx = Some b \<and> BigInt b = Inr g) txs gs \<and> 0 \<le> sum_list gs"
    then have "sumGasLimits txs 0 = Inr (0 + sum_list gs)" by (intro sumGasLimits_all) simp
    with g have gs: "g = sum_list gs" by simp
    from h have nn: "0 \<le> sum_list gs" by simp
    have v: "callGasLimit userOp =
        JSString (hexString (if odd (sum_list gs) then sum_list gs + 1 else sum_list gs))"
      using cg bigintRem_odd [OF nn] unfolding gs by simp
    have "0 \<le> (if odd (sum_list gs) then sum_list gs + 1 else sum_list gs)" using nn by simp
    from BigInt_hexString [OF this] v
    show "callGasLimit userOp =
          JSString (hexString (if odd (sum_list gs) then sum_list gs + 1 else sum_list gs)) \<and>
        BigInt (callGasLimit userOp) = Inr (if odd (sum_list gs) then sum_list gs + 1 else sum_list gs)"
      by simp
  qed
  from a b show ?thesis by (rule conjI)
qed

theorem fromTransaction_callGasLimit_witness:
  "(\<exists>u. fst (fromTransaction demoEnv freshSdk ''0x3'' ''0x1'' ''0xB1''
            [demoTx 0 (Some 3), demoTx 0 (Some 4)] None) = Return (Ok u) \<and>
        callGasLimit u = JSString ''0x8'' \<and> BigInt (callGasLimit u) = Inr 8) \<and>
   (\<exists>u. fst (fromTransaction demoEnv freshSdk ''0x3'' ''0x1'' ''0xB1''
            [demoTx 0 (Some 3), demoTx 0 None] None) = Return (Ok u) \<and>
        callGasLimit u = JSString ''0x0'')"
proof -
  let ?t1 = "[demoTx 0 (Some 3), demoTx 0 (Some 4)]"
  let ?t2 = "[demoTx 0 (Some 3), demoTx 0 None]"
  define u1 where "u1 = \<lparr>sender = ''0xB1'', nonce = JSString ''0x7'', initCode = ''0x'',
         callData = ''executeBatch2'', callGasLimit = JSString ''0x8'',
         verificationGasLimit = JSNumber 0, preVerificationGas = JSNumber 0,
         maxFeePerGas = JSString ''0x3'',
         maxPriorityFeePerGas = JSString ''0x1'', paymasterAndData = ''0x'',
         signature = ''0x''\<rparr>"
  define u2 where "u2 = u1\<lparr>callGasLimit := JSString ''0x0''\<rparr>"
  have ok1: "fst (fromTransaction demoEnv freshSdk ''0x3'' ''0x1'' ''0xB1'' ?t1 None) = Return (Ok u1)"
    unfolding u1_def by code_simp
  have ok2: "fst (fromTransaction demoEnv freshSdk ''0x3'' ''0x1'' ''0xB1'' ?t2 None) = Return (Ok u2)"
    unfolding u2_def u1_def by code_simp
  have g: "list_all2 (\<lambda>tx g. \<exists>b. txGasLimit tx = Some b \<and> BigInt b = Inr g) ?t1 [3, 4] \<and>
      0 \<le> sum_list [3, 4 :: int]"
    by (simp add: demoTx_def BigInt_def)
  have h: "hexString 8 = ''0x8''" by code_simp
  have e: "(if odd (sum_list [3, 4 :: int]) then sum_list [3, 4] + 1 else sum_list [3, 4]) = (8 :: int)"
    by simp
  note fromTransaction_callGasLimit [OF ok1, of "[3, 4]", THEN conjunct2, rule_format, OF g]
  then have c1: "callGasLimit u1 = JSString ''0x8'' \<and> BigInt (callGasLimit u1) = Inr 8"
    unfolding e h .
  have o: "\<exists>tx\<in>set ?t2. txGasLimit tx = None" by (simp add: demoTx_def)
  from fromTransaction_callGasLimit [OF ok2, of "[]"] o
  have c2: "callGasLimit u2 = JSString ''0x0''" by blast
  from ok1 c1 ok2 c2 show ?thesis by blast
qed

section \<open>The deployment flag records deployments only\<close>

text \<open>
  C10. The flag that \<open>walletDeployed\<close> reads and writes for a wallet \<open>w\<close> is the entry
  under the key \<open>`${w}-${chainId}`\<close>, with the chain id of the resolved config. For
  chain ids that are not negative that key is the same for two calls only when both
  the wallet and the chain are the same, so that every wallet has a flag of its own on
  every chain.

  With the config resolved: when the flag of \<open>w\<close> is set, the call answers \<open>Ok(true)\<close>
  and sends no \<open>getCode\<close> (the state is the one the config resolution left). When it
  is not set, the call sends \<open>getCode(w)\<close> as its last request; a rejected request
  answers \<open>Err\<close> and code \<open>0x\<close> answers \<open>Ok(false)\<close>, both with the flags as they
  were, so that the flag of \<open>w\<close> is still not set and the next call asks again; any
  other code answers \<open>Ok(true)\<close> and the flags are the former ones with the flag of
  \<open>w\<close> set to \<open>true\<close>. After the call the instance holds the config, so that the next
  call on it resolves the same config without a request, and the flag of every other
  wallet, and of \<open>w\<close> on every other chain, is what it was before. Without a
  resolved config the call answers no \<open>Ok\<close> and leaves the flags alone.

  Hence an entry of the flags changes only by becoming \<open>true\<close>, only under the key
  of the wallet asked for, and only when \<open>getCode\<close> has answered code other than
  \<open>0x\<close>. When a call answers \<open>Ok(false)\<close>, the code read was \<open>0x\<close>, the call ended
  with a \<open>getCode\<close> request, and the next call for \<open>w\<close> on the resulting state sends
  \<open>getCode\<close> again, whatever the chain then answers. When a call answers
  \<open>Ok(true)\<close>, every later call for \<open>w\<close> on the resulting state answers \<open>Ok(true)\<close>
  and leaves the state as it is: no request is sent.
\<close>

theorem walletDeployed_records_only_deployment:
  "(fst (getOnChainConfig e s) = Return (Ok c) \<longrightarrow>
      (getDeployedEntry s (walletDeployedKey w (chainId c)) \<longrightarrow>
         walletDeployed e s w = (Return (Ok True), snd (getOnChainConfig e s))) \<and>
      (\<not> getDeployedEntry s (walletDeployedKey w (chainId c)) \<longrightarrow>
         requests (snd (walletDeployed e s w)) =
           requests (snd (getOnChainConfig e s)) @ [ProviderGetCode w] \<and>
         (\<forall>t. providerGetCode e w = Inl t \<longrightarrow>
            fst (walletDeployed e s w) = Return (Err (caughtError t)) \<and>
            deployedEntries (storageCache (snd (walletDeployed e s w))) =
              deployedEntries (storageCache s)) \<and>
         (providerGetCode e w = Inr ''0x'' \<longrightarrow>
            fst (walletDeployed e s w) = Return (Ok False) \<and>
            deployedEntries (storageCache (snd (walletDeployed e s w))) =
              deployedEntries (storageCache s)) \<and>
         (\<forall>code. providerGetCode e w = Inr code \<and> code \<noteq> ''0x'' \<longrightarrow>
            fst (walletDeployed e s w) = Return (Ok True) \<and>
            deployedEntries (storageCache (snd (walletDeployed e s w))) =
              (deployedEntries (storageCache s))(walletDeployedKey w (chainId c) \<mapsto> True))) \<and>
      getOnChainConfig e' (snd (walletDeployed e s w)) =
        (Return (Ok c), snd (walletDeployed e s w)) \<and>
      (\<forall>w' cid. 0 \<le> chainId c \<and> 0 \<le> cid \<and> (w' \<noteq> w \<or> cid \<noteq> chainId c) \<longrightarrow>
         getDeployedEntry (snd (walletDeployed e s w)) (walletDeployedKey w' cid) =
           getDeployedEntry s (walletDeployedKey w' cid))) \<and>
   ((\<forall>c'. fst (getOnChainConfig e s) \<noteq> Return (Ok c')) \<longrightarrow>
      (\<forall>b. fst (walletDeployed e s w) \<noteq> Return (Ok b)) \<and>
      deployedEntries (storageCache (snd (walletDeployed e s w))) = deployedEntries (storageCache s)) \<and>
   (\<forall>w1 w2 c1 c2. 0 \<le> c1 \<and> 0 \<le> c2 \<longrightarrow>
      (walletDeployedKey w1 c1 = walletDeployedKey w2 c2 \<longleftrightarrow> w1 = w2 \<and> c1 = c2)) \<and>
   (deployedEntries (storageCache (snd (walletDeployed e s w))) k \<noteq> deployedEntries (storageCache s) k \<longrightarrow>
      deployedEntries (storageCache (snd (walletDeployed e s w))) k = Some True \<and>
      (\<exists>code. providerGetCode e w = Inr code \<and> code \<noteq> ''0x'') \<and>
      (\<exists>c'. fst (getOnChainConfig e s) = Return (Ok c') \<and> k = walletDeployedKey w (chainId c'))) \<and>
   (fst (walletDeployed e s w) = Return (Ok False) \<longrightarrow>
      providerGetCode e w = Inr ''0x'' \<and>
      (\<exists>rs. requests (snd (walletDeployed e s w)) = requests s @ rs @ [ProviderGetCode w]) \<and>
      requests (snd (walletDeployed e' (snd (walletDeployed e s w)) w)) =
        requests (snd (walletDeployed e s w)) @ [ProviderGetCode w]) \<and>
   (fst (walletDeployed e s w) = Return (Ok True) \<longrightarrow>
      walletDeployed e' (snd (walletDeployed e s w)) w = (Return (Ok True), snd (walletDeployed e s w)))"
proof -
  have a: "fst (getOnChainConfig e s) = Return (Ok c) \<longrightarrow>
      (getDeployedEntry s (walletDeployedKey w (chainId c)) \<longrightarrow>
         walletDeployed e s w = (Return (Ok True), snd (getOnChainConfig e s))) \<and>
      (\<not> getDeployedEntry s (walletDeployedKey w (chainId c)) \<longrightarrow>
         requests (snd (walletDeployed e s w)) =
           requests (snd (getOnChainConfig e s)) @ [ProviderGetCode w] \<and>
         (\<forall>t. providerGetCode e w = Inl t \<longrightarrow>
            fst (walletDeployed e s w) = Return (Err (caughtError t)) \<and>
            deployedEntries (storageCache (snd (walletDeployed e s w))) =
              deployedEntries (storageCache s)) \<and>
         (providerGetCode e w = Inr ''0x'' \<longrightarrow>
            fst (walletDeployed e s w) = Return (Ok False) \<and>
            deployedEntries (storageCache (snd (walletDeployed e s w))) =
              deployedEntries (storageCache s)) \<and>
         (\<forall>code. providerGetCode e w = Inr code \<and> code \<noteq> ''0x'' \<longrightarrow>
            fst (walletDeployed e s w) = Return (Ok True) \<and>
            deployedEntries (storageCache (snd (walletDeployed e s w))) =
              (deployedEntries (storageCache s))(walletDeployedKey w (chainId c) \<mapsto> True))) \<and>
      getOnChainConfig e' (snd (walletDeployed e s w)) =
        (Return (Ok c), snd (walletDeployed e s w)) \<and>
      (\<forall>w' cid. 0 \<le> chainId c \<and> 0 \<le> cid \<and> (w' \<noteq> w \<or> cid \<noteq> chainId c) \<longrightarrow>
         getDeployedEntry (snd (walletDeployed e s w)) (walletDeployedKey w' cid) =
           getDeployedEntry s (walletDeployedKey w' cid))"
  proof
    assume "fst (getOnChainConfig e s) = Return (Ok c)"
    then obtain s1 where run: "getOnChainConfig e s = (Return (Ok c), s1)"
      by (cases "getOnChainConfig e s") simp
    then have s1: "snd (getOnChainConfig e s) = s1" by simp
    have p1: "getDeployedEntry s (walletDeployedKey w (chainId c)) \<longrightarrow>
         walletDeployed e s w = (Return (Ok True), snd (getOnChainConfig e s))"
      unfolding s1 using walletDeployed_flag_set [OF run] by blast
    have p2: "\<not> getDeployedEntry s (walletDeployedKey w (chainId c)) \<longrightarrow>
         requests (snd (walletDeployed e s w)) =
           requests (snd (getOnChainConfig e s)) @ [ProviderGetCode w] \<and>
         (\<forall>t. providerGetCode e w = Inl t \<longrightarrow>
            fst (walletDeployed e s w) = Return (Err (caughtError t)) \<and>
            deployedEntries (storageCache (snd (walletDeployed e s w))) =
              deployedEntries (storageCache s)) \<and>
         (providerGetCode e w = Inr ''0x'' \<longrightarrow>
            fst (walletDeployed e s w) = Return (Ok False) \<and>
            deployedEntries (storageCache (snd (walletDeployed e s w))) =
              deployedEntries (storageCache s)) \<and>
         (\<forall>code. providerGetCode e w = Inr code \<and> code \<noteq> ''0x'' \<longrightarrow>
            fst (walletDeployed e s w) = Return (Ok True) \<and>
            deployedEntries (storageCache (snd (walletDeployed e s w))) =
              (deployedEntries (storageCache s))(walletDeployedKey w (chainId c) \<mapsto> True))"
    proof
      assume f: "\<not> getDeployedEntry s (walletDeployedKey w (chainId c))"
      note u = walletDeployed_flag_unset [OF run f]
      have q1: "requests (snd (walletDeployed e s w)) =
           requests (snd (getOnChainConfig e s)) @ [ProviderGetCode w]"
        unfolding s1 by (rule u(1))
      have q2: "\<forall>t. providerGetCode e w = Inl t \<longrightarrow>
            fst (walletDeployed e s w) = Return (Err (caughtError t)) \<and>
            deployedEntries (storageCache (snd (walletDeployed e s w))) =
              deployedEntries (storageCache s)"
        using u(2) by blast
      have q3: "providerGetCode e w = Inr ''0x'' \<longrightarrow>
            fst (walletDeployed e s w) = Return (Ok False) \<and>
            deployedEntries (storageCache (snd (walletDeployed e s w))) =
              deployedEntries (storageCache s)"
        using u(3) by blast
      have q4: "\<forall>code. providerGetCode e w = Inr code \<and> code \<noteq> ''0x'' \<longrightarrow>
            fst (walletDeployed e s w) = Return (Ok True) \<and>
            deployedEntries (storageCache (snd (walletDeployed e s w))) =
              (deployedEntries (storageCache s))(walletDeployedKey w (chainId c) \<mapsto> True)"
        using u(4) by blast
      show "requests (snd (walletDeployed e s w)) =
           requests (snd (getOnChainConfig e s)) @ [ProviderGetCode w] \<and>
         (\<forall>t. providerGetCode e w = Inl t \<longrightarrow>
            fst (walletDeployed e s w) = Return (Err (caughtError t)) \<and>
            deployedEntries (storageCache (snd (walletDeployed e s w))) =
              deployedEntries (storageCache s)) \<and>
         (providerGetCode e w = Inr ''0x'' \<longrightarrow>
            fst (walletDeployed e s w) = Return (Ok False) \<and>
            deployedEntries (storageCache (snd (walletDeployed e s w))) =
              deployedEntries (storageCache s)) \<and>
         (\<forall>code. providerGetCode e w = Inr code \<and> code \<noteq> ''0x'' \<longrightarrow>
            fst (walletDeployed e s w) = Return (Ok True) \<and>
            deployedEntries (storageCache (snd (walletDeployed e s w))) =
              (deployedEntries (storageCache s))(walletDeployedKey w (chainId c) \<mapsto> True))"
        by (rule conjI [OF q1 conjI [OF q2 conjI [OF q3 q4]]])
    qed
    have p3: "getOnChainConfig e' (snd (walletDeployed e s w)) =
        (Return (Ok c), snd (walletDeployed e s w))"
      using run by (rule walletDeployed_keeps_config)
    have p4: "\<forall>w' cid. 0 \<le> chainId c \<and> 0 \<le> cid \<and> (w' \<noteq> w \<or> cid \<noteq> chainId c) \<longrightarrow>
         getDeployedEntry (snd (walletDeployed e s w)) (walletDeployedKey w' cid) =
           getDeployedEntry s (walletDeployedKey w' cid)"
      using walletDeployed_other_wallets [OF run] by blast
    show "(getDeployedEntry s (walletDeployedKey w (chainId c)) \<longrightarrow>
         walletDeployed e s w = (Return (Ok True), snd (getOnChainConfig e s))) \<and>
      (\<not> getDeployedEntry s (walletDeployedKey w (chainId c)) \<longrightarrow>
         requests (snd (walletDeployed e s w)) =
           requests (snd (getOnChainConfig e s)) @ [ProviderGetCode w] \<and>
         (\<forall>t. providerGetCode e w = Inl t \<longrightarrow>
            fst (walletDeployed e s w) = Return (Err (caughtError t)) \<and>
            deployedEntries (storageCache (snd (walletDeployed e s w))) =
              deployedEntries (storageCache s)) \<and>
         (providerGetCode e w = Inr ''0x'' \<longrightarrow>
            fst (walletDeployed e s w) = Return (Ok False) \<and>
            deployedEntries (storageCache (snd (walletDeployed e s w))) =
              deployedEntries (storageCache s)) \<and>
         (\<forall>code. providerGetCode e w = Inr code \<and> code \<noteq> ''0x'' \<longrightarrow>
            fst (walletDeployed e s w) = Return (Ok True) \<and>
            deployedEntries (storageCache (snd (walletDeployed e s w))) =
              (deployedEntries (storageCache s))(walletDeployedKey w (chainId c) \<mapsto> True))) \<and>
      getOnChainConfig e' (snd (walletDeployed e s w)) =
        (Return (Ok c), snd (walletDeployed e s w)) \<and>
      (\<forall>w' cid. 0 \<le> chainId c \<and> 0 \<le> cid \<and> (w' \<noteq> w \<or> cid \<noteq> chainId c) \<longrightarrow>
         getDeployedEntry (snd (walletDeployed e s w)) (walletDeployedKey w' cid) =
           getDeployedEntry s (walletDeployedKey w' cid))"
      by (rule conjI [OF p1 conjI [OF p2 conjI [OF p3 p4]]])
  qed
  have b: "(\<forall>c'. fst (getOnChainConfig e s) \<noteq> Return (Ok c')) \<longrightarrow>
      (\<forall>b. fst (walletDeployed e s w) \<noteq> Return (Ok b)) \<and>
      deployedEntries (storageCache (snd (walletDeployed e s w))) = deployedEntries (storageCache s)"
  proof
    assume n: "\<forall>c'. fst (getOnChainConfig e s) \<noteq> Return (Ok c')"
    obtain r s1 where run: "getOnChainConfig e s = (r, s1)" by (cases "getOnChainConfig e s")
    with n have "\<forall>c'. r \<noteq> Return (Ok c')" by simp
    from walletDeployed_no_config [OF run this, of w] getOnChainConfig_frame [OF run]
    show "(\<forall>b. fst (walletDeployed e s w) \<noteq> Return (Ok b)) \<and>
      deployedEntries (storageCache (snd (walletDeployed e s w))) = deployedEntries (storageCache s)"
      by simp
  qed
  have i: "\<forall>w1 w2 c1 c2. 0 \<le> c1 \<and> 0 \<le> c2 \<longrightarrow>
      (walletDeployedKey w1 c1 = walletDeployedKey w2 c2 \<longleftrightarrow> w1 = w2 \<and> c1 = c2)"
    using walletDeployedKey_inj by blast
  have d: "deployedEntries (storageCache (snd (walletDeployed e s w))) k \<noteq> deployedEntries (storageCache s) k \<longrightarrow>
      deployedEntries (storageCache (snd (walletDeployed e s w))) k = Some True \<and>
      (\<exists>code. providerGetCode e w = Inr code \<and> code \<noteq> ''0x'') \<and>
      (\<exists>c'. fst (getOnChainConfig e s) = Return (Ok c') \<and> k = walletDeployedKey w (chainId c'))"
    using walletDeployed_change [of e s w k] by blast
  note r = walletDeployed_repeat [of e s w e']
  show ?thesis
    by (rule conjI [OF a conjI [OF b conjI [OF i conjI [OF d r]]]])
qed

theorem walletDeployed_records_only_deployment_witness:
  "fst (walletDeployed partlyDeployedEnv freshSdk ''0xB1'') = Return (Ok True) \<and>
   deployedEntries (storageCache (snd (walletDeployed partlyDeployedEnv freshSdk ''0xB1''))) =
     (deployedEntries (storageCache freshSdk))(walletDeployedKey ''0xB1'' 5 \<mapsto> True) \<and>
   fst (walletDeployed partlyDeployedEnv (snd (walletDeployed partlyDeployedEnv freshSdk ''0xB1'')) ''0xB2'') =
     Return (Ok False) \<and>
   requests (snd (walletDeployed partlyDeployedEnv
       (snd (walletDeployed partlyDeployedEnv freshSdk ''0xB1'')) ''0xB2'')) =
     requests (snd (walletDeployed partlyDeployedEnv freshSdk ''0xB1'')) @ [ProviderGetCode ''0xB2''] \<and>
   walletDeployed demoEnv (snd (walletDeployed partlyDeployedEnv freshSdk ''0xB1'')) ''0xB1'' =
     (Return (Ok True), snd (walletDeployed partlyDeployedEnv freshSdk ''0xB1'')) \<and>
   fst (walletDeployed demoEnv freshSdk ''0xB1'') = Return (Ok False) \<and>
   requests (snd (walletDeployed deployedEnv (snd (walletDeployed demoEnv freshSdk ''0xB1'')) ''0xB1'')) =
     requests (snd (walletDeployed demoEnv freshSdk ''0xB1'')) @ [ProviderGetCode ''0xB1'']"
proof -
  let ?s1 = "snd (walletDeployed partlyDeployedEnv freshSdk ''0xB1'')"
  let ?k1 = "walletDeployedKey ''0xB1'' (chainId demoConfig)"
  let ?k2 = "walletDeployedKey ''0xB2'' (chainId demoConfig)"
  have cfg: "fst (getOnChainConfig partlyDeployedEnv freshSdk) = Return (Ok demoConfig)" by code_simp
  have cid: "chainId demoConfig = 5" by (simp add: demoConfig_def)
  have fresh1: "\<not> getDeployedEntry freshSdk ?k1"
    and fresh2: "\<not> getDeployedEntry freshSdk ?k2"
    by (simp_all add: getDeployedEntry_def freshSdk_def)
  have code1: "providerGetCode partlyDeployedEnv ''0xB1'' = Inr ''0x6080'' \<and> ''0x6080'' \<noteq> ''0x''"
    and code2: "providerGetCode partlyDeployedEnv ''0xB2'' = Inr ''0x''"
    by (simp_all add: partlyDeployedEnv_def)
  have other: "0 \<le> chainId demoConfig \<and> 0 \<le> chainId demoConfig \<and>
      (''0xB2'' \<noteq> ''0xB1'' \<or> chainId demoConfig \<noteq> chainId demoConfig)"
    by (simp add: demoConfig_def)
  note first = walletDeployed_records_only_deployment
    [of partlyDeployedEnv freshSdk demoConfig "''0xB1''" partlyDeployedEnv "''''"]
  note first_cfg = first [THEN conjunct1, THEN mp, OF cfg]
  note first_unset = first_cfg [THEN conjunct2, THEN conjunct1, THEN mp, OF fresh1]
  note first_code = first_unset [THEN conjunct2, THEN conjunct2, THEN conjunct2, THEN spec, THEN mp, OF code1]
  have t1: "fst (walletDeployed partlyDeployedEnv freshSdk ''0xB1'') = Return (Ok True)"
    by (rule first_code [THEN conjunct1])
  have e1: "deployedEntries (storageCache ?s1) =
       (deployedEntries (storageCache freshSdk))(walletDeployedKey ''0xB1'' 5 \<mapsto> True)"
    using first_code [THEN conjunct2] unfolding cid .
  note cfg1' = first_cfg [THEN conjunct2, THEN conjunct2, THEN conjunct1]
  have cfg1: "fst (getOnChainConfig partlyDeployedEnv ?s1) = Return (Ok demoConfig)"
    unfolding cfg1' by (rule fst_conv)
  have same1: "snd (getOnChainConfig partlyDeployedEnv ?s1) = ?s1"
    unfolding cfg1' by (rule snd_conv)
  note keep = first_cfg [THEN conjunct2, THEN conjunct2, THEN conjunct2, THEN spec, THEN spec, THEN mp, OF other]
  have f2: "\<not> getDeployedEntry ?s1 ?k2"
    unfolding keep by (rule fresh2)
  note second = walletDeployed_records_only_deployment
    [of partlyDeployedEnv ?s1 demoConfig "''0xB2''" partlyDeployedEnv "''''"]
  note second_unset = second [THEN conjunct1, THEN mp, OF cfg1, THEN conjunct2, THEN conjunct1, THEN mp, OF f2]
  have t2: "fst (walletDeployed partlyDeployedEnv ?s1 ''0xB2'') = Return (Ok False)"
    by (rule second_unset [THEN conjunct2, THEN conjunct2, THEN conjunct1, THEN mp, OF code2, THEN conjunct1])
  have r2: "requests (snd (walletDeployed partlyDeployedEnv ?s1 ''0xB2'')) =
       requests ?s1 @ [ProviderGetCode ''0xB2'']"
    using second_unset [THEN conjunct1] unfolding same1 .
  note again = walletDeployed_records_only_deployment
    [of partlyDeployedEnv freshSdk demoConfig "''0xB1''" demoEnv "''''"]
  have t3: "walletDeployed demoEnv ?s1 ''0xB1'' = (Return (Ok True), ?s1)"
    by (rule again [THEN conjunct2, THEN conjunct2, THEN conjunct2, THEN conjunct2, THEN conjunct2,
        THEN mp, OF t1])
  have u: "fst (walletDeployed demoEnv freshSdk ''0xB1'') = Return (Ok False)" by code_simp
  note undeployed = walletDeployed_records_only_deployment
    [of demoEnv freshSdk demoConfig "''0xB1''" deployedEnv "''''"]
  have t4: "requests (snd (walletDeployed deployedEnv (snd (walletDeployed demoEnv freshSdk ''0xB1'')) ''0xB1'')) =
     requests (snd (walletDeployed demoEnv freshSdk ''0xB1'')) @ [ProviderGetCode ''0xB1'']"
    by (rule undeployed [THEN conjunct2, THEN conjunct2, THEN conjunct2, THEN conjunct2, THEN conjunct1,
        THEN mp, OF u, THEN conjunct2, THEN conjunct2])
  show ?thesis
    by (rule conjI [OF t1 conjI [OF e1 conjI [OF t2 conjI [OF r2 conjI [OF t3 conjI [OF u t4]]]]]])
qed

end
